theory Spec2Isabelle
  imports Main "HOL-Library.Char_ord" "HOL-Library.List_Lexorder" "HOL-Library.Multiset"
begin

section \<open>Data model\<close>

text \<open>
  The league is stored as two collections, teams and matches.  Identifiers, names and
  free texts are strings; counters and goals are JavaScript numbers holding integers
  and are modelled as \<open>int\<close>; a field that is \<open>null\<close> is \<open>None\<close>.
\<close>

datatype status = Scheduled | Played | Postponed

record match =
  match_id :: string
  day :: int
  homeTeam :: string
  awayTeam :: string
  scheduledTime :: string
  homeGoals :: "int option"
  awayGoals :: "int option"
  status :: status
  bestPlayer :: "string option"
  postponementReason :: "string option"
  lastUpdated :: string

record statistics =
  played :: int
  won :: int
  drawn :: int
  lost :: int
  goalsFor :: int
  goalsAgainst :: int
  points :: int

record team =
  team_id :: string
  team_name :: string
  team_statistics :: statistics

section \<open>Numbers and \<open>parseInt\<close>\<close>

text \<open>
  A JavaScript number is a double.  The model covers the numbers that hold an integer of
  magnitude below \<open>2^53\<close> (\<open>Number.isSafeInteger\<close>): there the integer and the double
  determine each other, and addition, comparison and \<open>parseInt\<close> are exact.  Beyond that
  range the platform rounds a numeral to a double, and prints a number of magnitude
  \<open>10^21\<close> or more in exponent notation, so that \<open>parseInt\<close> reads back its first
  digit only; the model leaves the results of \<open>parseInt\<close> there unspecified, and every
  statement about such values is made under the hypothesis \<open>safe_integer\<close>.
\<close>

definition safe_integer :: "int \<Rightarrow> bool" where
  "safe_integer n \<longleftrightarrow> - (2 ^ 53) < n \<and> n < 2 ^ 53"

text \<open>The number that holds the integer \<open>n\<close>, known when \<open>n\<close> is in the safe range.\<close>

definition exact_number :: "int \<Rightarrow> int option" where
  "exact_number n = (if safe_integer n then Some n else undefined)"


text \<open>
  Values a caller passes where the engine expects goals: \<open>null\<close>, \<open>undefined\<close>, a
  number holding an integer, or a string (of Latin-1 characters).
\<close>

datatype jsval = JNull | JUndefined | JNum int | JStr string

text \<open>
  The global \<open>parseInt\<close> with no radix, after ECMA-262: leading white space is skipped,
  a sign is read, a prefix \<open>0x\<close> or \<open>0X\<close> selects radix 16, and the longest run of digits
  of the radix is the value; no digit gives \<open>NaN\<close>, here \<open>None\<close>.  What follows the
  digits is ignored.  The value is returned as a number.
\<close>

definition is_whitespace :: "char \<Rightarrow> bool" where
  "is_whitespace c \<longleftrightarrow> (of_char c :: nat) \<in> {9, 10, 11, 12, 13, 32, 160}"

definition digit_value :: "char \<Rightarrow> nat option" where
  "digit_value c =
     (let n = (of_char c :: nat) in
      if 48 \<le> n \<and> n \<le> 57 then Some (n - 48)
      else if 97 \<le> n \<and> n \<le> 122 then Some (n - 87)
      else if 65 \<le> n \<and> n \<le> 90 then Some (n - 55)
      else None)"

fun take_digits :: "nat \<Rightarrow> string \<Rightarrow> nat list" where
  "take_digits R [] = []"
| "take_digits R (c # cs) =
     (case digit_value c of
        Some d \<Rightarrow> if d < R then d # take_digits R cs else []
      | None \<Rightarrow> [])"

definition digits_value :: "nat \<Rightarrow> nat list \<Rightarrow> nat" where
  "digits_value R ds = foldl (\<lambda>acc d. acc * R + d) 0 ds"

definition strip_sign :: "string \<Rightarrow> int \<times> string" where
  "strip_sign S =
     (case S of
        c # cs \<Rightarrow> if c = CHR ''-'' then (- 1, cs) else if c = CHR ''+'' then (1, cs) else (1, S)
      | [] \<Rightarrow> (1, S))"

definition strip_prefix :: "string \<Rightarrow> nat \<times> string" where
  "strip_prefix S =
     (case S of
        a # b # cs \<Rightarrow>
          if a = CHR ''0'' \<and> (b = CHR ''x'' \<or> b = CHR ''X'') then (16, cs) else (10, S)
      | _ \<Rightarrow> (10, S))"

definition parseInt_string :: "string \<Rightarrow> int option" where
  "parseInt_string s =
     (let (sign, S1) = strip_sign (dropWhile is_whitespace s);
          (R, S2) = strip_prefix S1;
          Z = take_digits R S2
      in if Z = [] then None else exact_number (sign * int (digits_value R Z)))"

text \<open>
  \<open>parseInt\<close> turns its argument into a string first: \<open>null\<close> and \<open>undefined\<close> give
  words without a digit, and an integer in the safe range gives its decimal numeral,
  which is read back as the same integer.
\<close>

definition parseInt :: "jsval \<Rightarrow> int option" where
  "parseInt v =
     (case v of
        JNull \<Rightarrow> None
      | JUndefined \<Rightarrow> None
      | JNum n \<Rightarrow> exact_number n
      | JStr s \<Rightarrow> parseInt_string s)"

text \<open>\<open>a > b\<close> on the results of \<open>parseInt\<close>: false when either is \<open>NaN\<close>.\<close>

definition num_gt :: "int option \<Rightarrow> int option \<Rightarrow> bool" where
  "num_gt a b = (case (a, b) of (Some x, Some y) \<Rightarrow> x > y | _ \<Rightarrow> False)"

section \<open>Points rule (tournamentEngine.js, calculatePoints)\<close>

datatype match_result = home_win | away_win | draw | not_played

record points_result =
  homePoints :: int
  awayPoints :: int
  result :: match_result

text \<open>The constructor's \<open>pointsSystem\<close>: win 3, draw 1, loss 0.\<close>

definition pointsSystem_win :: int where "pointsSystem_win = 3"
definition pointsSystem_draw :: int where "pointsSystem_draw = 1"
definition pointsSystem_loss :: int where "pointsSystem_loss = 0"

text \<open>
  \<open>calculatePoints(matchResult)\<close>: a null goal gives \<open>not_played\<close> with no points;
  otherwise the two goals, which are numbers, go through \<open>parseInt\<close> and the results are
  compared.
\<close>

definition calculatePoints :: "match \<Rightarrow> points_result" where
  "calculatePoints m =
     (case (homeGoals m, awayGoals m) of
        (Some hg, Some ag) \<Rightarrow>
          let homeGoals' = parseInt (JNum hg);
              awayGoals' = parseInt (JNum ag)
          in if num_gt homeGoals' awayGoals' then
               \<lparr>homePoints = pointsSystem_win, awayPoints = pointsSystem_loss, result = home_win\<rparr>
             else if num_gt awayGoals' homeGoals' then
               \<lparr>homePoints = pointsSystem_loss, awayPoints = pointsSystem_win, result = away_win\<rparr>
             else
               \<lparr>homePoints = pointsSystem_draw, awayPoints = pointsSystem_draw, result = draw\<rparr>
      | _ \<Rightarrow> \<lparr>homePoints = 0, awayPoints = 0, result = not_played\<rparr>)"

text \<open>A concrete played match that ended 1-1.\<close>

definition drawn_match :: match where
  "drawn_match =
     \<lparr>match_id = ''m1'', day = 3, homeTeam = ''t1'', awayTeam = ''t2'',
      scheduledTime = ''21:00'', homeGoals = Some 1, awayGoals = Some 1, status = Played,
      bestPlayer = None, postponementReason = None, lastUpdated = ''''\<rparr>"

section \<open>Standings calculator (standingsEngine.js)\<close>

text \<open>
  A standings row carries the seven counters of \<open>statistics\<close> and, beside them, the
  team reference, the goal difference, the form (the letters W, D, L), the qualification
  flag and the position.  The display fields (short name, logo, colours, the Arabic
  qualification text) take no part in any computation and are left out.
\<close>

record row = statistics +
  teamId :: string
  teamName :: string
  goalDifference :: int
  form :: string
  qualified_flag :: bool
  position :: nat

definition playoffQualifiers :: nat where "playoffQualifiers = 4"

definition initial_row :: "team \<Rightarrow> row" where
  "initial_row t =
     \<lparr>played = 0, won = 0, drawn = 0, lost = 0, goalsFor = 0, goalsAgainst = 0, points = 0,
      teamId = team_id t, teamName = team_name t, goalDifference = 0, form = [],
      qualified_flag = False, position = 0\<rparr>"

text \<open>
  \<open>Array.prototype.find\<close> returns the first element that satisfies the predicate; the
  rows are then mutated in place, so the model finds the index and updates the list there.
\<close>

fun find_index :: "('a \<Rightarrow> bool) \<Rightarrow> 'a list \<Rightarrow> nat option" where
  "find_index P [] = None"
| "find_index P (x # xs) =
     (if P x then Some 0 else map_option Suc (find_index P xs))"

definition modify :: "nat \<Rightarrow> ('a \<Rightarrow> 'a) \<Rightarrow> 'a list \<Rightarrow> 'a list" where
  "modify i f xs = xs[i := f (xs ! i)]"

text \<open>In JavaScript arithmetic \<open>null\<close> counts as 0.\<close>

definition goal_num :: "int option \<Rightarrow> int" where
  "goal_num g = (case g of None \<Rightarrow> 0 | Some n \<Rightarrow> n)"

text \<open>\<open>form.slice(-5)\<close> when the form is longer than 5.\<close>

definition slice_form :: "string \<Rightarrow> string" where
  "slice_form f = (if length f > 5 then drop (length f - 5) f else f)"

definition push_form :: "char \<Rightarrow> row \<Rightarrow> row" where
  "push_form c r = r\<lparr>form := form r @ [c]\<rparr>"

text \<open>
  The body of the \<open>forEach\<close> over the played matches, statement by statement.  The home
  and the away row may be the same object (a match of a team against itself), so each
  statement is applied to the list in the source's order.
\<close>

definition process_match :: "match \<Rightarrow> row list \<Rightarrow> row list" where
  "process_match m rs =
     (case (find_index (\<lambda>r. teamId r = homeTeam m) rs,
            find_index (\<lambda>r. teamId r = awayTeam m) rs) of
        (Some h, Some a) \<Rightarrow>
          let pts = calculatePoints m;
              hg = goal_num (homeGoals m);
              ag = goal_num (awayGoals m);
              rs1 = modify h (\<lambda>r. r\<lparr>played := played r + 1, goalsFor := goalsFor r + hg,
                                     goalsAgainst := goalsAgainst r + ag,
                                     points := points r + homePoints pts\<rparr>) rs;
              rs2 = modify a (\<lambda>r. r\<lparr>played := played r + 1, goalsFor := goalsFor r + ag,
                                     goalsAgainst := goalsAgainst r + hg,
                                     points := points r + awayPoints pts\<rparr>) rs1;
              rs3 = (if result pts = home_win then
                       modify a (push_form CHR ''L'')
                         (modify h (push_form CHR ''W'')
                           (modify a (\<lambda>r. r\<lparr>lost := lost r + 1\<rparr>)
                             (modify h (\<lambda>r. r\<lparr>won := won r + 1\<rparr>) rs2)))
                     else if result pts = away_win then
                       modify h (push_form CHR ''L'')
                         (modify a (push_form CHR ''W'')
                           (modify h (\<lambda>r. r\<lparr>lost := lost r + 1\<rparr>)
                             (modify a (\<lambda>r. r\<lparr>won := won r + 1\<rparr>) rs2)))
                     else if result pts = draw then
                       modify a (push_form CHR ''D'')
                         (modify h (push_form CHR ''D'')
                           (modify a (\<lambda>r. r\<lparr>drawn := drawn r + 1\<rparr>)
                             (modify h (\<lambda>r. r\<lparr>drawn := drawn r + 1\<rparr>) rs2)))
                     else rs2)
          in modify a (\<lambda>r. r\<lparr>form := slice_form (form r)\<rparr>)
               (modify h (\<lambda>r. r\<lparr>form := slice_form (form r)\<rparr>) rs3)
      | _ \<Rightarrow> rs)"

definition is_played :: "match \<Rightarrow> bool" where
  "is_played m \<longleftrightarrow> status m = Played \<and> homeGoals m \<noteq> None \<and> awayGoals m \<noteq> None"

text \<open>\<open>forEach\<close> runs the body over the matches from first to last.\<close>

definition process_matches :: "match list \<Rightarrow> row list \<Rightarrow> row list" where
  "process_matches ms rs = fold process_match ms rs"

text \<open>
  \<open>Array.prototype.sort\<close> with a comparison function is a stable sort; it is modelled as
  an insertion sort that keeps the input order of elements that compare equal.  For a
  consistent comparison function every stable sort returns this list.
\<close>

fun insert_by :: "('a \<Rightarrow> 'a \<Rightarrow> int) \<Rightarrow> 'a \<Rightarrow> 'a list \<Rightarrow> 'a list" where
  "insert_by c x [] = [x]"
| "insert_by c x (y # ys) = (if c x y \<le> 0 then x # y # ys else y # insert_by c x ys)"

definition sort_by :: "('a \<Rightarrow> 'a \<Rightarrow> int) \<Rightarrow> 'a list \<Rightarrow> 'a list" where
  "sort_by c xs = foldr (insert_by c) xs []"

text \<open>
  The comparison function of \<open>applyTieBreakers\<close>.  \<open>String.prototype.localeCompare\<close>
  with the locale \<open>ar\<close> belongs to the platform; it is the parameter \<open>lc\<close>, which
  returns a negative number, zero or a positive number.
\<close>

definition compareRows :: "(string \<Rightarrow> string \<Rightarrow> int) \<Rightarrow> row \<Rightarrow> row \<Rightarrow> int" where
  "compareRows lc a b =
     (if points b \<noteq> points a then points b - points a
      else if goalDifference b \<noteq> goalDifference a then goalDifference b - goalDifference a
      else if goalsFor b \<noteq> goalsFor a then goalsFor b - goalsFor a
      else if goalsAgainst a \<noteq> goalsAgainst b then goalsAgainst a - goalsAgainst b
      else lc (teamName a) (teamName b))"

definition applyTieBreakers :: "(string \<Rightarrow> string \<Rightarrow> int) \<Rightarrow> row list \<Rightarrow> row list" where
  "applyTieBreakers lc teams = sort_by (compareRows lc) teams"

definition determineQualification :: "row list \<Rightarrow> row list" where
  "determineQualification sortedStandings =
     map (\<lambda>(index, r). r\<lparr>position := index + 1, qualified_flag := index < playoffQualifiers\<rparr>)
       (enumerate 0 sortedStandings)"

text \<open>
  \<open>calculateStandings\<close>: \<open>teamsData\<close> and \<open>matchesData\<close> are what the store returned
  (\<open>None\<close> for \<open>null\<close>); a missing collection raises inside the \<open>try\<close> and the result is
  the empty table.
\<close>

definition calculateStandings ::
  "(string \<Rightarrow> string \<Rightarrow> int) \<Rightarrow> team list option \<Rightarrow> match list option \<Rightarrow> row list" where
  "calculateStandings lc teamsData matchesData =
     (case (teamsData, matchesData) of
        (Some teams, Some matches) \<Rightarrow>
          let standings = map initial_row teams;
              playedMatches = filter is_played matches;
              standings1 = process_matches playedMatches standings;
              standings2 = map (\<lambda>r. r\<lparr>goalDifference := goalsFor r - goalsAgainst r\<rparr>) standings1
          in determineQualification (applyTieBreakers lc standings2)
      | _ \<Rightarrow> [])"

section \<open>The tie-break chain as the specification words it\<close>

text \<open>
  What is asked of the platform's \<open>localeCompare\<close>: it is a consistent comparison,
  that is, exchanging the arguments exchanges negative and positive, and being not after is
  transitive.  It may return zero on two different names: the collation of a locale
  ignores some characters and equates canonically equivalent spellings.
\<close>

definition consistent_cmp :: "(string \<Rightarrow> string \<Rightarrow> int) \<Rightarrow> bool" where
  "consistent_cmp lc \<longleftrightarrow>
     (\<forall>a b. lc a b < 0 \<longleftrightarrow> lc b a > 0) \<and>
     (\<forall>a b c. lc a b \<le> 0 \<and> lc b c \<le> 0 \<longrightarrow> lc a c \<le> 0)"

text \<open>The names of a list are distinguished when no two of them compare equal.\<close>

definition distinguished :: "(string \<Rightarrow> string \<Rightarrow> int) \<Rightarrow> string list \<Rightarrow> bool" where
  "distinguished lc names \<longleftrightarrow> sorted_wrt (\<lambda>a b. lc a b \<noteq> 0) names"

text \<open>
  The chain of step 4 of the specification: \<open>precedes lc a b\<close> when \<open>a\<close> ranks
  strictly above \<open>b\<close>.
\<close>

definition precedes :: "(string \<Rightarrow> string \<Rightarrow> int) \<Rightarrow> row \<Rightarrow> row \<Rightarrow> bool" where
  "precedes lc a b \<longleftrightarrow>
     points a > points b \<or>
     (points a = points b \<and>
       (goalDifference a > goalDifference b \<or>
        (goalDifference a = goalDifference b \<and>
          (goalsFor a > goalsFor b \<or>
           (goalsFor a = goalsFor b \<and>
             (goalsAgainst a < goalsAgainst b \<or>
              (goalsAgainst a = goalsAgainst b \<and> lc (teamName a) (teamName b) < 0)))))))"

text \<open>A name comparison by character codes, and three rows to sort.\<close>

definition lc_codepoint :: "string \<Rightarrow> string \<Rightarrow> int" where
  "lc_codepoint a b = (if a < b then - 1 else if a = b then 0 else 1)"

definition example_rows :: "row list" where
  "example_rows =
     [\<lparr>played = 2, won = 1, drawn = 0, lost = 1, goalsFor = 3, goalsAgainst = 3, points = 3,
       teamId = ''t1'', teamName = ''Beta'', goalDifference = 0, form = ''WL'',
       qualified_flag = False, position = 0\<rparr>,
      \<lparr>played = 2, won = 1, drawn = 0, lost = 1, goalsFor = 3, goalsAgainst = 3, points = 3,
       teamId = ''t2'', teamName = ''Alpha'', goalDifference = 0, form = ''LW'',
       qualified_flag = False, position = 0\<rparr>,
      \<lparr>played = 2, won = 1, drawn = 1, lost = 0, goalsFor = 2, goalsAgainst = 1, points = 4,
       teamId = ''t3'', teamName = ''Gamma'', goalDifference = 1, form = ''WD'',
       qualified_flag = False, position = 0\<rparr>]"

text \<open>
  The collation of the platform gives no weight to the soft hyphen (U+00AD), so that
  \<open>localeCompare\<close> is zero on two names that differ in soft hyphens only.  The comparison
  below ignores the soft hyphen in the same way and compares what is left by character
  codes.  The two rows have the same numbers, and names that differ in a soft hyphen.
\<close>

definition soft_hyphen :: char where "soft_hyphen = CHR 0xAD"

definition lc_ignoring_soft_hyphen :: "string \<Rightarrow> string \<Rightarrow> int" where
  "lc_ignoring_soft_hyphen a b =
     lc_codepoint (filter (\<lambda>c. c \<noteq> soft_hyphen) a) (filter (\<lambda>c. c \<noteq> soft_hyphen) b)"

definition tied_rows :: "row list" where
  "tied_rows =
     [\<lparr>played = 1, won = 0, drawn = 1, lost = 0, goalsFor = 1, goalsAgainst = 1, points = 1,
       teamId = ''t1'', teamName = ''A'', goalDifference = 0, form = ''D'',
       qualified_flag = False, position = 0\<rparr>,
      \<lparr>played = 1, won = 0, drawn = 1, lost = 0, goalsFor = 1, goalsAgainst = 1, points = 1,
       teamId = ''t2'', teamName = [CHR ''A'', soft_hyphen], goalDifference = 0, form = ''D'',
       qualified_flag = False, position = 0\<rparr>]"


section \<open>The form of a team as the specification words it\<close>

text \<open>
  Sorting by ascending day, as \<open>createMatch\<close> does before it saves with
  \<open>matches.sort((a, b) => a.day - b.day)\<close>.
\<close>

definition sortByDay :: "match list \<Rightarrow> match list" where
  "sortByDay ms = sort_by (\<lambda>a b. day a - day b) ms"

text \<open>
  The letters one match contributes to the form of team \<open>tid\<close>: the winner's letter is
  pushed before the loser's.
\<close>

definition letters_for :: "string \<Rightarrow> match \<Rightarrow> string" where
  "letters_for tid m =
     (case result (calculatePoints m) of
        home_win \<Rightarrow> (if homeTeam m = tid then ''W'' else '''') @ (if awayTeam m = tid then ''L'' else '''')
      | away_win \<Rightarrow> (if awayTeam m = tid then ''W'' else '''') @ (if homeTeam m = tid then ''L'' else '''')
      | draw \<Rightarrow> (if homeTeam m = tid then ''D'' else '''') @ (if awayTeam m = tid then ''D'' else '''')
      | not_played \<Rightarrow> '''')"

text \<open>A match counts when it is played with both goals and both of its teams are in the roster.\<close>

definition counted :: "string list \<Rightarrow> match \<Rightarrow> bool" where
  "counted ids m \<longleftrightarrow> is_played m \<and> homeTeam m \<in> set ids \<and> awayTeam m \<in> set ids"

definition results_in_order :: "string list \<Rightarrow> string \<Rightarrow> match list \<Rightarrow> string" where
  "results_in_order ids tid ms = concat (map (letters_for tid) (filter (counted ids) ms))"

definition last5 :: "string \<Rightarrow> string" where
  "last5 f = drop (length f - 5) f"

text \<open>The form of the row of team \<open>tid\<close> in a table.\<close>

fun form_of :: "string \<Rightarrow> row list \<Rightarrow> string option" where
  "form_of tid [] = None"
| "form_of tid (r # rs) = (if teamId r = tid then Some (form r) else form_of tid rs)"

text \<open>
  Two teams and two played matches between them, listed with the later day first:
  team t1 loses on day 3 and wins on day 5.
\<close>

definition zero_statistics :: statistics where
  "zero_statistics =
     \<lparr>played = 0, won = 0, drawn = 0, lost = 0, goalsFor = 0, goalsAgainst = 0, points = 0\<rparr>"

definition example_teams :: "team list" where
  "example_teams =
     [\<lparr>team_id = ''t1'', team_name = ''Alpha'', team_statistics = zero_statistics\<rparr>,
      \<lparr>team_id = ''t2'', team_name = ''Beta'', team_statistics = zero_statistics\<rparr>]"

definition unsorted_matches :: "match list" where
  "unsorted_matches =
     [\<lparr>match_id = ''m2'', day = 5, homeTeam = ''t1'', awayTeam = ''t2'',
       scheduledTime = ''21:00'', homeGoals = Some 2, awayGoals = Some 1, status = Played,
       bestPlayer = None, postponementReason = None, lastUpdated = ''''\<rparr>,
      \<lparr>match_id = ''m1'', day = 3, homeTeam = ''t1'', awayTeam = ''t2'',
       scheduledTime = ''21:00'', homeGoals = Some 0, awayGoals = Some 1, status = Played,
       bestPlayer = None, postponementReason = None, lastUpdated = ''''\<rparr>]"

text \<open>Both teams of the match are found among the rows.\<close>

definition in_roster :: "row list \<Rightarrow> match \<Rightarrow> bool" where
  "in_roster rs m \<longleftrightarrow> homeTeam m \<in> teamId ` set rs \<and> awayTeam m \<in> teamId ` set rs"

section \<open>Match engine (matchEngine.js)\<close>

text \<open>
  The store: the two collections as \<open>storage.load\<close> returns them (\<open>None\<close> when the
  key is missing or unreadable) and whether \<open>localStorage\<close> accepts a write.  \<open>load\<close>
  parses a fresh copy each time, so a change reaches the store only through \<open>save\<close>.
  A write refused for lack of room also starts a cleanup of old entries
  (\<open>handleStorageQuotaExceeded\<close>), which is not modelled: what is proved below is about
  calls that fail before any write, and about calls whose writes are accepted.
\<close>

record store =
  teamsData :: "team list option"
  matchesData :: "match list option"
  writable :: bool

datatype error =
    Match_ID_is_required
  | Valid_match_day_is_required
  | Home_and_away_teams_are_required
  | Home_and_away_teams_cannot_be_the_same
  | Match_day_must_be_between_3_and_23
  | Home_team_does_not_exist string
  | Away_team_does_not_exist string
  | Invalid_status
  | Invalid_home_team_goals
  | Invalid_away_team_goals
  | Invalid_time_format
  | Failed_to_load_matches_data
  | Match_already_exists string
  | Failed_to_save_match_data
  | Match_ID_and_result_are_required
  | Match_not_found string
  | Failed_to_save_match_result
  | Match_ID_and_status_are_required
  | Invalid_status_transition status status
  | Postponement_reason_is_required
  | Failed_to_save_match_status

text \<open>
  The argument of \<open>createMatch\<close>.  A field the caller leaves out is the empty string for
  the identifiers and \<open>None\<close> elsewhere; the goals are numbers or absent.
\<close>

record matchData =
  id_d :: string
  day_d :: "int option"
  homeTeam_d :: string
  awayTeam_d :: string
  scheduledTime_d :: "string option"
  homeGoals_d :: "int option"
  awayGoals_d :: "int option"
  status_d :: "string option"
  bestPlayer_d :: "string option"
  postponementReason_d :: "string option"

text \<open>The argument \<open>result\<close> of \<open>updateResult\<close>.\<close>

record resultData =
  homeGoals_r :: jsval
  awayGoals_r :: jsval
  bestPlayer_r :: "string option"

definition ramadanDayRange_min :: int where "ramadanDayRange_min = 3"

definition ramadanDayRange_max :: int where "ramadanDayRange_max = 23"

text \<open>\<open>validStatuses.includes(status)\<close>, and the status a valid name stands for.\<close>

definition status_of_string :: "string \<Rightarrow> status option" where
  "status_of_string s =
     (if s = ''scheduled'' then Some Scheduled
      else if s = ''played'' then Some Played
      else if s = ''postponed'' then Some Postponed
      else None)"

text \<open>A string or an absent value is truthy when it is a non-empty string.\<close>

definition truthy :: "string option \<Rightarrow> bool" where
  "truthy v = (case v of None \<Rightarrow> False | Some s \<Rightarrow> s \<noteq> [])"

text \<open>\<open>v || null\<close> on a number: 0 and an absent value give \<open>null\<close>.\<close>

definition or_null :: "int option \<Rightarrow> int option" where
  "or_null v = (case v of None \<Rightarrow> None | Some n \<Rightarrow> if n = 0 then None else Some n)"

definition str_or_null :: "string option \<Rightarrow> string option" where
  "str_or_null v = (if truthy v then v else None)"

text \<open>The regular expression \<open>/^([01]?[0-9]|2[0-3]):[0-5][0-9]$/\<close>.\<close>

definition is_digit :: "char \<Rightarrow> bool" where
  "is_digit c \<longleftrightarrow> 48 \<le> (of_char c :: nat) \<and> (of_char c :: nat) \<le> 57"

definition valid_time :: "string \<Rightarrow> bool" where
  "valid_time s =
     (case s of
        [h, c, m1, m2] \<Rightarrow>
          is_digit h \<and> c = CHR '':'' \<and> m1 \<in> set ''012345'' \<and> is_digit m2
      | [h1, h2, c, m1, m2] \<Rightarrow>
          ((h1 \<in> set ''01'' \<and> is_digit h2) \<or> (h1 = CHR ''2'' \<and> h2 \<in> set ''0123'')) \<and>
          c = CHR '':'' \<and> m1 \<in> set ''012345'' \<and> is_digit m2
      | _ \<Rightarrow> False)"

text \<open>
  \<open>validateMatchData\<close>: \<open>None\<close> for \<open>{valid: true}\<close>, the error otherwise.  The goals
  of the argument are numbers holding integers; \<open>parseInt\<close> of such a number is never
  \<open>NaN\<close> and has the sign of the number, so the test \<open>isNaN(g) || g < 0\<close> on the parsed
  goals is the test of the sign.
\<close>

definition validateMatchData :: "store \<Rightarrow> matchData \<Rightarrow> error option" where
  "validateMatchData st data =
     (if id_d data = [] then Some Match_ID_is_required
      else if day_d data = None \<or> day_d data = Some 0 then Some Valid_match_day_is_required
      else if homeTeam_d data = [] \<or> awayTeam_d data = [] then Some Home_and_away_teams_are_required
      else if homeTeam_d data = awayTeam_d data then Some Home_and_away_teams_cannot_be_the_same
      else if (case day_d data of None \<Rightarrow> False
               | Some d \<Rightarrow> d < ramadanDayRange_min \<or> d > ramadanDayRange_max)
        then Some Match_day_must_be_between_3_and_23
      else if (case teamsData st of None \<Rightarrow> False
               | Some teams \<Rightarrow> homeTeam_d data \<notin> set (map team_id teams))
        then Some (Home_team_does_not_exist (homeTeam_d data))
      else if (case teamsData st of None \<Rightarrow> False
               | Some teams \<Rightarrow> awayTeam_d data \<notin> set (map team_id teams))
        then Some (Away_team_does_not_exist (awayTeam_d data))
      else if (case status_d data of None \<Rightarrow> False
               | Some s \<Rightarrow> s \<noteq> [] \<and> status_of_string s = None)
        then Some Invalid_status
      else if (case homeGoals_d data of None \<Rightarrow> False | Some n \<Rightarrow> n < 0)
        then Some Invalid_home_team_goals
      else if (case awayGoals_d data of None \<Rightarrow> False | Some n \<Rightarrow> n < 0)
        then Some Invalid_away_team_goals
      else if (case scheduledTime_d data of None \<Rightarrow> False
               | Some t \<Rightarrow> t \<noteq> [] \<and> \<not> valid_time t)
        then Some Invalid_time_format
      else None)"

text \<open>\<open>storage.save(MATCHES, ...)\<close> and \<open>storage.save(TEAMS, ...)\<close>: the new store, or \<open>None\<close> when the write fails.\<close>

definition save_matches :: "store \<Rightarrow> match list \<Rightarrow> store option" where
  "save_matches st ms = (if writable st then Some (st\<lparr>matchesData := Some ms\<rparr>) else None)"

definition save_teams :: "store \<Rightarrow> team list \<Rightarrow> store option" where
  "save_teams st ts = (if writable st then Some (st\<lparr>teamsData := Some ts\<rparr>) else None)"

text \<open>
  \<open>createMatch\<close>; \<open>now\<close> is the time stamp \<open>new Date().toISOString()\<close>.  The result is
  the store after the call and either the error or the new match.
\<close>

definition createMatch :: "string \<Rightarrow> store \<Rightarrow> matchData \<Rightarrow> store \<times> (error + match)" where
  "createMatch now st data =
     (case validateMatchData st data of
        Some e \<Rightarrow> (st, Inl e)
      | None \<Rightarrow>
         (case matchesData st of
            None \<Rightarrow> (st, Inl Failed_to_load_matches_data)
          | Some ms \<Rightarrow>
              if find_index (\<lambda>m. match_id m = id_d data) ms \<noteq> None
              then (st, Inl (Match_already_exists (id_d data)))
              else
                let newMatch =
                      \<lparr>match_id = id_d data,
                       day = (case day_d data of Some d \<Rightarrow> d | None \<Rightarrow> 0),
                       homeTeam = homeTeam_d data,
                       awayTeam = awayTeam_d data,
                       scheduledTime = (case str_or_null (scheduledTime_d data) of
                                          Some t \<Rightarrow> t | None \<Rightarrow> ''21:00''),
                       homeGoals = or_null (homeGoals_d data),
                       awayGoals = or_null (awayGoals_d data),
                       status = (case status_d data of
                                   None \<Rightarrow> Scheduled
                                 | Some s \<Rightarrow> (case status_of_string s of
                                               Some v \<Rightarrow> v | None \<Rightarrow> Scheduled)),
                       bestPlayer = str_or_null (bestPlayer_d data),
                       postponementReason = str_or_null (postponementReason_d data),
                       lastUpdated = now\<rparr>
                in (case save_matches st (sortByDay (ms @ [newMatch])) of
                      None \<Rightarrow> (st, Inl Failed_to_save_match_data)
                    | Some st' \<Rightarrow> (st', Inr newMatch))))"

text \<open>
  The statistics of one match added to the two teams, as \<open>updateTeamStatistics\<close> and
  \<open>recalculateAllStatistics\<close> both do; the two teams may be the same object.
\<close>

definition upd_stats :: "(statistics \<Rightarrow> statistics) \<Rightarrow> team \<Rightarrow> team" where
  "upd_stats f t = t\<lparr>team_statistics := f (team_statistics t)\<rparr>"

definition add_match_statistics :: "match \<Rightarrow> nat \<Rightarrow> nat \<Rightarrow> team list \<Rightarrow> team list" where
  "add_match_statistics m h a ts =
     (let pts = calculatePoints m;
          hg = goal_num (homeGoals m);
          ag = goal_num (awayGoals m);
          ts1 = modify h (upd_stats (\<lambda>s. s\<lparr>played := played s + 1, goalsFor := goalsFor s + hg,
                                            goalsAgainst := goalsAgainst s + ag,
                                            points := points s + homePoints pts\<rparr>)) ts;
          ts2 = (if result pts = home_win then modify h (upd_stats (\<lambda>s. s\<lparr>won := won s + 1\<rparr>)) ts1
                 else if result pts = draw then modify h (upd_stats (\<lambda>s. s\<lparr>drawn := drawn s + 1\<rparr>)) ts1
                 else if result pts = away_win then modify h (upd_stats (\<lambda>s. s\<lparr>lost := lost s + 1\<rparr>)) ts1
                 else ts1);
          ts3 = modify a (upd_stats (\<lambda>s. s\<lparr>played := played s + 1, goalsFor := goalsFor s + ag,
                                            goalsAgainst := goalsAgainst s + hg,
                                            points := points s + awayPoints pts\<rparr>)) ts2
      in if result pts = away_win then modify a (upd_stats (\<lambda>s. s\<lparr>won := won s + 1\<rparr>)) ts3
         else if result pts = draw then modify a (upd_stats (\<lambda>s. s\<lparr>drawn := drawn s + 1\<rparr>)) ts3
         else if result pts = home_win then modify a (upd_stats (\<lambda>s. s\<lparr>lost := lost s + 1\<rparr>)) ts3
         else ts3)"

text \<open>
  \<open>updateTeamStatistics(match)\<close>: every failure is caught inside and leaves the store as
  it was.
\<close>

definition updateTeamStatistics :: "store \<Rightarrow> match \<Rightarrow> store" where
  "updateTeamStatistics st m =
     (if status m \<noteq> Played \<or> homeGoals m = None \<or> awayGoals m = None then st
      else case teamsData st of
        None \<Rightarrow> st
      | Some ts \<Rightarrow>
         (case (find_index (\<lambda>t. team_id t = homeTeam m) ts,
                find_index (\<lambda>t. team_id t = awayTeam m) ts) of
            (Some h, Some a) \<Rightarrow>
              (case save_teams st (add_match_statistics m h a ts) of
                 None \<Rightarrow> st | Some st' \<Rightarrow> st')
          | _ \<Rightarrow> st))"

text \<open>\<open>recalculateAllStatistics\<close>: reset every team, replay every played match, save.\<close>

definition reset_statistics :: "team \<Rightarrow> team" where
  "reset_statistics t =
     t\<lparr>team_statistics :=
         \<lparr>played = 0, won = 0, drawn = 0, lost = 0, goalsFor = 0, goalsAgainst = 0, points = 0\<rparr>\<rparr>"

definition replay_match :: "match \<Rightarrow> team list \<Rightarrow> team list" where
  "replay_match m ts =
     (case (find_index (\<lambda>t. team_id t = homeTeam m) ts,
            find_index (\<lambda>t. team_id t = awayTeam m) ts) of
        (Some h, Some a) \<Rightarrow> add_match_statistics m h a ts
      | _ \<Rightarrow> ts)"

definition recalculateAllStatistics :: "store \<Rightarrow> store" where
  "recalculateAllStatistics st =
     (case (teamsData st, matchesData st) of
        (Some ts, Some ms) \<Rightarrow>
          (case save_teams st (fold replay_match (filter is_played ms) (map reset_statistics ts)) of
             None \<Rightarrow> st | Some st' \<Rightarrow> st')
      | _ \<Rightarrow> st)"

text \<open>
  The validation of one goals value of \<open>updateResult\<close>: \<open>null\<close> and \<open>undefined\<close> leave
  the field as it is; any other value goes through \<open>parseInt\<close> and is rejected when the
  result is \<open>NaN\<close> or negative.
\<close>

definition validate_goals :: "error \<Rightarrow> jsval \<Rightarrow> int option \<Rightarrow> error + int option" where
  "validate_goals e v old =
     (if v \<noteq> JNull \<and> v \<noteq> JUndefined then
        (case parseInt v of
           None \<Rightarrow> Inl e
         | Some n \<Rightarrow> if n < 0 then Inl e else Inr (Some n))
      else Inr old)"

text \<open>
  The match after the assignments of \<open>updateResult\<close>: the validated goals, the status
  \<open>played\<close> once both goals are non-null, the best player when one is given, the time
  stamp.
\<close>

definition apply_result ::
  "string \<Rightarrow> match \<Rightarrow> int option \<Rightarrow> int option \<Rightarrow> string option \<Rightarrow> match" where
  "apply_result now m0 hg ag bp =
     (let m1 = m0\<lparr>homeGoals := hg, awayGoals := ag\<rparr>;
          m2 = (if homeGoals m1 \<noteq> None \<and> awayGoals m1 \<noteq> None
                then m1\<lparr>status := Played\<rparr> else m1);
          m3 = (if truthy bp then m2\<lparr>bestPlayer := bp\<rparr> else m2)
      in m3\<lparr>lastUpdated := now\<rparr>)"

definition updateResult ::
  "string \<Rightarrow> store \<Rightarrow> string \<Rightarrow> resultData option \<Rightarrow> store \<times> (error + match)" where
  "updateResult now st matchId res =
     (case res of
        None \<Rightarrow> (st, Inl Match_ID_and_result_are_required)
      | Some r \<Rightarrow>
          if matchId = [] then (st, Inl Match_ID_and_result_are_required)
          else (case matchesData st of
            None \<Rightarrow> (st, Inl Failed_to_load_matches_data)
          | Some ms \<Rightarrow>
             (case find_index (\<lambda>m. match_id m = matchId) ms of
                None \<Rightarrow> (st, Inl (Match_not_found matchId))
              | Some i \<Rightarrow>
                 (case validate_goals Invalid_home_team_goals (homeGoals_r r) (homeGoals (ms ! i)) of
                    Inl e \<Rightarrow> (st, Inl e)
                  | Inr hg \<Rightarrow>
                     (case validate_goals Invalid_away_team_goals (awayGoals_r r) (awayGoals (ms ! i)) of
                        Inl e \<Rightarrow> (st, Inl e)
                      | Inr ag \<Rightarrow>
                         (case save_matches st
                                 (ms[i := apply_result now (ms ! i) hg ag (bestPlayer_r r)]) of
                            None \<Rightarrow> (st, Inl Failed_to_save_match_result)
                          | Some st' \<Rightarrow>
                              ((if status (apply_result now (ms ! i) hg ag (bestPlayer_r r)) = Played
                                then updateTeamStatistics st'
                                       (apply_result now (ms ! i) hg ag (bestPlayer_r r))
                                else st'),
                               Inr (apply_result now (ms ! i) hg ag (bestPlayer_r r)))))))))"

text \<open>\<open>validateStatusTransition\<close>: the table of valid transitions.\<close>

fun validTransitions :: "status \<Rightarrow> status list" where
  "validTransitions Scheduled = [Played, Postponed]"
| "validTransitions Played = [Postponed]"
| "validTransitions Postponed = [Scheduled, Played]"

definition validateStatusTransition :: "status \<Rightarrow> status \<Rightarrow> error option" where
  "validateStatusTransition oldStatus newStatus =
     (if newStatus \<notin> set (validTransitions oldStatus)
      then Some (Invalid_status_transition oldStatus newStatus)
      else None)"

text \<open>
  \<open>setMatchStatus\<close>: the result is the store after the call and either the error or the
  match with its old status.
\<close>

definition setMatchStatus ::
  "string \<Rightarrow> store \<Rightarrow> string \<Rightarrow> string \<Rightarrow> string option \<Rightarrow> store \<times> (error + match \<times> status)" where
  "setMatchStatus now st matchId stat reason =
     (if matchId = [] \<or> stat = [] then (st, Inl Match_ID_and_status_are_required)
      else case status_of_string stat of
        None \<Rightarrow> (st, Inl Invalid_status)
      | Some newStatus \<Rightarrow>
         (case matchesData st of
            None \<Rightarrow> (st, Inl Failed_to_load_matches_data)
          | Some ms \<Rightarrow>
             (case find_index (\<lambda>m. match_id m = matchId) ms of
                None \<Rightarrow> (st, Inl (Match_not_found matchId))
              | Some i \<Rightarrow>
                  let oldStatus = status (ms ! i) in
                  (case validateStatusTransition oldStatus newStatus of
                     Some e \<Rightarrow> (st, Inl e)
                   | None \<Rightarrow>
                       let m1 = (ms ! i)\<lparr>status := newStatus, lastUpdated := now\<rparr> in
                       if newStatus = Postponed \<and> \<not> truthy reason
                       then (st, Inl Postponement_reason_is_required)
                       else
                         let m2 = (if newStatus = Postponed then
                                     (let m' = m1\<lparr>postponementReason := reason\<rparr> in
                                      if oldStatus = Played
                                      then m'\<lparr>homeGoals := None, awayGoals := None, bestPlayer := None\<rparr>
                                      else m')
                                   else m1\<lparr>postponementReason := None\<rparr>)
                         in (case save_matches st (ms[i := m2]) of
                               None \<Rightarrow> (st, Inl Failed_to_save_match_status)
                             | Some st' \<Rightarrow>
                                 ((if oldStatus = Played \<and> newStatus \<noteq> Played
                                   then recalculateAllStatistics st'
                                   else if newStatus = Played \<and> homeGoals m2 \<noteq> None \<and> awayGoals m2 \<noteq> None
                                   then updateTeamStatistics st' m2
                                   else st'),
                                  Inr (m2, oldStatus)))))))"

text \<open>The data-model invariant of a match record.\<close>

definition match_invariant :: "match \<Rightarrow> bool" where
  "match_invariant m \<longleftrightarrow>
     ((homeGoals m = None) = (awayGoals m = None)) \<and>
     (homeGoals m \<noteq> None \<longrightarrow> status m = Played) \<and>
     ((postponementReason m \<noteq> None) = (status m = Postponed))"

text \<open>The five transitions of the specification.\<close>

definition allowed_transitions :: "(status \<times> status) set" where
  "allowed_transitions =
     {(Scheduled, Played), (Scheduled, Postponed), (Postponed, Scheduled),
      (Postponed, Played), (Played, Postponed)}"

text \<open>A played match between the two example teams.\<close>

definition example_played_match :: match where
  "example_played_match =
     \<lparr>match_id = ''m1'', day = 3, homeTeam = ''t1'', awayTeam = ''t2'',
      scheduledTime = ''21:00'', homeGoals = Some 2, awayGoals = Some 1, status = Played,
      bestPlayer = Some ''Sami'', postponementReason = None, lastUpdated = ''''\<rparr>"

definition set_status_match :: "string \<Rightarrow> match \<Rightarrow> status \<Rightarrow> string option \<Rightarrow> match" where
  "set_status_match now m new reason =
     (if new = Postponed then
        (if status m = Played
         then m\<lparr>status := new, lastUpdated := now, postponementReason := reason,
                homeGoals := None, awayGoals := None, bestPlayer := None\<rparr>
         else m\<lparr>status := new, lastUpdated := now, postponementReason := reason\<rparr>)
      else m\<lparr>status := new, lastUpdated := now, postponementReason := None\<rparr>)"

text \<open>The matches of a store (none when the collection is missing).\<close>

definition persisted_matches :: "store \<Rightarrow> match list" where
  "persisted_matches st = (case matchesData st of None \<Rightarrow> [] | Some ms \<Rightarrow> ms)"

text \<open>
  The statistics of team \<open>tid\<close> that a list of matches accounts for: the matches in which
  it is the home team and those in which it is the away team are counted, its wins, draws
  and defeats among them, and its goals and points are summed.
\<close>

definition expected_statistics :: "string \<Rightarrow> match list \<Rightarrow> statistics" where
  "expected_statistics tid ms =
     (let hs = filter (\<lambda>m. homeTeam m = tid) ms;
          as = filter (\<lambda>m. awayTeam m = tid) ms
      in \<lparr>played = int (length hs) + int (length as),
          won = int (length (filter (\<lambda>m. result (calculatePoints m) = home_win) hs)) +
                int (length (filter (\<lambda>m. result (calculatePoints m) = away_win) as)),
          drawn = int (length (filter (\<lambda>m. result (calculatePoints m) = draw) hs)) +
                  int (length (filter (\<lambda>m. result (calculatePoints m) = draw) as)),
          lost = int (length (filter (\<lambda>m. result (calculatePoints m) = away_win) hs)) +
                 int (length (filter (\<lambda>m. result (calculatePoints m) = home_win) as)),
          goalsFor = sum_list (map (\<lambda>m. goal_num (homeGoals m)) hs) +
                     sum_list (map (\<lambda>m. goal_num (awayGoals m)) as),
          goalsAgainst = sum_list (map (\<lambda>m. goal_num (awayGoals m)) hs) +
                         sum_list (map (\<lambda>m. goal_num (homeGoals m)) as),
          points = sum_list (map (\<lambda>m. homePoints (calculatePoints m)) hs) +
                   sum_list (map (\<lambda>m. awayPoints (calculatePoints m)) as)\<rparr>)"

text \<open>
  The goals recorded in a list of matches, added up.  When this total is in the safe range
  every sum of goals that the engine forms over the list is exact.
\<close>

definition goals_total :: "match list \<Rightarrow> int" where
  "goals_total ms =
     sum_list (map (\<lambda>m. \<bar>goal_num (homeGoals m)\<bar> + \<bar>goal_num (awayGoals m)\<bar>) ms)"

text \<open>The sum of two statistics, counter by counter.\<close>

definition add_statistics :: "statistics \<Rightarrow> statistics \<Rightarrow> statistics" where
  "add_statistics s d =
     \<lparr>played = played s + played d, won = won s + won d, drawn = drawn s + drawn d,
      lost = lost s + lost d, goalsFor = goalsFor s + goalsFor d,
      goalsAgainst = goalsAgainst s + goalsAgainst d, points = points s + points d\<rparr>"

text \<open>
  A store with two played matches between the two example teams, a 2-1 and a 1-1, and the
  statistics of the teams that go with them.
\<close>

definition second_played_match :: match where
  "second_played_match =
     \<lparr>match_id = ''m2'', day = 4, homeTeam = ''t2'', awayTeam = ''t1'',
      scheduledTime = ''21:00'', homeGoals = Some 1, awayGoals = Some 1, status = Played,
      bestPlayer = None, postponementReason = None, lastUpdated = ''''\<rparr>"

definition played_store :: store where
  "played_store =
     \<lparr>teamsData = Some
        [\<lparr>team_id = ''t1'', team_name = ''Alpha'', team_statistics =
           \<lparr>played = 2, won = 1, drawn = 1, lost = 0, goalsFor = 3, goalsAgainst = 2, points = 4\<rparr>\<rparr>,
         \<lparr>team_id = ''t2'', team_name = ''Beta'', team_statistics =
           \<lparr>played = 2, won = 0, drawn = 1, lost = 1, goalsFor = 2, goalsAgainst = 3, points = 1\<rparr>\<rparr>],
      matchesData = Some [example_played_match, second_played_match],
      writable = True\<rparr>"

text \<open>A store with the two example teams and one scheduled match between them.\<close>

definition example_scheduled_match :: match where
  "example_scheduled_match =
     \<lparr>match_id = ''m1'', day = 3, homeTeam = ''t1'', awayTeam = ''t2'',
      scheduledTime = ''21:00'', homeGoals = None, awayGoals = None, status = Scheduled,
      bestPlayer = None, postponementReason = None, lastUpdated = ''''\<rparr>"

definition example_scheduled_store :: store where
  "example_scheduled_store =
     \<lparr>teamsData = Some example_teams, matchesData = Some [example_scheduled_match],
      writable = True\<rparr>"

text \<open>A store with the two example teams and one postponed match between them.\<close>

definition example_postponed_match :: match where
  "example_postponed_match =
     \<lparr>match_id = ''m1'', day = 3, homeTeam = ''t1'', awayTeam = ''t2'',
      scheduledTime = ''21:00'', homeGoals = None, awayGoals = None, status = Postponed,
      bestPlayer = None, postponementReason = Some ''rain'', lastUpdated = ''''\<rparr>"

definition example_postponed_store :: store where
  "example_postponed_store =
     \<lparr>teamsData = Some example_teams, matchesData = Some [example_postponed_match],
      writable = True\<rparr>"

text \<open>A store with the two example teams and no match, and a new match that ended 0-0.\<close>

definition example_empty_store :: store where
  "example_empty_store =
     \<lparr>teamsData = Some example_teams, matchesData = Some [], writable = True\<rparr>"

definition goalless_matchData :: matchData where
  "goalless_matchData =
     \<lparr>id_d = ''m9'', day_d = Some 4, homeTeam_d = ''t1'', awayTeam_d = ''t2'',
      scheduledTime_d = None, homeGoals_d = Some 0, awayGoals_d = Some 0,
      status_d = Some ''played'', bestPlayer_d = None, postponementReason_d = None\<rparr>"

text \<open>
  Two new matches with the goals 2 and 1: one with no status given, one with the status
  played.
\<close>

definition scored_matchData :: matchData where
  "scored_matchData =
     \<lparr>id_d = ''m8'', day_d = Some 5, homeTeam_d = ''t1'', awayTeam_d = ''t2'',
      scheduledTime_d = None, homeGoals_d = Some 2, awayGoals_d = Some 1,
      status_d = None, bestPlayer_d = None, postponementReason_d = None\<rparr>"

definition played_matchData :: matchData where
  "played_matchData =
     \<lparr>id_d = ''m7'', day_d = Some 6, homeTeam_d = ''t1'', awayTeam_d = ''t2'',
      scheduledTime_d = None, homeGoals_d = Some 2, awayGoals_d = Some 1,
      status_d = Some ''played'', bestPlayer_d = None, postponementReason_d = None\<rparr>"

text \<open>
  A string that begins with a decimal numeral: \<open>ds\<close> is a non-empty run of decimal digits,
  what follows it does not begin with a digit, and the whole does not begin with the
  prefix \<open>0x\<close>.  The value of the numeral.
\<close>

definition leading_numeral :: "string \<Rightarrow> string \<Rightarrow> bool" where
  "leading_numeral ds rest \<longleftrightarrow>
     ds \<noteq> [] \<and> (\<forall>c\<in>set ds. is_digit c) \<and>
     (case rest of
        [] \<Rightarrow> True
      | c # cs \<Rightarrow> \<not> is_digit c \<and> (ds = ''0'' \<longrightarrow> c \<noteq> CHR ''x'' \<and> c \<noteq> CHR ''X''))"

definition decimal_value :: "string \<Rightarrow> nat" where
  "decimal_value ds = digits_value 10 (map (\<lambda>c. of_char c - 48) ds)"

text \<open>A goals value that \<open>updateResult\<close> validates: neither \<open>null\<close> nor \<open>undefined\<close>.\<close>

definition supplied :: "jsval \<Rightarrow> bool" where
  "supplied v \<longleftrightarrow> v \<noteq> JNull \<and> v \<noteq> JUndefined"

text \<open>What \<open>parseInt\<close> does not accept as goals: \<open>NaN\<close> or a negative integer.\<close>

definition parse_rejected :: "jsval \<Rightarrow> bool" where
  "parse_rejected v = (case parseInt v of None \<Rightarrow> True | Some n \<Rightarrow> n < 0)"

section \<open>Playoff engine (unnamed/part_002, class PlayoffEngine)\<close>

text \<open>
  A playoff match references its two teams, each with its seed and standings row, and
  carries the goals, the status, the winner and loser and the penalty shoot-out outcome.
  The final also names the champion and the runner-up.  Names of matches, dates and venues
  are display data and are left out.  A goals field is \<open>None\<close> when it is null or
  \<open>NaN\<close>.
\<close>

record bracket_team =
  bt_id :: string
  bt_name :: string
  seed :: nat
  stats :: row

datatype playoff_status = Pm_scheduled | Pm_pending | Pm_completed

record penalty =
  penalty_winner :: string

record playoff_match =
  pm_id :: string
  pm_homeTeam :: "bracket_team option"
  pm_awayTeam :: "bracket_team option"
  pm_status :: playoff_status
  pm_homeGoals :: "int option"
  pm_awayGoals :: "int option"
  winner :: "bracket_team option"
  loser :: "bracket_team option"
  penaltyResult :: "penalty option"

record final_match = playoff_match +
  champion :: "bracket_team option"
  runnerUp :: "bracket_team option"

datatype phase = Phase_playoffs | Phase_completed

record metadata =
  generated :: string
  qualifiedTeams :: "row list"
  tournamentPhase :: phase
  md_champion :: "bracket_team option"
  md_runnerUp :: "bracket_team option"
  completedDate :: "string option"

record bracket =
  semifinals :: "playoff_match list"
  final :: final_match
  thirdPlace :: playoff_match
  metadata :: metadata

text \<open>
  The engine holds the bracket in the field \<open>bracketStructure\<close> and mutates it in
  place; \<open>saveBracket\<close> writes it to the store under the key \<open>salfoon_playoffs\<close>, which
  may refuse the write, and \<open>loadBracket\<close> reads it back.
\<close>

record playoff_engine =
  bracketStructure :: "bracket option"
  salfoon_playoffs :: "bracket option"
  storage_writable :: bool

text \<open>
  The errors raised inside the operations.  Each operation catches its error, logs it
  and returns \<open>null\<close>; the model returns the error in place of that \<open>null\<close>.
\<close>

datatype playoff_error =
    Need_at_least_4_teams
  | Type_error
  | Semifinal_not_found string
  | Draw_result_requires_penalty_shootout_result
  | Final_match_not_ready
  | Final_draw_requires_penalty_shootout_result

definition saveBracket :: "playoff_engine \<Rightarrow> playoff_engine" where
  "saveBracket eng =
     (if storage_writable eng then eng\<lparr>salfoon_playoffs := bracketStructure eng\<rparr> else eng)"

definition loadBracket :: "playoff_engine \<Rightarrow> playoff_engine" where
  "loadBracket eng = eng\<lparr>bracketStructure := salfoon_playoffs eng\<rparr>"

definition getTeamName :: "store \<Rightarrow> string \<Rightarrow> string" where
  "getTeamName st tid =
     (case teamsData st of
        None \<Rightarrow> tid
      | Some ts \<Rightarrow>
         (case find (\<lambda>t. team_id t = tid) ts of
            Some t \<Rightarrow> team_name t
          | None \<Rightarrow> tid))"

definition seeded_team :: "store \<Rightarrow> row \<Rightarrow> nat \<Rightarrow> bracket_team" where
  "seeded_team st r n =
     \<lparr>bt_id = teamId r, bt_name = getTeamName st (teamId r), seed = n, stats = r\<rparr>"

definition new_semifinal :: "string \<Rightarrow> bracket_team \<Rightarrow> bracket_team \<Rightarrow> playoff_match" where
  "new_semifinal i h a =
     \<lparr>pm_id = i, pm_homeTeam = Some h, pm_awayTeam = Some a, pm_status = Pm_scheduled,
      pm_homeGoals = None, pm_awayGoals = None, winner = None, loser = None,
      penaltyResult = None\<rparr>"

text \<open>
  \<open>generatePlayoffBracket\<close>: the standings are computed from the store; with fewer than
  four rows the operation fails; otherwise the first four rows are seeded 1 against 4 and
  2 against 3.  \<open>now\<close> is the time stamp.
\<close>

definition generatePlayoffBracket ::
  "(string \<Rightarrow> string \<Rightarrow> int) \<Rightarrow> string \<Rightarrow> store \<Rightarrow> playoff_engine \<Rightarrow>
   playoff_engine \<times> (playoff_error + bracket)" where
  "generatePlayoffBracket lc now st eng =
     (let currentStandings = calculateStandings lc (teamsData st) (matchesData st) in
      if length currentStandings < 4 then (eng, Inl Need_at_least_4_teams)
      else
        let qualified = take 4 currentStandings;
            b = \<lparr>semifinals =
                   [new_semifinal ''semi-1'' (seeded_team st (qualified ! 0) 1)
                                             (seeded_team st (qualified ! 3) 4),
                    new_semifinal ''semi-2'' (seeded_team st (qualified ! 1) 2)
                                             (seeded_team st (qualified ! 2) 3)],
                 final =
                   \<lparr>pm_id = ''final'', pm_homeTeam = None, pm_awayTeam = None,
                    pm_status = Pm_pending, pm_homeGoals = None, pm_awayGoals = None,
                    winner = None, loser = None, penaltyResult = None,
                    champion = None, runnerUp = None\<rparr>,
                 thirdPlace =
                   \<lparr>pm_id = ''third-place'', pm_homeTeam = None, pm_awayTeam = None,
                    pm_status = Pm_pending, pm_homeGoals = None, pm_awayGoals = None,
                    winner = None, loser = None, penaltyResult = None\<rparr>,
                 metadata =
                   \<lparr>generated = now, qualifiedTeams = qualified,
                    tournamentPhase = Phase_playoffs, md_champion = None, md_runnerUp = None,
                    completedDate = None\<rparr>\<rparr>
        in (saveBracket (eng\<lparr>bracketStructure := Some b\<rparr>), Inr b))"

text \<open>
  \<open>updateBracketProgression\<close>.  Both conditions are evaluated left to right, and reading
  a field of a semifinal that the array does not have raises a type error; that happens
  before anything is changed.
\<close>

definition updateBracketProgression :: "bracket \<Rightarrow> playoff_error + bracket" where
  "updateBracketProgression b =
     (case semifinals b of
        [] \<Rightarrow> Inl Type_error
      | [semi1] \<Rightarrow> if winner semi1 \<noteq> None \<or> loser semi1 \<noteq> None then Inl Type_error else Inr b
      | semi1 # semi2 # _ \<Rightarrow>
          let b1 = (if winner semi1 \<noteq> None \<and> winner semi2 \<noteq> None
                    then b\<lparr>final := (final b)\<lparr>pm_homeTeam := winner semi1,
                                               pm_awayTeam := winner semi2,
                                               pm_status := Pm_scheduled\<rparr>\<rparr>
                    else b)
          in Inr (if loser semi1 \<noteq> None \<and> loser semi2 \<noteq> None
                  then b1\<lparr>thirdPlace := (thirdPlace b1)\<lparr>pm_homeTeam := loser semi1,
                                                          pm_awayTeam := loser semi2,
                                                          pm_status := Pm_scheduled\<rparr>\<rparr>
                  else b1))"

text \<open>
  The three assignments \<open>homeGoals = parseInt(homeGoals)\<close>, \<open>awayGoals =
  parseInt(awayGoals)\<close>, \<open>status = 'completed'\<close> that open \<open>updateSemifinalResult\<close> and
  \<open>updateFinalResult\<close>, and the test that neither side has more goals.
\<close>

definition with_goals :: "'a playoff_match_scheme \<Rightarrow> jsval \<Rightarrow> jsval \<Rightarrow> 'a playoff_match_scheme" where
  "with_goals m hGoals aGoals =
     m\<lparr>pm_homeGoals := parseInt hGoals, pm_awayGoals := parseInt aGoals,
       pm_status := Pm_completed\<rparr>"

definition level :: "'a playoff_match_scheme \<Rightarrow> bool" where
  "level m \<longleftrightarrow> \<not> num_gt (pm_homeGoals m) (pm_awayGoals m) \<and>
               \<not> num_gt (pm_awayGoals m) (pm_homeGoals m)"

text \<open>The winner and loser of a semifinal: by goals, and by the penalty outcome when level.\<close>

definition decide_semifinal :: "playoff_match \<Rightarrow> penalty option \<Rightarrow> playoff_match" where
  "decide_semifinal s1 pen =
     (if num_gt (pm_homeGoals s1) (pm_awayGoals s1)
      then s1\<lparr>winner := pm_homeTeam s1, loser := pm_awayTeam s1\<rparr>
      else if num_gt (pm_awayGoals s1) (pm_homeGoals s1)
      then s1\<lparr>winner := pm_awayTeam s1, loser := pm_homeTeam s1\<rparr>
      else
        (case pen of
           Some p \<Rightarrow>
             if penalty_winner p = ''home''
             then s1\<lparr>penaltyResult := pen, winner := pm_homeTeam s1, loser := pm_awayTeam s1\<rparr>
             else s1\<lparr>penaltyResult := pen, winner := pm_awayTeam s1, loser := pm_homeTeam s1\<rparr>
         | None \<Rightarrow> s1))"

text \<open>
  \<open>updateSemifinalResult\<close>.  The goals and the status \<open>completed\<close> are written to the
  semifinal before the winner is determined, so they stay in \<open>bracketStructure\<close> when the
  draw without a penalty outcome raises; the bracket is saved only at the end.
\<close>

definition updateSemifinalResult ::
  "playoff_engine \<Rightarrow> string \<Rightarrow> jsval \<Rightarrow> jsval \<Rightarrow> penalty option \<Rightarrow>
   playoff_engine \<times> (playoff_error + playoff_match)" where
  "updateSemifinalResult eng0 matchId hGoals aGoals pen =
     (let eng = (if bracketStructure eng0 = None then loadBracket eng0 else eng0) in
      case bracketStructure eng of
        None \<Rightarrow> (eng, Inl Type_error)
      | Some b \<Rightarrow>
         (case find_index (\<lambda>m. pm_id m = matchId) (semifinals b) of
            None \<Rightarrow> (eng, Inl (Semifinal_not_found matchId))
          | Some i \<Rightarrow>
              if level (with_goals (semifinals b ! i) hGoals aGoals) \<and> pen = None
              then (eng\<lparr>bracketStructure :=
                          Some (b\<lparr>semifinals :=
                                    (semifinals b)[i := with_goals (semifinals b ! i) hGoals aGoals]\<rparr>)\<rparr>,
                    Inl Draw_result_requires_penalty_shootout_result)
              else
                (case updateBracketProgression
                        (b\<lparr>semifinals :=
                             (semifinals b)[i := decide_semifinal
                                                   (with_goals (semifinals b ! i) hGoals aGoals) pen]\<rparr>) of
                   Inl e \<Rightarrow>
                     (eng\<lparr>bracketStructure :=
                             Some (b\<lparr>semifinals :=
                                       (semifinals b)[i := decide_semifinal
                                          (with_goals (semifinals b ! i) hGoals aGoals) pen]\<rparr>)\<rparr>,
                      Inl e)
                 | Inr b' \<Rightarrow>
                     (saveBracket (eng\<lparr>bracketStructure := Some b'\<rparr>),
                      Inr (decide_semifinal (with_goals (semifinals b ! i) hGoals aGoals) pen)))))"

text \<open>The champion and runner-up of the final, decided as in the semifinal.\<close>

definition decide_final :: "final_match \<Rightarrow> penalty option \<Rightarrow> final_match" where
  "decide_final f1 pen =
     (if num_gt (pm_homeGoals f1) (pm_awayGoals f1)
      then f1\<lparr>winner := pm_homeTeam f1, champion := pm_homeTeam f1, runnerUp := pm_awayTeam f1\<rparr>
      else if num_gt (pm_awayGoals f1) (pm_homeGoals f1)
      then f1\<lparr>winner := pm_awayTeam f1, champion := pm_awayTeam f1, runnerUp := pm_homeTeam f1\<rparr>
      else
        (case pen of
           Some p \<Rightarrow>
             if penalty_winner p = ''home''
             then f1\<lparr>penaltyResult := pen, winner := pm_homeTeam f1,
                     champion := pm_homeTeam f1, runnerUp := pm_awayTeam f1\<rparr>
             else f1\<lparr>penaltyResult := pen, winner := pm_awayTeam f1,
                     champion := pm_awayTeam f1, runnerUp := pm_homeTeam f1\<rparr>
         | None \<Rightarrow> f1))"

text \<open>
  \<open>updateFinalResult\<close>; it does not load the bracket.  As in the semifinal, the goals and
  the status are written before the champion is determined.
\<close>

definition updateFinalResult ::
  "string \<Rightarrow> playoff_engine \<Rightarrow> jsval \<Rightarrow> jsval \<Rightarrow> penalty option \<Rightarrow>
   playoff_engine \<times> (playoff_error + final_match)" where
  "updateFinalResult now eng hGoals aGoals pen =
     (case bracketStructure eng of
        None \<Rightarrow> (eng, Inl Final_match_not_ready)
      | Some b \<Rightarrow>
          if pm_homeTeam (final b) = None then (eng, Inl Final_match_not_ready)
          else if level (with_goals (final b) hGoals aGoals) \<and> pen = None
          then (eng\<lparr>bracketStructure := Some (b\<lparr>final := with_goals (final b) hGoals aGoals\<rparr>)\<rparr>,
                Inl Final_draw_requires_penalty_shootout_result)
          else
            (saveBracket
               (eng\<lparr>bracketStructure := Some
                  (b\<lparr>final := decide_final (with_goals (final b) hGoals aGoals) pen,
                     metadata := (metadata b)
                       \<lparr>tournamentPhase := Phase_completed,
                        md_champion := champion (decide_final (with_goals (final b) hGoals aGoals) pen),
                        md_runnerUp := runnerUp (decide_final (with_goals (final b) hGoals aGoals) pen),
                        completedDate := Some now\<rparr>\<rparr>)\<rparr>),
             Inr (decide_final (with_goals (final b) hGoals aGoals) pen)))"

text \<open>
  A league of four teams without played matches, an engine that has generated nothing
  yet, and the engine after generating the bracket.
\<close>

definition league_store :: store where
  "league_store =
     \<lparr>teamsData = Some
        [\<lparr>team_id = ''t1'', team_name = ''Alpha'', team_statistics = zero_statistics\<rparr>,
         \<lparr>team_id = ''t2'', team_name = ''Bravo'', team_statistics = zero_statistics\<rparr>,
         \<lparr>team_id = ''t3'', team_name = ''Charlie'', team_statistics = zero_statistics\<rparr>,
         \<lparr>team_id = ''t4'', team_name = ''Delta'', team_statistics = zero_statistics\<rparr>],
      matchesData = Some [], writable = True\<rparr>"

definition fresh_engine :: playoff_engine where
  "fresh_engine = \<lparr>bracketStructure = None, salfoon_playoffs = None, storage_writable = True\<rparr>"

definition generated_engine :: playoff_engine where
  "generated_engine = fst (generatePlayoffBracket lc_codepoint ''t0'' league_store fresh_engine)"

text \<open>The semifinals the engine holds in memory, and the ids of their winners.\<close>

definition memory_semifinals :: "playoff_engine \<Rightarrow> playoff_match list" where
  "memory_semifinals eng = (case bracketStructure eng of None \<Rightarrow> [] | Some b \<Rightarrow> semifinals b)"

definition winner_id :: "playoff_match \<Rightarrow> string option" where
  "winner_id m = map_option bt_id (winner m)"

text \<open>The team of a playoff match is the row \<open>r\<close> with seed \<open>n\<close>.\<close>

definition seeded_as :: "bracket_team option \<Rightarrow> row \<Rightarrow> nat \<Rightarrow> bool" where
  "seeded_as t r n =
     (case t of None \<Rightarrow> False | Some bt \<Rightarrow> bt_id bt = teamId r \<and> stats bt = r \<and> seed bt = n)"

text \<open>The semifinals in the store.\<close>

definition stored_semifinals :: "playoff_engine \<Rightarrow> playoff_match list" where
  "stored_semifinals eng = (case salfoon_playoffs eng of None \<Rightarrow> [] | Some b \<Rightarrow> semifinals b)"

text \<open>The status of the final the engine holds.\<close>

definition memory_final_status :: "playoff_engine \<Rightarrow> playoff_status option" where
  "memory_final_status eng =
     (case bracketStructure eng of None \<Rightarrow> None | Some b \<Rightarrow> Some (pm_status (final b)))"

text \<open>The engine after a 2-2 in the first semifinal was submitted without a penalty outcome.\<close>

definition after_failed_draw :: playoff_engine where
  "after_failed_draw =
     fst (updateSemifinalResult generated_engine ''semi-1'' (JNum 2) (JNum 2) None)"

text \<open>The engine after both semifinals of the generated bracket were won by the home side.\<close>

definition after_semifinals :: playoff_engine where
  "after_semifinals =
     fst (updateSemifinalResult
            (fst (updateSemifinalResult generated_engine ''semi-1'' (JNum 2) (JNum 1) None))
            ''semi-2'' (JNum 3) (JNum 0) None)"

text \<open>
  A bracket in which the first semifinal was won by the seed 1 against the seed 4 and the
  second by the seed 2 against the seed 3, before the progression has run.
\<close>

definition example_team :: "string \<Rightarrow> string \<Rightarrow> nat \<Rightarrow> bracket_team" where
  "example_team i n s =
     \<lparr>bt_id = i, bt_name = n, seed = s,
      stats = initial_row \<lparr>team_id = i, team_name = n, team_statistics = zero_statistics\<rparr>\<rparr>"

definition resolved_semi1 :: playoff_match where
  "resolved_semi1 =
     (new_semifinal ''semi-1'' (example_team ''t1'' ''Alpha'' 1) (example_team ''t4'' ''Delta'' 4))
       \<lparr>pm_status := Pm_completed, pm_homeGoals := Some 2, pm_awayGoals := Some 1,
        winner := Some (example_team ''t1'' ''Alpha'' 1),
        loser := Some (example_team ''t4'' ''Delta'' 4)\<rparr>"

definition resolved_semi2 :: playoff_match where
  "resolved_semi2 =
     (new_semifinal ''semi-2'' (example_team ''t2'' ''Bravo'' 2) (example_team ''t3'' ''Charlie'' 3))
       \<lparr>pm_status := Pm_completed, pm_homeGoals := Some 3, pm_awayGoals := Some 0,
        winner := Some (example_team ''t2'' ''Bravo'' 2),
        loser := Some (example_team ''t3'' ''Charlie'' 3)\<rparr>"

definition resolved_bracket :: bracket where
  "resolved_bracket =
     \<lparr>semifinals = [resolved_semi1, resolved_semi2],
      final =
        \<lparr>pm_id = ''final'', pm_homeTeam = None, pm_awayTeam = None,
         pm_status = Pm_pending, pm_homeGoals = None, pm_awayGoals = None,
         winner = None, loser = None, penaltyResult = None,
         champion = None, runnerUp = None\<rparr>,
      thirdPlace =
        \<lparr>pm_id = ''third-place'', pm_homeTeam = None, pm_awayTeam = None,
         pm_status = Pm_pending, pm_homeGoals = None, pm_awayGoals = None,
         winner = None, loser = None, penaltyResult = None\<rparr>,
      metadata =
        \<lparr>generated = ''t0'', qualifiedTeams = [],
         tournamentPhase = Phase_playoffs, md_champion = None, md_runnerUp = None,
         completedDate = None\<rparr>\<rparr>"

text \<open>The phase and the champion of the bracket the engine holds.\<close>

definition memory_phase :: "playoff_engine \<Rightarrow> phase option" where
  "memory_phase eng =
     (case bracketStructure eng of None \<Rightarrow> None | Some b \<Rightarrow> Some (tournamentPhase (metadata b)))"

definition memory_champion_id :: "playoff_engine \<Rightarrow> string option" where
  "memory_champion_id eng =
     (case bracketStructure eng of
        None \<Rightarrow> None
      | Some b \<Rightarrow> map_option bt_id (md_champion (metadata b)))"

text \<open>The engine after the first semifinal ended 2-1, and after the final ended 1-0.\<close>

definition after_semi1 :: playoff_engine where
  "after_semi1 = fst (updateSemifinalResult generated_engine ''semi-1'' (JNum 2) (JNum 1) None)"

definition after_final :: playoff_engine where
  "after_final = fst (updateFinalResult ''t1'' after_semifinals (JNum 1) (JNum 0) None)"

text \<open>
  A completed tournament written out: both semifinals resolved, the final won 1-0 by the
  seed 1, the phase completed.
\<close>

definition completed_bracket :: bracket where
  "completed_bracket =
     resolved_bracket
       \<lparr>final :=
          \<lparr>pm_id = ''final'', pm_homeTeam = Some (example_team ''t1'' ''Alpha'' 1),
           pm_awayTeam = Some (example_team ''t2'' ''Bravo'' 2),
           pm_status = Pm_completed, pm_homeGoals = Some 1, pm_awayGoals = Some 0,
           winner = Some (example_team ''t1'' ''Alpha'' 1), loser = None, penaltyResult = None,
           champion = Some (example_team ''t1'' ''Alpha'' 1),
           runnerUp = Some (example_team ''t2'' ''Bravo'' 2)\<rparr>,
        metadata :=
          \<lparr>generated = ''t0'', qualifiedTeams = [],
           tournamentPhase = Phase_completed,
           md_champion = Some (example_team ''t1'' ''Alpha'' 1),
           md_runnerUp = Some (example_team ''t2'' ''Bravo'' 2),
           completedDate = Some ''t1''\<rparr>\<rparr>"

definition completed_engine :: playoff_engine where
  "completed_engine =
     \<lparr>bracketStructure = Some completed_bracket, salfoon_playoffs = Some completed_bracket,
      storage_writable = True\<rparr>"
section \<open>Properties of the points rule\<close>

lemmas pointsSystem_defs = pointsSystem_win_def pointsSystem_draw_def pointsSystem_loss_def

text \<open>
  Claim C5 as stated (every played match with non-null goals distributes exactly 3 points)
  fails: a played 1-1 draw gives one point to each side, 2 in total.
\<close>

theorem C5_conservation_counterexample:
  "status drawn_match = Played \<and> homeGoals drawn_match \<noteq> None \<and> awayGoals drawn_match \<noteq> None \<and>
   homePoints (calculatePoints drawn_match) + awayPoints (calculatePoints drawn_match) \<noteq> 3"
  by (simp add: drawn_match_def calculatePoints_def pointsSystem_defs parseInt_def
        exact_number_def safe_integer_def num_gt_def)

text \<open>
  Claim C5, amended: for every match with non-null goals the points rule gives 3-0, 0-3
  or 1-1 and nothing else; when the two goals are integers in the safe range it gives 3-0
  to the side with more goals (3 points in total) and 1-1 when the goals are equal
  (2 points in total).
\<close>

theorem C5_points_distribution:
  assumes "homeGoals m = Some hg" and "awayGoals m = Some ag"
  shows "(homePoints (calculatePoints m), awayPoints (calculatePoints m))
           \<in> {(3, 0), (0, 3), (1, 1)} \<and>
         (safe_integer hg \<and> safe_integer ag \<longrightarrow>
           (hg > ag \<longrightarrow> homePoints (calculatePoints m) = 3 \<and> awayPoints (calculatePoints m) = 0) \<and>
           (ag > hg \<longrightarrow> homePoints (calculatePoints m) = 0 \<and> awayPoints (calculatePoints m) = 3) \<and>
           (hg = ag \<longrightarrow> homePoints (calculatePoints m) = 1 \<and> awayPoints (calculatePoints m) = 1) \<and>
           homePoints (calculatePoints m) + awayPoints (calculatePoints m) =
             (if hg = ag then 2 else 3))"
proof
  show "(homePoints (calculatePoints m), awayPoints (calculatePoints m))
          \<in> {(3, 0), (0, 3), (1, 1)}"
    using assms by (simp add: calculatePoints_def pointsSystem_defs Let_def)
next
  show "safe_integer hg \<and> safe_integer ag \<longrightarrow>
          (hg > ag \<longrightarrow> homePoints (calculatePoints m) = 3 \<and> awayPoints (calculatePoints m) = 0) \<and>
          (ag > hg \<longrightarrow> homePoints (calculatePoints m) = 0 \<and> awayPoints (calculatePoints m) = 3) \<and>
          (hg = ag \<longrightarrow> homePoints (calculatePoints m) = 1 \<and> awayPoints (calculatePoints m) = 1) \<and>
          homePoints (calculatePoints m) + awayPoints (calculatePoints m) =
            (if hg = ag then 2 else 3)"
    using assms
    by (simp add: calculatePoints_def pointsSystem_defs parseInt_def exact_number_def num_gt_def)
qed

theorem C5_points_distribution_witness:
  "safe_integer 1 \<and> safe_integer 2 \<and>
   homePoints (calculatePoints drawn_match) = 1 \<and> awayPoints (calculatePoints drawn_match) = 1 \<and>
   homePoints (calculatePoints (drawn_match\<lparr>homeGoals := Some 2\<rparr>)) = 3 \<and>
   awayPoints (calculatePoints (drawn_match\<lparr>homeGoals := Some 2\<rparr>)) = 0"
  using C5_points_distribution [of drawn_match 1 1]
        C5_points_distribution [of "drawn_match\<lparr>homeGoals := Some 2\<rparr>" 2 1]
  by (simp add: drawn_match_def safe_integer_def)

section \<open>Properties of the standings sort\<close>

lemma compareRows_neg_iff: "compareRows lc a b < 0 \<longleftrightarrow> precedes lc a b"
  unfolding compareRows_def precedes_def by auto

lemma compareRows_zero_iff:
  "compareRows lc a b = 0 \<longleftrightarrow>
     points a = points b \<and> goalDifference a = goalDifference b \<and> goalsFor a = goalsFor b \<and>
     goalsAgainst a = goalsAgainst b \<and> lc (teamName a) (teamName b) = 0"
  unfolding compareRows_def by auto

lemma mset_insert_by: "mset (insert_by c x xs) = add_mset x (mset xs)"
  by (induction xs) auto

lemma mset_sort_by: "mset (sort_by c xs) = mset xs"
  unfolding sort_by_def by (induction xs) (auto simp: mset_insert_by)

lemma set_insert_by: "set (insert_by c x xs) = insert x (set xs)"
  by (induction xs) auto

lemma set_sort_by: "set (sort_by c xs) = set xs"
  using arg_cong[OF mset_sort_by, of set_mset c xs] by simp

lemma sorted_insert_by:
  assumes tot: "\<And>a b. c a b \<le> 0 \<or> c b a \<le> 0"
      and tr: "\<And>a b d. c a b \<le> 0 \<Longrightarrow> c b d \<le> 0 \<Longrightarrow> c a d \<le> 0"
      and "sorted_wrt (\<lambda>a b. c a b \<le> 0) xs"
  shows "sorted_wrt (\<lambda>a b. c a b \<le> 0) (insert_by c x xs)"
  using assms(3)
proof (induction xs)
  case Nil
  then show ?case by simp
next
  case (Cons y ys)
  show ?case
  proof (cases "c x y \<le> 0")
    case True
    then show ?thesis using Cons.prems tr by auto
  next
    case False
    then have "c y x \<le> 0" using tot by blast
    then show ?thesis using False Cons by (auto simp: set_insert_by)
  qed
qed

lemma sorted_sort_by:
  assumes tot: "\<And>a b. c a b \<le> 0 \<or> c b a \<le> 0"
      and tr: "\<And>a b d. c a b \<le> 0 \<Longrightarrow> c b d \<le> 0 \<Longrightarrow> c a d \<le> 0"
  shows "sorted_wrt (\<lambda>a b. c a b \<le> 0) (sort_by c xs)"
  unfolding sort_by_def
proof (induction xs)
  case Nil
  then show ?case by simp
next
  case (Cons x xs)
  then show ?case using sorted_insert_by[of c, OF tot tr] by simp
qed

lemma modify_preserves:
  assumes "\<And>r. g (f r) = g r"
  shows "map g (modify i f xs) = map g xs"
proof (cases "i < length xs")
  case True
  then show ?thesis unfolding modify_def by (simp add: map_update assms list_update_same_conv)
next
  case False
  then have "xs[i := f (xs ! i)] = xs" by (intro list_update_beyond) simp
  then show ?thesis unfolding modify_def by (rule arg_cong)
qed


lemma teamName_process_match: "map teamName (process_match m rs) = map teamName rs"
  unfolding process_match_def Let_def
  by (simp add: modify_preserves push_form_def split: option.splits)

lemma teamName_process_matches: "map teamName (process_matches ms rs) = map teamName rs"
  unfolding process_matches_def
  by (induction ms arbitrary: rs) (simp_all add: teamName_process_match)

lemma length_determineQualification: "length (determineQualification xs) = length xs"
  unfolding determineQualification_def by simp

lemma nth_determineQualification:
  "i < length xs \<Longrightarrow>
   determineQualification xs ! i = (xs ! i)\<lparr>position := i + 1, qualified_flag := i < playoffQualifiers\<rparr>"
  unfolding determineQualification_def by (simp add: nth_enumerate_eq)

lemma precedes_cong:
  assumes "points a' = points a" "goalDifference a' = goalDifference a" "goalsFor a' = goalsFor a"
          "goalsAgainst a' = goalsAgainst a" "teamName a' = teamName a"
          "points b' = points b" "goalDifference b' = goalDifference b" "goalsFor b' = goalsFor b"
          "goalsAgainst b' = goalsAgainst b" "teamName b' = teamName b"
  shows "precedes lc a' b' = precedes lc a b"
  unfolding precedes_def using assms by simp

lemma sorted_determineQualification:
  assumes "sorted_wrt (precedes lc) xs"
  shows "sorted_wrt (precedes lc) (determineQualification xs)"
  unfolding sorted_wrt_iff_nth_less length_determineQualification
proof (intro allI impI)
  fix i j assume "i < j" "j < length xs"
  then have "precedes lc (xs ! i) (xs ! j)"
    using assms unfolding sorted_wrt_iff_nth_less by blast
  moreover have "precedes lc (determineQualification xs ! i) (determineQualification xs ! j)
      = precedes lc (xs ! i) (xs ! j)"
    using \<open>i < j\<close> \<open>j < length xs\<close>
    by (intro precedes_cong) (simp_all add: nth_determineQualification)
  ultimately show "precedes lc (determineQualification xs ! i) (determineQualification xs ! j)"
    by simp
qed

lemma consistent_cmp_lc_codepoint: "consistent_cmp lc_codepoint"
  unfolding consistent_cmp_def lc_codepoint_def by auto

lemma consistent_cmp_lc_ignoring_soft_hyphen: "consistent_cmp lc_ignoring_soft_hyphen"
  using consistent_cmp_lc_codepoint
  unfolding consistent_cmp_def lc_ignoring_soft_hyphen_def by blast

lemma compareRows_antisym:
  assumes "consistent_cmp lc"
  shows "compareRows lc a b < 0 \<longleftrightarrow> compareRows lc b a > 0"
proof -
  have "lc (teamName a) (teamName b) < 0 \<longleftrightarrow> lc (teamName b) (teamName a) > 0"
    using assms unfolding consistent_cmp_def by blast
  then show ?thesis unfolding compareRows_def by auto
qed

lemma compareRows_trans:
  assumes "consistent_cmp lc" "compareRows lc a b \<le> 0" "compareRows lc b c \<le> 0"
  shows "compareRows lc a c \<le> 0"
proof -
  have T: "lc (teamName a) (teamName b) \<le> 0 \<Longrightarrow> lc (teamName b) (teamName c) \<le> 0
           \<Longrightarrow> lc (teamName a) (teamName c) \<le> 0"
    using assms(1) unfolding consistent_cmp_def by blast
  show ?thesis using assms(2,3) T unfolding compareRows_def by (auto split: if_splits)
qed

lemma compareRows_total:
  assumes "consistent_cmp lc"
  shows "compareRows lc a b \<le> 0 \<or> compareRows lc b a \<le> 0"
  using compareRows_antisym[OF assms, of b a] by linarith

lemma compareRows_zero_sym:
  assumes "consistent_cmp lc"
  shows "compareRows lc a b = 0 \<longleftrightarrow> compareRows lc b a = 0"
  using compareRows_antisym[OF assms, of a b] compareRows_antisym[OF assms, of b a] by linarith

lemma precedes_asym:
  assumes "consistent_cmp lc" "precedes lc a b"
  shows "\<not> precedes lc b a"
  using assms(2) compareRows_antisym[OF assms(1), of a b]
  unfolding compareRows_neg_iff[symmetric] by linarith

lemma precedes_trans:
  assumes "consistent_cmp lc" "precedes lc a b" "precedes lc b c"
  shows "precedes lc a c"
proof -
  have ac: "compareRows lc a c \<le> 0"
    using compareRows_trans[OF assms(1), of a b c] assms(2,3)
    unfolding compareRows_neg_iff[symmetric] by simp
  have "compareRows lc a c \<noteq> 0"
  proof
    assume "compareRows lc a c = 0"
    then have "compareRows lc c a \<le> 0" using compareRows_zero_sym[OF assms(1), of a c] by simp
    then have "compareRows lc c b \<le> 0"
      using compareRows_trans[OF assms(1), of c a b] assms(2)
      unfolding compareRows_neg_iff[symmetric] by simp
    then show False
      using assms(3) compareRows_antisym[OF assms(1), of b c]
      unfolding compareRows_neg_iff[symmetric] by simp
  qed
  then show ?thesis using ac unfolding compareRows_neg_iff[symmetric] by simp
qed

lemma precedes_total:
  assumes "consistent_cmp lc"
  shows "precedes lc a b \<or> precedes lc b a \<or> compareRows lc a b = 0"
  using compareRows_antisym[OF assms, of b a]
  unfolding compareRows_neg_iff[symmetric] by linarith

text \<open>The sort is stable: rows that compare equal keep the order of the input.\<close>

lemma filter_insert_by:
  assumes sym: "\<And>a b. c a b < 0 \<longleftrightarrow> c b a > 0"
      and tr: "\<And>a b d. c a b \<le> 0 \<Longrightarrow> c b d \<le> 0 \<Longrightarrow> c a d \<le> 0"
  shows "filter (\<lambda>r. c z r = 0) (insert_by c x ys) = filter (\<lambda>r. c z r = 0) (x # ys)"
proof (induction ys)
  case Nil
  then show ?case by simp
next
  case (Cons y ys)
  show ?case
  proof (cases "c x y \<le> 0")
    case True
    then show ?thesis by simp
  next
    case False
    have "\<not> (c z x = 0 \<and> c z y = 0)"
    proof
      assume a: "c z x = 0 \<and> c z y = 0"
      then have "c x z \<le> 0" using sym[of x z] sym[of z x] by linarith
      then have "c x y \<le> 0" using tr[of x z y] a by simp
      then show False using False by simp
    qed
    then show ?thesis using False Cons.IH by auto
  qed
qed

lemma filter_sort_by:
  assumes sym: "\<And>a b. c a b < 0 \<longleftrightarrow> c b a > 0"
      and tr: "\<And>a b d. c a b \<le> 0 \<Longrightarrow> c b d \<le> 0 \<Longrightarrow> c a d \<le> 0"
  shows "filter (\<lambda>r. c z r = 0) (sort_by c xs) = filter (\<lambda>r. c z r = 0) xs"
proof (induction xs)
  case Nil
  then show ?case by (simp add: sort_by_def)
next
  case (Cons x xs)
  have "sort_by c (x # xs) = insert_by c x (sort_by c xs)" by (simp add: sort_by_def)
  then show ?case using filter_insert_by[of c z x "sort_by c xs", OF sym tr] Cons.IH by simp
qed

text \<open>A symmetric relation that holds between every two rows holds so after the sort.\<close>

lemma pairwise_insert_by:
  assumes "\<And>a b. R a b \<Longrightarrow> R b a"
  shows "sorted_wrt R (insert_by c x ys) \<longleftrightarrow> sorted_wrt R (x # ys)"
  using assms by (induction ys) (auto simp: set_insert_by)

lemma pairwise_sort_by:
  assumes "\<And>a b. R a b \<Longrightarrow> R b a"
  shows "sorted_wrt R (sort_by c xs) \<longleftrightarrow> sorted_wrt R xs"
proof (induction xs)
  case Nil
  then show ?case by (simp add: sort_by_def)
next
  case (Cons x xs)
  have "sort_by c (x # xs) = insert_by c x (sort_by c xs)" by (simp add: sort_by_def)
  then show ?case
    using pairwise_insert_by[of R c x "sort_by c xs", OF assms] Cons.IH
    by (simp add: set_sort_by)
qed


lemma applyTieBreakers_weakly_sorted:
  assumes "consistent_cmp lc"
  shows "sorted_wrt (\<lambda>a b. \<not> precedes lc b a) (applyTieBreakers lc rows)"
proof -
  have "sorted_wrt (\<lambda>a b. compareRows lc a b \<le> 0) (sort_by (compareRows lc) rows)"
    by (rule sorted_sort_by) (use compareRows_total compareRows_trans assms in blast)+
  moreover have "compareRows lc a b \<le> 0 \<Longrightarrow> \<not> precedes lc b a" for a b
    using compareRows_antisym[OF assms, of b a] unfolding compareRows_neg_iff[symmetric] by simp
  ultimately show ?thesis
    unfolding applyTieBreakers_def by (rule sorted_wrt_mono_rel[rotated]) simp
qed

lemma distinguished_sym:
  assumes "consistent_cmp lc" "lc a b \<noteq> 0"
  shows "lc b a \<noteq> 0"
proof -
  have "lc a b < 0 \<longleftrightarrow> lc b a > 0" "lc b a < 0 \<longleftrightarrow> lc a b > 0"
    using assms(1) unfolding consistent_cmp_def by blast+
  then show ?thesis using assms(2) by linarith
qed

lemma applyTieBreakers_strictly_sorted:
  assumes "consistent_cmp lc" and "distinguished lc (map teamName rows)"
  shows "sorted_wrt (precedes lc) (applyTieBreakers lc rows)"
proof -
  let ?S = "applyTieBreakers lc rows"
  have w: "sorted_wrt (\<lambda>a b. \<not> precedes lc b a) ?S"
    by (rule applyTieBreakers_weakly_sorted[OF assms(1)])
  have "sorted_wrt (\<lambda>a b. lc (teamName a) (teamName b) \<noteq> 0) rows"
    using assms(2) unfolding distinguished_def by (simp add: sorted_wrt_map)
  then have d: "sorted_wrt (\<lambda>a b. lc (teamName a) (teamName b) \<noteq> 0) ?S"
    unfolding applyTieBreakers_def
    by (subst pairwise_sort_by) (use distinguished_sym[OF assms(1)] in blast)+
  show ?thesis
    unfolding sorted_wrt_iff_nth_less
  proof (intro allI impI)
    fix i j assume ij: "i < j" "j < length ?S"
    have "\<not> precedes lc (?S ! j) (?S ! i)"
      using w ij unfolding sorted_wrt_iff_nth_less by blast
    moreover have "lc (teamName (?S ! i)) (teamName (?S ! j)) \<noteq> 0"
      using d ij unfolding sorted_wrt_iff_nth_less by blast
    then have "compareRows lc (?S ! i) (?S ! j) \<noteq> 0"
      by (simp add: compareRows_zero_iff)
    ultimately show "precedes lc (?S ! i) (?S ! j)"
      using precedes_total[OF assms(1), of "?S ! i" "?S ! j"] by blast
  qed
qed

lemma weakly_sorted_determineQualification:
  assumes "sorted_wrt (\<lambda>a b. \<not> precedes lc b a) xs"
  shows "sorted_wrt (\<lambda>a b. \<not> precedes lc b a) (determineQualification xs)"
  unfolding sorted_wrt_iff_nth_less length_determineQualification
proof (intro allI impI)
  fix i j assume "i < j" "j < length xs"
  then have "\<not> precedes lc (xs ! j) (xs ! i)"
    using assms unfolding sorted_wrt_iff_nth_less by blast
  moreover have "precedes lc (determineQualification xs ! j) (determineQualification xs ! i)
      = precedes lc (xs ! j) (xs ! i)"
    using \<open>i < j\<close> \<open>j < length xs\<close>
    by (intro precedes_cong) (simp_all add: nth_determineQualification)
  ultimately show "\<not> precedes lc (determineQualification xs ! j) (determineQualification xs ! i)"
    by simp
qed

lemma calculateStandings_names:
  "map teamName (map (\<lambda>r. r\<lparr>goalDifference := goalsFor r - goalsAgainst r\<rparr>)
     (process_matches (filter is_played ms) (map initial_row teams))) = map team_name teams"
  by (simp add: comp_def teamName_process_matches[unfolded comp_def] initial_row_def)

lemma calculateStandings_weakly_sorted:
  assumes "consistent_cmp lc"
  shows "sorted_wrt (\<lambda>a b. \<not> precedes lc b a) (calculateStandings lc (Some teams) (Some ms))"
  unfolding calculateStandings_def Let_def
  by (simp add: weakly_sorted_determineQualification applyTieBreakers_weakly_sorted[OF assms])

lemma calculateStandings_strictly_sorted:
  assumes "consistent_cmp lc" and "distinguished lc (map team_name teams)"
  shows "sorted_wrt (precedes lc) (calculateStandings lc (Some teams) (Some ms))"
proof -
  define rs where "rs = map (\<lambda>r. r\<lparr>goalDifference := goalsFor r - goalsAgainst r\<rparr>)
     (process_matches (filter is_played ms) (map initial_row teams))"
  have "map teamName rs = map team_name teams"
    unfolding rs_def by (rule calculateStandings_names)
  then have "distinguished lc (map teamName rs)" using assms(2) by simp
  then have "sorted_wrt (precedes lc) (applyTieBreakers lc rs)"
    using applyTieBreakers_strictly_sorted[OF assms(1)] by blast
  then show ?thesis
    unfolding calculateStandings_def rs_def Let_def
    by (simp add: sorted_determineQualification)
qed

text \<open>
  Claim C1 as stated (no two distinct rows compare equal unless their names are identical)
  fails: a locale comparison returns zero on names that differ in ignored characters.  Two
  rows with the same numbers and the names A and A followed by a soft hyphen compare equal
  under a comparison that ignores the soft hyphen, neither precedes the other, and the sort
  returns them in the order of the input, whichever it is.
\<close>

theorem C1_equal_rows_counterexample:
  "distinct (map teamName tied_rows) \<and>
   tied_rows ! 0 \<noteq> tied_rows ! 1 \<and>
   teamName (tied_rows ! 0) \<noteq> teamName (tied_rows ! 1) \<and>
   compareRows lc_ignoring_soft_hyphen (tied_rows ! 0) (tied_rows ! 1) = 0 \<and>
   \<not> precedes lc_ignoring_soft_hyphen (tied_rows ! 0) (tied_rows ! 1) \<and>
   \<not> precedes lc_ignoring_soft_hyphen (tied_rows ! 1) (tied_rows ! 0) \<and>
   applyTieBreakers lc_ignoring_soft_hyphen tied_rows = tied_rows \<and>
   applyTieBreakers lc_ignoring_soft_hyphen (rev tied_rows) = rev tied_rows"
  by code_simp

text \<open>
  Claim C1, amended: the name comparison of the platform is a consistent comparison that
  may be zero on different names.  For every list of rows \<open>applyTieBreakers\<close> returns a
  permutation of the rows in which no row ranks above an earlier one in the chain points
  descending, goal difference descending, goals for descending, goals against ascending,
  name ascending; the comparison function is negative exactly on that chain and is zero
  exactly between rows with the same four numbers and names that the name comparison
  equates; the chain is asymmetric, transitive and irreflexive, and total up to rows that
  compare equal; rows that compare equal keep the order of the input; and when the name
  comparison distinguishes every two names of the rows, every row precedes every later one,
  so that the order is strict and total.  The same holds of the table of
  \<open>calculateStandings\<close>.
\<close>

theorem C1_total_order:
  assumes "consistent_cmp lc"
  shows "mset (applyTieBreakers lc rows) = mset rows \<and>
         sorted_wrt (\<lambda>a b. \<not> precedes lc b a) (applyTieBreakers lc rows) \<and>
         (\<forall>a b. (compareRows lc a b < 0 \<longleftrightarrow> precedes lc a b) \<and>
                (compareRows lc a b = 0 \<longleftrightarrow>
                   points a = points b \<and> goalDifference a = goalDifference b \<and>
                   goalsFor a = goalsFor b \<and> goalsAgainst a = goalsAgainst b \<and>
                   lc (teamName a) (teamName b) = 0)) \<and>
         (\<forall>a b. (precedes lc a b \<or> precedes lc b a \<or> compareRows lc a b = 0) \<and>
                \<not> (precedes lc a b \<and> precedes lc b a)) \<and>
         (\<forall>a b c. precedes lc a b \<and> precedes lc b c \<longrightarrow> precedes lc a c) \<and>
         (\<forall>a. \<not> precedes lc a a) \<and>
         (\<forall>x. filter (\<lambda>r. compareRows lc x r = 0) (applyTieBreakers lc rows) =
              filter (\<lambda>r. compareRows lc x r = 0) rows) \<and>
         (distinguished lc (map teamName rows) \<longrightarrow>
            sorted_wrt (precedes lc) (applyTieBreakers lc rows)) \<and>
         (\<forall>teams ms.
            sorted_wrt (\<lambda>a b. \<not> precedes lc b a) (calculateStandings lc (Some teams) (Some ms)) \<and>
            (distinguished lc (map team_name teams) \<longrightarrow>
               sorted_wrt (precedes lc) (calculateStandings lc (Some teams) (Some ms))))"
proof (intro conjI)
  show "mset (applyTieBreakers lc rows) = mset rows"
    unfolding applyTieBreakers_def by (rule mset_sort_by)
  show "sorted_wrt (\<lambda>a b. \<not> precedes lc b a) (applyTieBreakers lc rows)"
    by (rule applyTieBreakers_weakly_sorted[OF assms])
  show "\<forall>a b. (compareRows lc a b < 0 \<longleftrightarrow> precedes lc a b) \<and>
              (compareRows lc a b = 0 \<longleftrightarrow>
                 points a = points b \<and> goalDifference a = goalDifference b \<and>
                 goalsFor a = goalsFor b \<and> goalsAgainst a = goalsAgainst b \<and>
                 lc (teamName a) (teamName b) = 0)"
    using compareRows_neg_iff compareRows_zero_iff by blast
  show "\<forall>a b. (precedes lc a b \<or> precedes lc b a \<or> compareRows lc a b = 0) \<and>
              \<not> (precedes lc a b \<and> precedes lc b a)"
    using precedes_total[OF assms] precedes_asym[OF assms] by blast
  show "\<forall>a b c. precedes lc a b \<and> precedes lc b c \<longrightarrow> precedes lc a c"
    using precedes_trans[OF assms] by blast
  show "\<forall>a. \<not> precedes lc a a"
    using precedes_asym[OF assms] by blast
  show "\<forall>x. filter (\<lambda>r. compareRows lc x r = 0) (applyTieBreakers lc rows) =
            filter (\<lambda>r. compareRows lc x r = 0) rows"
    unfolding applyTieBreakers_def
    by (intro allI filter_sort_by) (use compareRows_antisym compareRows_trans assms in blast)+
  show "distinguished lc (map teamName rows) \<longrightarrow>
          sorted_wrt (precedes lc) (applyTieBreakers lc rows)"
    using applyTieBreakers_strictly_sorted[OF assms] by blast
  show "\<forall>teams ms.
          sorted_wrt (\<lambda>a b. \<not> precedes lc b a) (calculateStandings lc (Some teams) (Some ms)) \<and>
          (distinguished lc (map team_name teams) \<longrightarrow>
             sorted_wrt (precedes lc) (calculateStandings lc (Some teams) (Some ms)))"
    using calculateStandings_weakly_sorted[OF assms] calculateStandings_strictly_sorted[OF assms]
    by blast
qed

theorem C1_total_order_witness:
  "consistent_cmp lc_ignoring_soft_hyphen \<and>
   distinguished lc_ignoring_soft_hyphen (map teamName example_rows) \<and>
   map teamName (applyTieBreakers lc_ignoring_soft_hyphen example_rows) =
     [''Gamma'', ''Alpha'', ''Beta''] \<and>
   sorted_wrt (precedes lc_ignoring_soft_hyphen)
     (applyTieBreakers lc_ignoring_soft_hyphen example_rows) \<and>
   distinguished lc_ignoring_soft_hyphen (map team_name example_teams) \<and>
   sorted_wrt (precedes lc_ignoring_soft_hyphen)
     (calculateStandings lc_ignoring_soft_hyphen (Some example_teams) (Some unsorted_matches)) \<and>
   filter (\<lambda>r. compareRows lc_ignoring_soft_hyphen (tied_rows ! 0) r = 0)
     (applyTieBreakers lc_ignoring_soft_hyphen (rev tied_rows)) = rev tied_rows"
proof -
  note c = consistent_cmp_lc_ignoring_soft_hyphen
  have d: "distinguished lc_ignoring_soft_hyphen (map teamName example_rows)"
    by code_simp
  have d': "distinguished lc_ignoring_soft_hyphen (map team_name example_teams)"
    by code_simp
  have n: "map teamName (applyTieBreakers lc_ignoring_soft_hyphen example_rows) =
             [''Gamma'', ''Alpha'', ''Beta'']"
    by code_simp
  have f: "filter (\<lambda>r. compareRows lc_ignoring_soft_hyphen (tied_rows ! 0) r = 0)
             (rev tied_rows) = rev tied_rows"
    by code_simp
  note t = C1_total_order [OF c, of example_rows]
  note t' = C1_total_order [OF c, of "rev tied_rows"]
  have s: "sorted_wrt (precedes lc_ignoring_soft_hyphen)
             (applyTieBreakers lc_ignoring_soft_hyphen example_rows)"
    using t d by blast
  have s': "sorted_wrt (precedes lc_ignoring_soft_hyphen)
     (calculateStandings lc_ignoring_soft_hyphen (Some example_teams) (Some unsorted_matches))"
    using t d' by blast
  have g: "filter (\<lambda>r. compareRows lc_ignoring_soft_hyphen (tied_rows ! 0) r = 0)
     (applyTieBreakers lc_ignoring_soft_hyphen (rev tied_rows)) = rev tied_rows"
    using t' [THEN conjunct2, THEN conjunct2, THEN conjunct2, THEN conjunct2, THEN conjunct2,
              THEN conjunct2, THEN conjunct1, rule_format, of "tied_rows ! 0"] f
    by (rule trans)
  show ?thesis using c d n s d' s' g by (intro conjI)
qed

section \<open>Properties of the form\<close>

text \<open>
  Claim C6 (the form is in ascending day order whatever the order of the input) does not
  hold of \<open>calculateStandings\<close>: it folds the played matches into the form in the order
  of the input list and never sorts them by day.  With the day-5 win listed before the
  day-3 defeat the form of team t1 is WL, while the same matches in ascending day order
  give LW.  The source calls the form the last 5 matches (standingsEngine.js, lines 43 and
  92), and \<open>getTeamTrends\<close> (unnamed/part_003, lines 900 to 943) sorts the played
  matches by day before it builds the same letters.
\<close>

theorem C6_form_follows_input_order:
  "day (unsorted_matches ! 0) = 5 \<and> day (unsorted_matches ! 1) = 3 \<and>
   form_of ''t1'' (calculateStandings lc_codepoint (Some example_teams) (Some unsorted_matches)) = Some ''WL'' \<and>
   form_of ''t1'' (calculateStandings lc_codepoint (Some example_teams) (Some (sortByDay unsorted_matches))) = Some ''LW''"
  by code_simp

lemma slice_form_last5: "slice_form f = last5 f"
  unfolding slice_form_def last5_def by simp

lemma last5_last5_append: "last5 (last5 xs @ ys) = last5 (xs @ ys)"
  unfolding last5_def by (cases "5 \<le> length xs") (simp_all add: add.commute)

lemma last5_short: "length xs \<le> 5 \<Longrightarrow> last5 xs = xs"
  unfolding last5_def by simp

lemma last5_idem: "last5 (last5 xs) = last5 xs"
  using last5_last5_append[of xs "[]"] by simp

lemma length_last5: "length (last5 xs) \<le> 5"
  unfolding last5_def by simp

lemma length_modify [simp]: "length (modify j f xs) = length xs"
  unfolding modify_def by simp

lemma nth_modify: "i < length xs \<Longrightarrow> modify j f xs ! i = (if i = j then f (xs ! i) else xs ! i)"
  unfolding modify_def by (simp add: nth_list_update)

lemma find_index_Some:
  "find_index P xs = Some i \<Longrightarrow> i < length xs \<and> P (xs ! i) \<and> (\<forall>j<i. \<not> P (xs ! j))"
proof (induction xs arbitrary: i)
  case Nil
  then show ?case by simp
next
  case (Cons x xs)
  show ?case
  proof (cases "P x")
    case True
    then show ?thesis using Cons.prems by auto
  next
    case False
    then obtain k where k: "find_index P xs = Some k" "i = Suc k"
      using Cons.prems by auto
    then show ?thesis using Cons.IH[OF k(1)] False by (auto simp: less_Suc_eq_0_disj)
  qed
qed

lemma find_index_None: "find_index P xs = None \<longleftrightarrow> (\<forall>x\<in>set xs. \<not> P x)"
  by (induction xs) auto

lemma teamId_process_match: "map teamId (process_match m rs) = map teamId rs"
  unfolding process_match_def Let_def
  by (simp add: modify_preserves push_form_def split: option.splits)

lemma length_process_match: "length (process_match m rs) = length rs"
  using arg_cong[OF teamId_process_match, of length m rs] by simp

lemma find_index_teamId:
  assumes "distinct (map teamId rs)" "i < length rs"
  shows "find_index (\<lambda>r. teamId r = x) rs = Some h \<Longrightarrow> (i = h \<longleftrightarrow> teamId (rs ! i) = x)"
proof -
  assume f: "find_index (\<lambda>r. teamId r = x) rs = Some h"
  then have h: "h < length rs" "teamId (rs ! h) = x"
    using find_index_Some[OF f] by auto
  show ?thesis
  proof
    assume "i = h" then show "teamId (rs ! i) = x" using h by simp
  next
    assume "teamId (rs ! i) = x"
    then have "map teamId rs ! i = map teamId rs ! h" using h assms(2) by simp
    then show "i = h"
      using nth_eq_iff_index_eq[OF assms(1), of i h] assms(2) h(1) by simp
  qed
qed

lemma form_process_match_found:
  assumes d: "distinct (map teamId rs)" and i: "i < length rs"
      and len: "length (form (rs ! i)) \<le> 5"
      and h: "find_index (\<lambda>r. teamId r = homeTeam m) rs = Some h"
      and a: "find_index (\<lambda>r. teamId r = awayTeam m) rs = Some a"
  shows "form (process_match m rs ! i) = last5 (form (rs ! i) @ letters_for (teamId (rs ! i)) m)"
proof -
  have ih: "i = h \<longleftrightarrow> teamId (rs ! i) = homeTeam m"
    by (rule find_index_teamId[OF d i h])
  have ia: "i = a \<longleftrightarrow> teamId (rs ! i) = awayTeam m"
    by (rule find_index_teamId[OF d i a])
  show ?thesis
    unfolding process_match_def Let_def h a
    using i ih ia last5_short[OF len]
    by (cases "result (calculatePoints m)")
       (auto simp add: nth_modify push_form_def slice_form_last5 letters_for_def last5_idem
          last5_last5_append)
qed

lemma form_process_match:
  assumes d: "distinct (map teamId rs)" and i: "i < length rs"
      and len: "length (form (rs ! i)) \<le> 5"
  shows "form (process_match m rs ! i) =
         last5 (form (rs ! i) @ (if in_roster rs m then letters_for (teamId (rs ! i)) m else []))"
proof (cases "find_index (\<lambda>r. teamId r = homeTeam m) rs")
  case None
  then have "\<not> in_roster rs m" by (auto simp: find_index_None in_roster_def)
  then show ?thesis using None last5_short[OF len] by (simp add: process_match_def)
next
  case (Some h)
  note h = this
  show ?thesis
  proof (cases "find_index (\<lambda>r. teamId r = awayTeam m) rs")
    case None
    then have "\<not> in_roster rs m" by (auto simp: find_index_None in_roster_def)
    then show ?thesis using None h last5_short[OF len] by (simp add: process_match_def)
  next
    case (Some a)
    have "homeTeam m \<in> teamId ` set rs" "awayTeam m \<in> teamId ` set rs"
      using find_index_Some[OF h] find_index_Some[OF Some] by (metis imageI nth_mem)+
    then have "in_roster rs m" by (simp add: in_roster_def)
    then show ?thesis using form_process_match_found[OF d i len h Some] by simp
  qed
qed

lemma in_roster_cong: "map teamId rs' = map teamId rs \<Longrightarrow> in_roster rs' m = in_roster rs m"
  unfolding in_roster_def by (metis set_map)

lemma form_process_matches:
  assumes "distinct (map teamId rs)" and "\<forall>i<length rs. length (form (rs ! i)) \<le> 5"
      and "i < length rs"
  shows "form (process_matches ms rs ! i) =
         last5 (form (rs ! i) @ concat (map (letters_for (teamId (rs ! i))) (filter (in_roster rs) ms)))"
  using assms
proof (induction ms arbitrary: rs)
  case Nil
  then show ?case by (simp add: process_matches_def last5_short)
next
  case (Cons m ms)
  let ?rs = "process_match m rs"
  have t: "map teamId ?rs = map teamId rs" by (rule teamId_process_match)
  have l: "length ?rs = length rs" by (rule length_process_match)
  have ti: "teamId (?rs ! i) = teamId (rs ! i)"
    using arg_cong[OF t, of "\<lambda>xs. xs ! i"] Cons.prems(3) l by simp
  have f: "\<And>j. j < length rs \<Longrightarrow> form (?rs ! j) =
         last5 (form (rs ! j) @ (if in_roster rs m then letters_for (teamId (rs ! j)) m else []))"
    using form_process_match[OF Cons.prems(1)] Cons.prems(2) by blast
  have "form (process_matches ms ?rs ! i) =
         last5 (form (?rs ! i) @ concat (map (letters_for (teamId (?rs ! i))) (filter (in_roster ?rs) ms)))"
  proof (rule Cons.IH)
    show "distinct (map teamId ?rs)" using t Cons.prems(1) by simp
    show "\<forall>i<length ?rs. length (form (?rs ! i)) \<le> 5"
      using f l by (simp add: length_last5)
    show "i < length ?rs" using l Cons.prems(3) by simp
  qed
  moreover have "filter (in_roster ?rs) ms = filter (in_roster rs) ms"
    using in_roster_cong[OF t] by presburger
  moreover have "process_matches (m # ms) rs = process_matches ms ?rs"
    by (simp add: process_matches_def)
  ultimately show ?case
    using f[OF Cons.prems(3)] ti by (simp add: last5_last5_append)
qed

lemma length_form_process_match:
  assumes "\<forall>i<length rs. length (form (rs ! i)) \<le> 5" and i: "i < length rs"
  shows "length (form (process_match m rs ! i)) \<le> 5"
proof -
  have b: "length (form (rs ! i)) \<le> 5" using assms by blast
  have s: "\<And>f. length (slice_form f) \<le> 5" by (simp add: slice_form_last5 length_last5)
  show ?thesis
    unfolding process_match_def Let_def using i b
    by (auto simp add: nth_modify s split: option.splits)
qed

lemma length_form_process_matches:
  assumes "\<forall>i<length rs. length (form (rs ! i)) \<le> 5"
  shows "\<forall>i<length rs. length (form (process_matches ms rs ! i)) \<le> 5"
  using assms
proof (induction ms arbitrary: rs)
  case Nil
  then show ?case by (simp add: process_matches_def)
next
  case (Cons m ms)
  have "\<forall>i<length (process_match m rs). length (form (process_match m rs ! i)) \<le> 5"
    using length_form_process_match[OF Cons.prems] by (simp add: length_process_match)
  from Cons.IH[OF this] show ?case
    by (simp add: process_matches_def length_process_match)
qed

lemma teamId_process_matches: "map teamId (process_matches ms rs) = map teamId rs"
  unfolding process_matches_def
  by (induction ms arbitrary: rs) (simp_all add: teamId_process_match)

lemma length_process_matches: "length (process_matches ms rs) = length rs"
  using arg_cong[OF teamId_process_matches, of length ms rs] by simp

lemma determineQualification_rows:
  assumes "r \<in> set (determineQualification xs)"
  shows "\<exists>r'\<in>set xs. form r = form r' \<and> teamId r = teamId r'"
proof -
  obtain k where k: "k < length xs" "r = determineQualification xs ! k"
    using assms unfolding in_set_conv_nth length_determineQualification by blast
  then have "form r = form (xs ! k)" "teamId r = teamId (xs ! k)"
    by (simp_all add: nth_determineQualification)
  then show ?thesis using k(1) nth_mem by blast
qed

lemma calculateStandings_rows:
  assumes "r \<in> set (calculateStandings lc (Some teams) (Some ms))"
  shows "\<exists>i<length teams.
           form r = form (process_matches (filter is_played ms) (map initial_row teams) ! i) \<and>
           teamId r = teamId (process_matches (filter is_played ms) (map initial_row teams) ! i)"
proof -
  define S where "S = process_matches (filter is_played ms) (map initial_row teams)"
  define S2 where "S2 = map (\<lambda>r. r\<lparr>goalDifference := goalsFor r - goalsAgainst r\<rparr>) S"
  have "calculateStandings lc (Some teams) (Some ms) = determineQualification (applyTieBreakers lc S2)"
    by (simp add: calculateStandings_def Let_def S_def S2_def)
  then have "r \<in> set (determineQualification (applyTieBreakers lc S2))"
    using assms by simp
  then obtain r' where r': "r' \<in> set (applyTieBreakers lc S2)" "form r = form r'" "teamId r = teamId r'"
    using determineQualification_rows by blast
  have "r' \<in> set S2" using r'(1) by (simp only: applyTieBreakers_def set_sort_by)
  then obtain r0 where r0: "r0 \<in> set S" "r' = r0\<lparr>goalDifference := goalsFor r0 - goalsAgainst r0\<rparr>"
    unfolding S2_def by auto
  then obtain i where i: "i < length S" "r0 = S ! i"
    unfolding in_set_conv_nth by blast
  have "length S = length teams" by (simp add: S_def length_process_matches)
  then show ?thesis using i r0(2) r'(2,3) unfolding S_def[symmetric] by auto
qed

text \<open>
  What \<open>calculateStandings\<close> does for every roster and every list of matches: each row
  has a form of length at most 5, and when the team ids of the roster are pairwise distinct
  the form is the last five letters of the team's counted matches in the order of the
  input list.
\<close>

lemma form_in_input_order:
  "(\<forall>r\<in>set (calculateStandings lc (Some teams) (Some ms)). length (form r) \<le> 5) \<and>
   (distinct (map team_id teams) \<longrightarrow>
      (\<forall>r\<in>set (calculateStandings lc (Some teams) (Some ms)).
         form r = last5 (results_in_order (map team_id teams) (teamId r) ms)))"
proof (intro conjI ballI impI)
  let ?R = "map initial_row teams"
  let ?S = "process_matches (filter is_played ms) ?R"
  have len0: "\<forall>i<length ?R. length (form (?R ! i)) \<le> 5"
    by (simp add: initial_row_def)
  {
    fix r assume "r \<in> set (calculateStandings lc (Some teams) (Some ms))"
    then obtain i where i: "i < length teams" "form r = form (?S ! i)"
      using calculateStandings_rows by blast
    then show "length (form r) \<le> 5"
      using length_form_process_matches[OF len0, of "filter is_played ms"] by simp
  }
  {
    fix r assume d: "distinct (map team_id teams)"
      and "r \<in> set (calculateStandings lc (Some teams) (Some ms))"
    then obtain i where i: "i < length teams" "form r = form (?S ! i)" "teamId r = teamId (?S ! i)"
      using calculateStandings_rows by blast
    have ids: "map teamId ?R = map team_id teams" by (simp add: initial_row_def comp_def)
    have dR: "distinct (map teamId ?R)" by (subst ids) (rule d)
    have iR: "i < length ?R" using i(1) by simp
    have inr: "in_roster ?R = (\<lambda>m. homeTeam m \<in> set (map team_id teams) \<and> awayTeam m \<in> set (map team_id teams))"
      unfolding in_roster_def using ids by (metis set_map)
    have tid: "teamId (?S ! i) = teamId (?R ! i)"
      using arg_cong[OF teamId_process_matches, of "\<lambda>xs. xs ! i" "filter is_played ms" ?R] iR
      by (simp add: length_process_matches)
    have "form (?S ! i) = last5 (form (?R ! i) @
            concat (map (letters_for (teamId (?R ! i))) (filter (in_roster ?R) (filter is_played ms))))"
      by (rule form_process_matches[OF dR len0 iR])
    moreover have "form (?R ! i) = []" using i(1) by (simp add: initial_row_def)
    moreover have "filter (in_roster ?R) (filter is_played ms) = filter (counted (map team_id teams)) ms"
      unfolding inr counted_def by (simp add: conj_commute conj_left_commute)
    ultimately show "form r = last5 (results_in_order (map team_id teams) (teamId r) ms)"
      using i(2,3) tid unfolding results_in_order_def by simp
  }
qed

section \<open>Properties of the match status transitions\<close>

lemma validateStatusTransition_iff:
  "(validateStatusTransition old new = None) = ((old, new) \<in> allowed_transitions)"
  unfolding validateStatusTransition_def allowed_transitions_def
  by (cases old; cases new; simp)

lemma validateStatusTransition_rejects:
  "(old, new) \<notin> allowed_transitions \<Longrightarrow>
   validateStatusTransition old new = Some (Invalid_status_transition old new)"
  using validateStatusTransition_iff[of old new]
  unfolding validateStatusTransition_def by (simp split: if_splits)

lemma status_of_string_nonempty: "status_of_string s = Some v \<Longrightarrow> s \<noteq> []"
  unfolding status_of_string_def by (auto split: if_splits)

lemma setMatchStatus_rejected:
  assumes "matchesData st = Some ms" and "find_index (\<lambda>m. match_id m = matchId) ms = Some i"
      and "matchId \<noteq> []" and "status_of_string stat = Some new"
      and "(status (ms ! i), new) \<notin> allowed_transitions"
  shows "setMatchStatus now st matchId stat reason =
         (st, Inl (Invalid_status_transition (status (ms ! i)) new))"
  unfolding setMatchStatus_def
  using assms(1-4) status_of_string_nonempty[OF assms(4)]
        validateStatusTransition_rejects[OF assms(5)]
  by (simp add: Let_def)

lemma setMatchStatus_accepted:
  assumes "matchesData st = Some ms" and "find_index (\<lambda>m. match_id m = matchId) ms = Some i"
      and "matchId \<noteq> []" and "status_of_string stat = Some new"
      and "(status (ms ! i), new) \<in> allowed_transitions"
      and "writable st" and "new = Postponed \<longrightarrow> truthy reason"
  shows "\<exists>st'. setMatchStatus now st matchId stat reason =
           (st', Inr (set_status_match now (ms ! i) new reason, status (ms ! i))) \<and>
           st' = (let s1 = st\<lparr>matchesData := Some (ms[i := set_status_match now (ms ! i) new reason])\<rparr> in
                  if status (ms ! i) = Played \<and> new \<noteq> Played then recalculateAllStatistics s1
                  else if new = Played \<and> homeGoals (ms ! i) \<noteq> None \<and> awayGoals (ms ! i) \<noteq> None
                  then updateTeamStatistics s1 (set_status_match now (ms ! i) new reason)
                  else s1)"
proof -
  have v: "validateStatusTransition (status (ms ! i)) new = None"
    using assms(5) validateStatusTransition_iff by simp
  show ?thesis
    unfolding setMatchStatus_def
    using assms(1-4,6,7) status_of_string_nonempty[OF assms(4)] v
    by (auto simp add: Let_def save_matches_def set_status_match_def)
qed

lemma matchesData_updateTeamStatistics [simp]:
  "matchesData (updateTeamStatistics st m) = matchesData st"
  unfolding updateTeamStatistics_def save_teams_def
  by (simp split: option.splits)

lemma matchesData_recalculateAllStatistics [simp]:
  "matchesData (recalculateAllStatistics st) = matchesData st"
  unfolding recalculateAllStatistics_def save_teams_def
  by (simp split: option.splits)

lemma teamsData_recalculateAllStatistics:
  assumes "teamsData st = Some ts" "matchesData st = Some ms" "writable st"
  shows "teamsData (recalculateAllStatistics st) =
         Some (fold replay_match (filter is_played ms) (map reset_statistics ts))"
  unfolding recalculateAllStatistics_def save_teams_def using assms by simp

lemma expected_statistics_append:
  "expected_statistics tid (xs @ ys) =
   add_statistics (expected_statistics tid xs) (expected_statistics tid ys)"
  unfolding expected_statistics_def add_statistics_def Let_def by simp

lemma expected_statistics_Nil: "expected_statistics tid [] = zero_statistics"
  unfolding expected_statistics_def zero_statistics_def by simp

lemma add_statistics_assoc:
  "add_statistics (add_statistics a b) c = add_statistics a (add_statistics b c)"
  unfolding add_statistics_def by simp

lemma add_statistics_zero [simp]:
  "add_statistics s zero_statistics = s" "add_statistics zero_statistics s = s"
  unfolding add_statistics_def zero_statistics_def by simp_all

lemma upd_stats_upd_stats: "upd_stats f (upd_stats g t) = upd_stats (\<lambda>s. f (g s)) t"
  by (simp add: upd_stats_def)

lemma index_of_team:
  assumes "distinct (map team_id ts)" and "find_index (\<lambda>t. team_id t = x) ts = Some h"
      and "j < length ts"
  shows "j = h \<longleftrightarrow> team_id (ts ! j) = x"
proof -
  have h: "h < length ts" "team_id (ts ! h) = x"
    using find_index_Some[OF assms(2)] by simp_all
  have "(map team_id ts ! j = map team_id ts ! h) = (j = h)"
    using assms(1,3) h(1) by (simp add: nth_eq_iff_index_eq del: nth_map)
  then show ?thesis using h assms(3) by auto
qed

lemma add_match_statistics_nth:
  assumes "distinct (map team_id ts)"
      and "find_index (\<lambda>t. team_id t = homeTeam m) ts = Some h"
      and "find_index (\<lambda>t. team_id t = awayTeam m) ts = Some a"
      and "j < length ts"
  shows "add_match_statistics m h a ts ! j =
         upd_stats (\<lambda>s. add_statistics s (expected_statistics (team_id (ts ! j)) [m])) (ts ! j)"
proof -
  have jh: "j = h \<longleftrightarrow> team_id (ts ! j) = homeTeam m"
    by (rule index_of_team[OF assms(1,2,4)])
  have ja: "j = a \<longleftrightarrow> team_id (ts ! j) = awayTeam m"
    by (rule index_of_team[OF assms(1,3,4)])
  show ?thesis
    unfolding add_match_statistics_def Let_def
    using assms(4) jh ja
    by (cases "result (calculatePoints m)")
       (auto simp add: nth_modify upd_stats_def expected_statistics_def add_statistics_def
             intro!: team.equality statistics.equality)
qed

lemma team_id_upd_stats [simp]: "team_id (upd_stats f t) = team_id t"
  by (simp add: upd_stats_def)

lemma length_add_match_statistics [simp]:
  "length (add_match_statistics m h a ts) = length ts"
  unfolding add_match_statistics_def Let_def by simp

lemma length_replay_match [simp]: "length (replay_match m ts) = length ts"
  unfolding replay_match_def by (simp split: option.splits)

text \<open>
  One replayed match adds to every team what the match accounts for, and nothing when one
  of its two teams is not in the list.
\<close>

lemma replay_match_nth:
  assumes "distinct (map team_id ts)" and "j < length ts"
  shows "replay_match m ts ! j =
         upd_stats (\<lambda>s. add_statistics s
           (expected_statistics (team_id (ts ! j))
              (filter (\<lambda>m. homeTeam m \<in> set (map team_id ts) \<and> awayTeam m \<in> set (map team_id ts)) [m])))
           (ts ! j)"
proof (cases "homeTeam m \<in> set (map team_id ts) \<and> awayTeam m \<in> set (map team_id ts)")
  case True
  then obtain h a where ha: "find_index (\<lambda>t. team_id t = homeTeam m) ts = Some h"
      "find_index (\<lambda>t. team_id t = awayTeam m) ts = Some a"
    using find_index_None[of "\<lambda>t. team_id t = homeTeam m" ts]
          find_index_None[of "\<lambda>t. team_id t = awayTeam m" ts]
    by (cases "find_index (\<lambda>t. team_id t = homeTeam m) ts";
        cases "find_index (\<lambda>t. team_id t = awayTeam m) ts") auto
  show ?thesis
    using True ha add_match_statistics_nth[OF assms(1) ha assms(2)]
    by (simp add: replay_match_def)
next
  case False
  then have "find_index (\<lambda>t. team_id t = homeTeam m) ts = None \<or>
             find_index (\<lambda>t. team_id t = awayTeam m) ts = None"
    unfolding find_index_None by force
  then have "replay_match m ts = ts"
    by (auto simp: replay_match_def split: option.splits)
  moreover have "filter (\<lambda>m. homeTeam m \<in> set (map team_id ts) \<and> awayTeam m \<in> set (map team_id ts)) [m] = []"
    using False by simp
  ultimately show ?thesis
    by (simp only: expected_statistics_Nil add_statistics_zero upd_stats_def) simp
qed

lemma team_id_replay_match: 
  assumes "distinct (map team_id ts)"
  shows "map team_id (replay_match m ts) = map team_id ts"
  by (rule nth_equalityI) (simp_all add: replay_match_nth[OF assms])

lemma fold_replay_match_nth:
  assumes "distinct (map team_id ts)" and "j < length ts"
  shows "length (fold replay_match ms ts) = length ts \<and>
         fold replay_match ms ts ! j =
         upd_stats (\<lambda>s. add_statistics s
           (expected_statistics (team_id (ts ! j))
              (filter (\<lambda>m. homeTeam m \<in> set (map team_id ts) \<and> awayTeam m \<in> set (map team_id ts)) ms)))
           (ts ! j)"
  using assms
proof (induction ms arbitrary: ts)
  case Nil
  then show ?case by (simp add: expected_statistics_Nil upd_stats_def)
next
  case (Cons m ms)
  let ?ts = "replay_match m ts"
  have ids: "map team_id ?ts = map team_id ts" by (rule team_id_replay_match[OF Cons.prems(1)])
  have d: "distinct (map team_id ?ts)" using Cons.prems(1) ids by simp
  have j: "j < length ?ts" using Cons.prems(2) by simp
  have tj: "team_id (?ts ! j) = team_id (ts ! j)"
    using arg_cong[OF ids, of "\<lambda>xs. xs ! j"] Cons.prems(2) by simp
  note ih = Cons.IH[OF d j, unfolded ids tj]
  let ?P = "\<lambda>m. homeTeam m \<in> set (map team_id ts) \<and> awayTeam m \<in> set (map team_id ts)"
  let ?E = "expected_statistics (team_id (ts ! j))"
  have e: "?E (filter ?P (m # ms)) = add_statistics (?E (filter ?P [m])) (?E (filter ?P ms))"
  proof -
    have "filter ?P (m # ms) = filter ?P [m] @ filter ?P ms" by simp
    then show ?thesis by (simp only: expected_statistics_append)
  qed
  have "fold replay_match (m # ms) ts ! j = fold replay_match ms ?ts ! j" by simp
  also have "\<dots> = upd_stats (\<lambda>s. add_statistics s (?E (filter ?P ms))) (?ts ! j)"
    using ih by blast
  also have "?ts ! j = upd_stats (\<lambda>s. add_statistics s (?E (filter ?P [m]))) (ts ! j)"
    by (rule replay_match_nth[OF Cons.prems])
  also have "upd_stats (\<lambda>s. add_statistics s (?E (filter ?P ms)))
               (upd_stats (\<lambda>s. add_statistics s (?E (filter ?P [m]))) (ts ! j)) =
             upd_stats (\<lambda>s. add_statistics s (?E (filter ?P (m # ms)))) (ts ! j)"
    unfolding upd_stats_upd_stats add_statistics_assoc e ..
  finally have "fold replay_match (m # ms) ts ! j =
                upd_stats (\<lambda>s. add_statistics s (?E (filter ?P (m # ms)))) (ts ! j)" .
  moreover have "length (fold replay_match (m # ms) ts) = length ts"
    using ih by simp
  ultimately show ?case by blast
qed


lemma length_fold_replay_match: "length (fold replay_match ms ts) = length ts"
  by (induction ms arbitrary: ts) simp_all

lemma recalculated_teams:
  assumes "distinct (map team_id ts)"
  shows "fold replay_match (filter is_played ms) (map reset_statistics ts) =
         map (\<lambda>t. t\<lparr>team_statistics :=
                      expected_statistics (team_id t) (filter (counted (map team_id ts)) ms)\<rparr>) ts"
proof (rule nth_equalityI)
  have ids: "map team_id (map reset_statistics ts) = map team_id ts"
    by (simp add: reset_statistics_def)
  have d: "distinct (map team_id (map reset_statistics ts))"
    by (subst ids) (rule assms)
  have f: "filter (\<lambda>m. homeTeam m \<in> set (map team_id ts) \<and> awayTeam m \<in> set (map team_id ts))
             (filter is_played ms) = filter (counted (map team_id ts)) ms"
    unfolding counted_def by (simp add: conj_commute conj_left_commute)
  show len: "length (fold replay_match (filter is_played ms) (map reset_statistics ts)) =
        length (map (\<lambda>t. t\<lparr>team_statistics :=
                      expected_statistics (team_id t) (filter (counted (map team_id ts)) ms)\<rparr>) ts)"
    by (simp add: length_fold_replay_match)
  fix j assume "j < length (fold replay_match (filter is_played ms) (map reset_statistics ts))"
  then have j: "j < length ts" using len by simp
  then have j': "j < length (map reset_statistics ts)" by simp
  have r: "map reset_statistics ts ! j = (ts ! j)\<lparr>team_statistics := zero_statistics\<rparr>"
    using j by (simp add: reset_statistics_def zero_statistics_def)
  have "fold replay_match (filter is_played ms) (map reset_statistics ts) ! j =
        upd_stats (\<lambda>s. add_statistics s
           (expected_statistics (team_id (map reset_statistics ts ! j))
              (filter (\<lambda>m. homeTeam m \<in> set (map team_id (map reset_statistics ts)) \<and>
                            awayTeam m \<in> set (map team_id (map reset_statistics ts)))
                 (filter is_played ms))))
           (map reset_statistics ts ! j)"
    using fold_replay_match_nth[OF d j', of "filter is_played ms"] by blast
  also have "\<dots> = (ts ! j)\<lparr>team_statistics :=
                      expected_statistics (team_id (ts ! j)) (filter (counted (map team_id ts)) ms)\<rparr>"
    unfolding ids f r by (simp add: upd_stats_def)
  finally show "fold replay_match (filter is_played ms) (map reset_statistics ts) ! j =
        map (\<lambda>t. t\<lparr>team_statistics :=
                      expected_statistics (team_id t) (filter (counted (map team_id ts)) ms)\<rparr>) ts ! j"
    using j by simp
qed


text \<open>
  Claim C3: \<open>validateStatusTransition\<close> accepts exactly the five transitions
  scheduled-played, scheduled-postponed, postponed-scheduled, postponed-played and
  played-postponed; for a stored match, \<open>setMatchStatus\<close> rejects every other pair with the
  invalid-transition error and leaves the store as it was, and performs each of the five
  (given a reason when postponing, and a store that accepts the write); on played-postponed
  it sets both goals and the best player to null and recalculates the statistics of all
  teams: the store it leaves is the one \<open>recalculateAllStatistics\<close> produces from the
  updated matches, and, the team ids being pairwise distinct and the recorded goals adding
  up within the safe range, every team keeps its id and name and has, whatever its
  statistics were before, exactly the statistics that the played matches of the updated
  list account for: the number of its matches, its wins, draws and defeats, its goals for
  and against, and its points.
\<close>

theorem C3_status_transitions:
  assumes "matchesData st = Some ms" and "find_index (\<lambda>m. match_id m = matchId) ms = Some i"
      and "matchId \<noteq> []" and "status_of_string stat = Some new"
  shows "(\<forall>a b. (validateStatusTransition a b = None) = ((a, b) \<in> allowed_transitions) \<and>
                ((a, b) \<notin> allowed_transitions \<longrightarrow>
                   validateStatusTransition a b = Some (Invalid_status_transition a b))) \<and>
         ((status (ms ! i), new) \<notin> allowed_transitions \<longrightarrow>
            setMatchStatus now st matchId stat reason =
              (st, Inl (Invalid_status_transition (status (ms ! i)) new))) \<and>
         ((status (ms ! i), new) \<in> allowed_transitions \<and> writable st \<and>
          (new = Postponed \<longrightarrow> truthy reason) \<longrightarrow>
            (\<exists>st' m. setMatchStatus now st matchId stat reason = (st', Inr (m, status (ms ! i))) \<and>
                     status m = new \<and> matchesData st' = Some (ms[i := m]))) \<and>
         (status (ms ! i) = Played \<and> new = Postponed \<and> writable st \<and> truthy reason \<longrightarrow>
            (\<exists>m. setMatchStatus now st matchId stat reason =
                   (recalculateAllStatistics (st\<lparr>matchesData := Some (ms[i := m])\<rparr>),
                    Inr (m, Played)) \<and>
                 homeGoals m = None \<and> awayGoals m = None \<and> bestPlayer m = None \<and>
                 (\<forall>ts. teamsData st = Some ts \<longrightarrow>
                    teamsData (fst (setMatchStatus now st matchId stat reason)) =
                      Some (fold replay_match (filter is_played (ms[i := m]))
                             (map reset_statistics ts))) \<and>
                 (\<forall>ts. teamsData st = Some ts \<and> distinct (map team_id ts) \<and>
                      safe_integer (goals_total ms) \<longrightarrow>
                    teamsData (fst (setMatchStatus now st matchId stat reason)) =
                      Some (map (\<lambda>t. t\<lparr>team_statistics :=
                                   expected_statistics (team_id t)
                                     (filter (counted (map team_id ts)) (ms[i := m]))\<rparr>) ts))))"
proof (intro conjI allI impI)
  fix a b
  show "(validateStatusTransition a b = None) = ((a, b) \<in> allowed_transitions)"
    by (rule validateStatusTransition_iff)
  show "(a, b) \<notin> allowed_transitions \<Longrightarrow>
        validateStatusTransition a b = Some (Invalid_status_transition a b)"
    by (rule validateStatusTransition_rejects)
next
  assume "(status (ms ! i), new) \<notin> allowed_transitions"
  then show "setMatchStatus now st matchId stat reason =
              (st, Inl (Invalid_status_transition (status (ms ! i)) new))"
    by (rule setMatchStatus_rejected[OF assms])
next
  assume a: "(status (ms ! i), new) \<in> allowed_transitions \<and> writable st \<and>
          (new = Postponed \<longrightarrow> truthy reason)"
  let ?m = "set_status_match now (ms ! i) new reason"
  obtain st' where st': "setMatchStatus now st matchId stat reason = (st', Inr (?m, status (ms ! i)))"
    "st' = (let s1 = st\<lparr>matchesData := Some (ms[i := ?m])\<rparr> in
                  if status (ms ! i) = Played \<and> new \<noteq> Played then recalculateAllStatistics s1
                  else if new = Played \<and> homeGoals (ms ! i) \<noteq> None \<and> awayGoals (ms ! i) \<noteq> None
                  then updateTeamStatistics s1 ?m
                  else s1)"
    using setMatchStatus_accepted[OF assms, where now=now and reason=reason] a by blast
  have "status ?m = new" by (simp add: set_status_match_def)
  moreover have "matchesData st' = Some (ms[i := ?m])"
    unfolding st'(2) by (simp add: Let_def)
  ultimately show "\<exists>st' m. setMatchStatus now st matchId stat reason = (st', Inr (m, status (ms ! i))) \<and>
                     status m = new \<and> matchesData st' = Some (ms[i := m])"
    using st'(1) by blast
next
  assume a: "status (ms ! i) = Played \<and> new = Postponed \<and> writable st \<and> truthy reason"
  let ?m = "set_status_match now (ms ! i) new reason"
  let ?s1 = "st\<lparr>matchesData := Some (ms[i := ?m])\<rparr>"
  have al: "(status (ms ! i), new) \<in> allowed_transitions"
    using a by (simp add: allowed_transitions_def)
  have r: "setMatchStatus now st matchId stat reason =
        (recalculateAllStatistics ?s1, Inr (?m, Played))"
    using setMatchStatus_accepted[OF assms al, where now=now and reason=reason] a by (simp add: Let_def)
  have g: "homeGoals ?m = None \<and> awayGoals ?m = None \<and> bestPlayer ?m = None"
    using a by (simp add: set_status_match_def)
  have t: "\<forall>ts. teamsData st = Some ts \<longrightarrow>
                    teamsData (fst (setMatchStatus now st matchId stat reason)) =
                      Some (fold replay_match (filter is_played (ms[i := ?m]))
                             (map reset_statistics ts))"
    unfolding r using a by (simp add: teamsData_recalculateAllStatistics)
  have e: "\<forall>ts. teamsData st = Some ts \<and> distinct (map team_id ts) \<and>
                      safe_integer (goals_total ms) \<longrightarrow>
                    teamsData (fst (setMatchStatus now st matchId stat reason)) =
                      Some (map (\<lambda>t. t\<lparr>team_statistics :=
                                   expected_statistics (team_id t)
                                     (filter (counted (map team_id ts)) (ms[i := ?m]))\<rparr>) ts)"
    using t recalculated_teams by simp
  show "\<exists>m. setMatchStatus now st matchId stat reason =
                   (recalculateAllStatistics (st\<lparr>matchesData := Some (ms[i := m])\<rparr>),
                    Inr (m, Played)) \<and>
                 homeGoals m = None \<and> awayGoals m = None \<and> bestPlayer m = None \<and>
                 (\<forall>ts. teamsData st = Some ts \<longrightarrow>
                    teamsData (fst (setMatchStatus now st matchId stat reason)) =
                      Some (fold replay_match (filter is_played (ms[i := m]))
                             (map reset_statistics ts))) \<and>
                 (\<forall>ts. teamsData st = Some ts \<and> distinct (map team_id ts) \<and>
                      safe_integer (goals_total ms) \<longrightarrow>
                    teamsData (fst (setMatchStatus now st matchId stat reason)) =
                      Some (map (\<lambda>t. t\<lparr>team_statistics :=
                                   expected_statistics (team_id t)
                                     (filter (counted (map team_id ts)) (ms[i := m]))\<rparr>) ts))"
    using r g t e by blast
qed

theorem C3_status_transitions_witness:
  "matchesData played_store = Some [example_played_match, second_played_match] \<and>
   find_index (\<lambda>m. match_id m = ''m1'') [example_played_match, second_played_match] = Some 0 \<and>
   status_of_string ''scheduled'' = Some Scheduled \<and>
   status_of_string ''postponed'' = Some Postponed \<and>
   safe_integer (goals_total [example_played_match, second_played_match]) \<and>
   setMatchStatus ''t'' played_store ''m1'' ''scheduled'' None =
     (played_store, Inl (Invalid_status_transition Played Scheduled)) \<and>
   (\<exists>m. snd (setMatchStatus ''t'' played_store ''m1'' ''postponed'' (Some ''rain'')) = Inr (m, Played) \<and>
        homeGoals m = None \<and> awayGoals m = None \<and> bestPlayer m = None) \<and>
   teamsData (fst (setMatchStatus ''t'' played_store ''m1'' ''postponed'' (Some ''rain''))) =
     Some [\<lparr>team_id = ''t1'', team_name = ''Alpha'', team_statistics =
             \<lparr>played = 1, won = 0, drawn = 1, lost = 0, goalsFor = 1, goalsAgainst = 1, points = 1\<rparr>\<rparr>,
           \<lparr>team_id = ''t2'', team_name = ''Beta'', team_statistics =
             \<lparr>played = 1, won = 0, drawn = 1, lost = 0, goalsFor = 1, goalsAgainst = 1, points = 1\<rparr>\<rparr>]"
proof -
  let ?ms = "[example_played_match, second_played_match]"
  let ?ts = "[\<lparr>team_id = ''t1'', team_name = ''Alpha'', team_statistics =
           \<lparr>played = 2, won = 1, drawn = 1, lost = 0, goalsFor = 3, goalsAgainst = 2, points = 4\<rparr>\<rparr>,
         \<lparr>team_id = ''t2'', team_name = ''Beta'', team_statistics =
           \<lparr>played = 2, won = 0, drawn = 1, lost = 1, goalsFor = 2, goalsAgainst = 3, points = 1\<rparr>\<rparr>]"
  have h1: "matchesData played_store = Some ?ms"
    by (simp add: played_store_def)
  have h2: "find_index (\<lambda>m. match_id m = ''m1'') ?ms = Some 0"
    by (simp add: example_played_match_def)
  have h3: "''m1'' \<noteq> []" by simp
  have h4: "status_of_string ''scheduled'' = Some Scheduled" by (simp add: status_of_string_def)
  have h5: "status_of_string ''postponed'' = Some Postponed" by (simp add: status_of_string_def)
  have s: "status (?ms ! 0) = Played" by (simp add: example_played_match_def)
  have n: "(Played, Scheduled) \<notin> allowed_transitions" by (simp add: allowed_transitions_def)
  have w: "writable played_store" "truthy (Some ''rain'')"
    by (simp_all add: played_store_def truthy_def)
  have td: "teamsData played_store = Some ?ts" "distinct (map team_id ?ts)"
    by (simp_all add: played_store_def)
  have sf: "safe_integer (goals_total ?ms)"
    by code_simp
  have a: "setMatchStatus ''t'' played_store ''m1'' ''scheduled'' None =
     (played_store, Inl (Invalid_status_transition Played Scheduled))"
    using C3_status_transitions [OF h1 h2 h3 h4, where now="''t''" and reason=None] s n by simp
  obtain m where m:
    "setMatchStatus ''t'' played_store ''m1'' ''postponed'' (Some ''rain'') =
       (recalculateAllStatistics (played_store\<lparr>matchesData := Some (?ms[0 := m])\<rparr>), Inr (m, Played))"
    "homeGoals m = None" "awayGoals m = None" "bestPlayer m = None"
    "teamsData (fst (setMatchStatus ''t'' played_store ''m1'' ''postponed'' (Some ''rain''))) =
       Some (map (\<lambda>t. t\<lparr>team_statistics :=
                    expected_statistics (team_id t)
                      (filter (counted (map team_id ?ts)) (?ms[0 := m]))\<rparr>) ?ts)"
    using C3_status_transitions [OF h1 h2 h3 h5, where now="''t''" and reason="Some ''rain''",
            THEN conjunct2, THEN conjunct2, THEN conjunct2] s w td sf
    by blast
  have b: "\<exists>m. snd (setMatchStatus ''t'' played_store ''m1'' ''postponed'' (Some ''rain'')) = Inr (m, Played) \<and>
        homeGoals m = None \<and> awayGoals m = None \<and> bestPlayer m = None"
    using m(1-4) by auto
  have f: "filter (counted (map team_id ?ts)) (?ms[0 := m]) = [second_played_match]"
    using m(2) by (simp add: counted_def is_played_def second_played_match_def)
  have e1: "expected_statistics ''t1'' [second_played_match] =
            \<lparr>played = 1, won = 0, drawn = 1, lost = 0, goalsFor = 1, goalsAgainst = 1, points = 1\<rparr>"
    by code_simp
  have e2: "expected_statistics ''t2'' [second_played_match] =
            \<lparr>played = 1, won = 0, drawn = 1, lost = 0, goalsFor = 1, goalsAgainst = 1, points = 1\<rparr>"
    by code_simp
  have c: "teamsData (fst (setMatchStatus ''t'' played_store ''m1'' ''postponed'' (Some ''rain''))) =
     Some [\<lparr>team_id = ''t1'', team_name = ''Alpha'', team_statistics =
             \<lparr>played = 1, won = 0, drawn = 1, lost = 0, goalsFor = 1, goalsAgainst = 1, points = 1\<rparr>\<rparr>,
           \<lparr>team_id = ''t2'', team_name = ''Beta'', team_statistics =
             \<lparr>played = 1, won = 0, drawn = 1, lost = 0, goalsFor = 1, goalsAgainst = 1, points = 1\<rparr>\<rparr>]"
    unfolding m(5) f by (simp add: e1 e2)
  show ?thesis using h1 h2 h4 h5 sf a b c by (intro conjI)
qed

section \<open>Properties of the match engine\<close>

text \<open>
  Claim C8 as stated (no input is silently coerced to a different integer value) fails:
  the strings 2abc and 1.9 are not integers, yet \<open>updateResult\<close> accepts them and stores
  2 and 1.
\<close>

theorem C8_coercion_counterexample:
  "updateResult ''t'' example_scheduled_store ''m1''
     (Some \<lparr>homeGoals_r = JStr ''2abc'', awayGoals_r = JStr ''1.9'', bestPlayer_r = None\<rparr>) =
   (example_scheduled_store
      \<lparr>teamsData := Some
         [\<lparr>team_id = ''t1'', team_name = ''Alpha'', team_statistics =
            \<lparr>played = 1, won = 1, drawn = 0, lost = 0, goalsFor = 2, goalsAgainst = 1, points = 3\<rparr>\<rparr>,
          \<lparr>team_id = ''t2'', team_name = ''Beta'', team_statistics =
            \<lparr>played = 1, won = 0, drawn = 0, lost = 1, goalsFor = 1, goalsAgainst = 2, points = 0\<rparr>\<rparr>],
       matchesData := Some
         [example_scheduled_match\<lparr>homeGoals := Some 2, awayGoals := Some 1, status := Played,
            lastUpdated := ''t''\<rparr>]\<rparr>,
    Inr (example_scheduled_match\<lparr>homeGoals := Some 2, awayGoals := Some 1, status := Played,
           lastUpdated := ''t''\<rparr>))"
  by code_simp

lemma validate_goals_Inl:
  "supplied v \<Longrightarrow> parse_rejected v \<Longrightarrow> validate_goals e v old = Inl e"
  unfolding validate_goals_def supplied_def parse_rejected_def
  by (auto split: option.splits)

lemma validate_goals_Inr:
  "validate_goals e v old = Inr g \<Longrightarrow>
   (supplied v \<longrightarrow> (\<exists>n\<ge>0. parseInt v = Some n \<and> g = Some n)) \<and> (\<not> supplied v \<longrightarrow> g = old)"
  unfolding validate_goals_def supplied_def
  by (auto split: option.splits if_splits)

lemma validate_goals_cases:
  "validate_goals e v old = Inl e \<or> (\<exists>g. validate_goals e v old = Inr g)"
  unfolding validate_goals_def by (auto split: option.splits)

lemma updateResult_unfold:
  assumes "matchesData st = Some ms" and "find_index (\<lambda>m. match_id m = matchId) ms = Some i"
      and "matchId \<noteq> []"
      and "validate_goals Invalid_home_team_goals (homeGoals_r r) (homeGoals (ms ! i)) = Inr hg"
      and "validate_goals Invalid_away_team_goals (awayGoals_r r) (awayGoals (ms ! i)) = Inr ag"
  shows "updateResult now st matchId (Some r) =
         (case save_matches st (ms[i := apply_result now (ms ! i) hg ag (bestPlayer_r r)]) of
            None \<Rightarrow> (st, Inl Failed_to_save_match_result)
          | Some st' \<Rightarrow>
              ((if status (apply_result now (ms ! i) hg ag (bestPlayer_r r)) = Played
                then updateTeamStatistics st' (apply_result now (ms ! i) hg ag (bestPlayer_r r))
                else st'),
               Inr (apply_result now (ms ! i) hg ag (bestPlayer_r r))))"
  unfolding updateResult_def using assms by simp

lemma updateResult_success:
  assumes "matchesData st = Some ms" and "find_index (\<lambda>m. match_id m = matchId) ms = Some i"
      and "updateResult now st matchId (Some r) = (st', Inr m)"
  shows "\<exists>hg ag. validate_goals Invalid_home_team_goals (homeGoals_r r) (homeGoals (ms ! i)) = Inr hg \<and>
                 validate_goals Invalid_away_team_goals (awayGoals_r r) (awayGoals (ms ! i)) = Inr ag \<and>
                 m = apply_result now (ms ! i) hg ag (bestPlayer_r r) \<and>
                 matchesData st' = Some (ms[i := m])"
proof -
  have ne: "matchId \<noteq> []"
    using assms(3) by (auto simp: updateResult_def)
  obtain hg where hg: "validate_goals Invalid_home_team_goals (homeGoals_r r) (homeGoals (ms ! i)) = Inr hg"
  proof (cases "validate_goals Invalid_home_team_goals (homeGoals_r r) (homeGoals (ms ! i))")
    case (Inl e)
    then have "snd (updateResult now st matchId (Some r)) = Inl e"
      using assms(1,2) ne by (simp add: updateResult_def)
    then show ?thesis using assms(3) by simp
  next
    case (Inr g)
    then show ?thesis using that by blast
  qed
  obtain ag where ag: "validate_goals Invalid_away_team_goals (awayGoals_r r) (awayGoals (ms ! i)) = Inr ag"
  proof (cases "validate_goals Invalid_away_team_goals (awayGoals_r r) (awayGoals (ms ! i))")
    case (Inl e)
    then have "snd (updateResult now st matchId (Some r)) = Inl e"
      using assms(1,2) ne hg by (simp add: updateResult_def)
    then show ?thesis using assms(3) by simp
  next
    case (Inr g)
    then show ?thesis using that by blast
  qed
  let ?m = "apply_result now (ms ! i) hg ag (bestPlayer_r r)"
  note u = updateResult_unfold[OF assms(1,2) ne hg ag, of now]
  have w: "writable st"
  proof (rule ccontr)
    assume "\<not> writable st"
    then have "snd (updateResult now st matchId (Some r)) = Inl Failed_to_save_match_result"
      unfolding u by (simp add: save_matches_def)
    then show False using assms(3) by simp
  qed
  have "m = ?m" "matchesData st' = Some (ms[i := ?m])"
    using assms(3) w unfolding u by (auto simp: save_matches_def split: if_splits)
  then show ?thesis using hg ag by blast
qed

lemma validate_goals_accepts:
  "validate_goals e v old = Inr g \<Longrightarrow> supplied v \<Longrightarrow> \<not> parse_rejected v \<and> g = parseInt v"
  unfolding validate_goals_def supplied_def parse_rejected_def
  by (auto split: option.splits if_splits)

lemma is_digit_digit_value: "is_digit c \<Longrightarrow> digit_value c = Some (of_char c - 48)"
  unfolding is_digit_def digit_value_def by (simp add: Let_def)

lemma is_digit_lt10: "is_digit c \<Longrightarrow> (of_char c :: nat) - 48 < 10"
  unfolding is_digit_def by auto

lemma not_is_digit_stops:
  assumes "\<not> is_digit c"
  shows "take_digits 10 (c # cs) = []"
proof -
  define n where "n = (of_char c :: nat)"
  have n: "\<not> (48 \<le> n \<and> n \<le> 57)" using assms unfolding is_digit_def n_def by simp
  have "digit_value c = None \<or> (\<exists>d. digit_value c = Some d \<and> \<not> d < 10)"
    unfolding digit_value_def Let_def n_def[symmetric] using n by auto
  then show ?thesis by auto
qed

lemma take_digits_numeral:
  assumes "\<forall>c\<in>set ds. is_digit c" and "case rest of [] \<Rightarrow> True | c # cs \<Rightarrow> \<not> is_digit c"
  shows "take_digits 10 (ds @ rest) = map (\<lambda>c. of_char c - 48) ds"
  using assms(1)
proof (induction ds)
  case Nil
  then show ?case using assms(2) not_is_digit_stops by (cases rest) auto
next
  case (Cons c ds)
  then show ?case by (simp add: is_digit_digit_value is_digit_lt10)
qed

lemma is_digit_not_whitespace: "is_digit c \<Longrightarrow> \<not> is_whitespace c"
  unfolding is_digit_def is_whitespace_def by auto

lemma is_digit_not_sign: "is_digit c \<Longrightarrow> c \<noteq> CHR ''-'' \<and> c \<noteq> CHR ''+'' \<and> c \<noteq> CHR ''x'' \<and> c \<noteq> CHR ''X''"
  unfolding is_digit_def by auto

lemma parseInt_leading_numeral:
  assumes "ds \<noteq> []" and "\<forall>c\<in>set ds. is_digit c"
      and "case rest of [] \<Rightarrow> True | c # cs \<Rightarrow> \<not> is_digit c \<and> (ds = ''0'' \<longrightarrow> c \<noteq> CHR ''x'' \<and> c \<noteq> CHR ''X'')"
  shows "parseInt (JStr (ds @ rest)) = exact_number (int (decimal_value ds))"
proof -
  obtain c cs where ds: "ds = c # cs" using assms(1) by (cases ds) auto
  have c: "is_digit c" using assms(2) ds by simp
  have w: "dropWhile is_whitespace (ds @ rest) = ds @ rest"
    using is_digit_not_whitespace[OF c] ds by simp
  have s: "strip_sign (ds @ rest) = (1, ds @ rest)"
    using is_digit_not_sign[OF c] ds by (simp add: strip_sign_def)
  have p: "strip_prefix (ds @ rest) = (10, ds @ rest)"
  proof (cases cs)
    case Nil
    then show ?thesis using ds assms(3) by (cases rest) (auto simp: strip_prefix_def)
  next
    case (Cons e es)
    then have "is_digit e" using assms(2) ds by simp
    then show ?thesis using ds Cons is_digit_not_sign[of e] by (simp add: strip_prefix_def)
  qed
  have r: "case rest of [] \<Rightarrow> True | c # cs \<Rightarrow> \<not> is_digit c"
    using assms(3) by (cases rest) auto
  have t: "take_digits 10 (ds @ rest) = map (\<lambda>c. of_char c - 48) ds"
    by (rule take_digits_numeral[OF assms(2) r])
  have "parseInt_string (ds @ rest) = exact_number (int (decimal_value ds))"
    using assms(1) by (simp add: parseInt_string_def w s p t decimal_value_def)
  then show ?thesis by (simp add: parseInt_def)
qed

lemma parseInt_safe_integer: "safe_integer n \<Longrightarrow> parseInt (JNum n) = Some n"
  by (simp add: parseInt_def exact_number_def)

text \<open>
  Claim C8, amended: a goals value submitted to \<open>updateResult\<close> that is neither null nor
  undefined is read with \<open>parseInt\<close>; when that gives \<open>NaN\<close> or a negative number the call
  fails with the message for home or away goals and the store is unchanged; when the call
  succeeds the goals of the returned record, which is the record now in the stored list,
  are what \<open>parseInt\<close> gave, neither \<open>NaN\<close> nor negative; an integer number in the safe
  range is read as itself, and a string that begins with a decimal numeral in the safe
  range is read as that numeral, whatever follows it.  A null or undefined value leaves the
  stored field as it is.
\<close>

theorem C8_goal_validation:
  assumes "matchesData st = Some ms" and "find_index (\<lambda>m. match_id m = matchId) ms = Some i"
      and "matchId \<noteq> []"
  shows "(supplied (homeGoals_r r) \<and> parse_rejected (homeGoals_r r) \<longrightarrow>
            updateResult now st matchId (Some r) = (st, Inl Invalid_home_team_goals)) \<and>
         (\<not> (supplied (homeGoals_r r) \<and> parse_rejected (homeGoals_r r)) \<and>
          supplied (awayGoals_r r) \<and> parse_rejected (awayGoals_r r) \<longrightarrow>
            updateResult now st matchId (Some r) = (st, Inl Invalid_away_team_goals)) \<and>
         (\<forall>st' m. updateResult now st matchId (Some r) = (st', Inr m) \<longrightarrow>
            matchesData st' = Some (ms[i := m]) \<and> i < length ms \<and>
            (supplied (homeGoals_r r) \<longrightarrow>
               \<not> parse_rejected (homeGoals_r r) \<and> homeGoals m = parseInt (homeGoals_r r)) \<and>
            (supplied (awayGoals_r r) \<longrightarrow>
               \<not> parse_rejected (awayGoals_r r) \<and> awayGoals m = parseInt (awayGoals_r r)) \<and>
            (\<not> supplied (homeGoals_r r) \<longrightarrow> homeGoals m = homeGoals (ms ! i)) \<and>
            (\<not> supplied (awayGoals_r r) \<longrightarrow> awayGoals m = awayGoals (ms ! i))) \<and>
         (\<forall>n. safe_integer n \<longrightarrow> parseInt (JNum n) = Some n) \<and>
         (\<forall>ds rest. leading_numeral ds rest \<and> safe_integer (int (decimal_value ds)) \<longrightarrow>
            parseInt (JStr (ds @ rest)) = Some (int (decimal_value ds)))"
proof (intro conjI allI impI)
  assume "supplied (homeGoals_r r) \<and> parse_rejected (homeGoals_r r)"
  then have "validate_goals Invalid_home_team_goals (homeGoals_r r) (homeGoals (ms ! i))
             = Inl Invalid_home_team_goals"
    by (simp add: validate_goals_Inl)
  then show "updateResult now st matchId (Some r) = (st, Inl Invalid_home_team_goals)"
    unfolding updateResult_def using assms by simp
next
  assume a: "\<not> (supplied (homeGoals_r r) \<and> parse_rejected (homeGoals_r r)) \<and>
          supplied (awayGoals_r r) \<and> parse_rejected (awayGoals_r r)"
  then have "validate_goals Invalid_away_team_goals (awayGoals_r r) (awayGoals (ms ! i))
             = Inl Invalid_away_team_goals"
    by (simp add: validate_goals_Inl)
  moreover have "\<exists>g. validate_goals Invalid_home_team_goals (homeGoals_r r) (homeGoals (ms ! i)) = Inr g"
    using a unfolding validate_goals_def supplied_def parse_rejected_def
    by (auto split: option.splits)
  ultimately show "updateResult now st matchId (Some r) = (st, Inl Invalid_away_team_goals)"
    unfolding updateResult_def using assms by auto
next
  fix st' m
  assume s: "updateResult now st matchId (Some r) = (st', Inr m)"
  obtain hg ag where v:
    "validate_goals Invalid_home_team_goals (homeGoals_r r) (homeGoals (ms ! i)) = Inr hg"
    "validate_goals Invalid_away_team_goals (awayGoals_r r) (awayGoals (ms ! i)) = Inr ag"
    "homeGoals m = hg" "awayGoals m = ag" "matchesData st' = Some (ms[i := m])"
    using updateResult_success[OF assms(1,2) s] by (auto simp: apply_result_def Let_def)
  show "matchesData st' = Some (ms[i := m])" by (rule v(5))
  show "i < length ms" using find_index_Some[OF assms(2)] by simp
  show "supplied (homeGoals_r r) \<Longrightarrow> \<not> parse_rejected (homeGoals_r r)"
    using validate_goals_accepts[OF v(1)] by simp
  show "supplied (homeGoals_r r) \<Longrightarrow> homeGoals m = parseInt (homeGoals_r r)"
    using validate_goals_accepts[OF v(1)] v(3) by simp
  show "supplied (awayGoals_r r) \<Longrightarrow> \<not> parse_rejected (awayGoals_r r)"
    using validate_goals_accepts[OF v(2)] by simp
  show "supplied (awayGoals_r r) \<Longrightarrow> awayGoals m = parseInt (awayGoals_r r)"
    using validate_goals_accepts[OF v(2)] v(4) by simp
  show "\<not> supplied (homeGoals_r r) \<Longrightarrow> homeGoals m = homeGoals (ms ! i)"
    using validate_goals_Inr[OF v(1)] v(3) by simp
  show "\<not> supplied (awayGoals_r r) \<Longrightarrow> awayGoals m = awayGoals (ms ! i)"
    using validate_goals_Inr[OF v(2)] v(4) by simp
next
  fix n assume "safe_integer n"
  then show "parseInt (JNum n) = Some n" by (rule parseInt_safe_integer)
next
  fix ds rest
  assume a: "leading_numeral ds rest \<and> safe_integer (int (decimal_value ds))"
  then have "parseInt (JStr (ds @ rest)) = exact_number (int (decimal_value ds))"
    unfolding leading_numeral_def by (intro parseInt_leading_numeral) simp_all
  then show "parseInt (JStr (ds @ rest)) = Some (int (decimal_value ds))"
    using a by (simp add: exact_number_def)
qed

theorem C8_goal_validation_witness:
  "matchesData example_scheduled_store = Some [example_scheduled_match] \<and>
   find_index (\<lambda>m. match_id m = ''m1'') [example_scheduled_match] = Some 0 \<and>
   supplied (JNum (- 1)) \<and> parse_rejected (JNum (- 1)) \<and>
   updateResult ''t'' example_scheduled_store ''m1''
     (Some \<lparr>homeGoals_r = JNum (- 1), awayGoals_r = JNum 1, bestPlayer_r = None\<rparr>) =
   (example_scheduled_store, Inl Invalid_home_team_goals) \<and>
   supplied (JStr ''abc'') \<and> parse_rejected (JStr ''abc'') \<and>
   updateResult ''t'' example_scheduled_store ''m1''
     (Some \<lparr>homeGoals_r = JNum 1, awayGoals_r = JStr ''abc'', bestPlayer_r = None\<rparr>) =
   (example_scheduled_store, Inl Invalid_away_team_goals) \<and>
   supplied (JNum 3) \<and> supplied (JStr ''1.9'') \<and>
   snd (updateResult ''t'' example_scheduled_store ''m1''
     (Some \<lparr>homeGoals_r = JNum 3, awayGoals_r = JStr ''1.9'', bestPlayer_r = None\<rparr>)) =
   Inr (example_scheduled_match\<lparr>homeGoals := Some 3, awayGoals := Some 1, status := Played,
          lastUpdated := ''t''\<rparr>) \<and>
   matchesData (fst (updateResult ''t'' example_scheduled_store ''m1''
     (Some \<lparr>homeGoals_r = JNum 3, awayGoals_r = JStr ''1.9'', bestPlayer_r = None\<rparr>))) =
   Some [example_scheduled_match\<lparr>homeGoals := Some 3, awayGoals := Some 1, status := Played,
           lastUpdated := ''t''\<rparr>] \<and>
   homeGoals (example_scheduled_match\<lparr>homeGoals := Some 3, awayGoals := Some 1, status := Played,
                lastUpdated := ''t''\<rparr>) = parseInt (JNum 3) \<and>
   awayGoals (example_scheduled_match\<lparr>homeGoals := Some 3, awayGoals := Some 1, status := Played,
                lastUpdated := ''t''\<rparr>) = parseInt (JStr ''1.9'') \<and>
   safe_integer 3 \<and> parseInt (JNum 3) = Some 3 \<and>
   leading_numeral ''1'' ''.9'' \<and> safe_integer (int (decimal_value ''1'')) \<and>
   parseInt (JStr ''1.9'') = Some (int (decimal_value ''1'')) \<and> decimal_value ''1'' = 1"
proof -
  let ?m = "example_scheduled_match\<lparr>homeGoals := Some 3, awayGoals := Some 1, status := Played,
              lastUpdated := ''t''\<rparr>"
  let ?r = "\<lparr>homeGoals_r = JNum 3, awayGoals_r = JStr ''1.9'', bestPlayer_r = None\<rparr>"
  have h1: "matchesData example_scheduled_store = Some [example_scheduled_match]"
    by (simp add: example_scheduled_store_def)
  have h2: "find_index (\<lambda>m. match_id m = ''m1'') [example_scheduled_match] = Some 0"
    by (simp add: example_scheduled_match_def)
  have h3: "''m1'' \<noteq> []" by simp
  have p1: "supplied (JNum (- 1))" "parse_rejected (JNum (- 1))" "supplied (JNum 1)"
    "\<not> parse_rejected (JNum 1)" "supplied (JNum 3)" "safe_integer 3"
    by (simp_all add: supplied_def parse_rejected_def parseInt_def exact_number_def
          safe_integer_def)
  have p2: "supplied (JStr ''abc'')" "parse_rejected (JStr ''abc'')" "supplied (JStr ''1.9'')"
    by code_simp+
  have a: "updateResult ''t'' example_scheduled_store ''m1''
     (Some \<lparr>homeGoals_r = JNum (- 1), awayGoals_r = JNum 1, bestPlayer_r = None\<rparr>) =
   (example_scheduled_store, Inl Invalid_home_team_goals)"
    using C8_goal_validation [OF h1 h2 h3, where now="''t''"
            and r="\<lparr>homeGoals_r = JNum (- 1), awayGoals_r = JNum 1, bestPlayer_r = None\<rparr>",
            THEN conjunct1] p1
    by simp
  have b: "updateResult ''t'' example_scheduled_store ''m1''
     (Some \<lparr>homeGoals_r = JNum 1, awayGoals_r = JStr ''abc'', bestPlayer_r = None\<rparr>) =
   (example_scheduled_store, Inl Invalid_away_team_goals)"
    using C8_goal_validation [OF h1 h2 h3, where now="''t''"
            and r="\<lparr>homeGoals_r = JNum 1, awayGoals_r = JStr ''abc'', bestPlayer_r = None\<rparr>",
            THEN conjunct2, THEN conjunct1] p1 p2
    by simp
  have e: "snd (updateResult ''t'' example_scheduled_store ''m1'' (Some ?r)) = Inr ?m"
    by code_simp
  then have e': "updateResult ''t'' example_scheduled_store ''m1'' (Some ?r) =
                 (fst (updateResult ''t'' example_scheduled_store ''m1'' (Some ?r)), Inr ?m)"
    by (metis prod.collapse)
  note c = C8_goal_validation [OF h1 h2 h3, where now="''t''" and r="?r",
            THEN conjunct2, THEN conjunct2, THEN conjunct1, rule_format, OF e']
  have c1: "matchesData (fst (updateResult ''t'' example_scheduled_store ''m1'' (Some ?r))) =
            Some [?m]"
    using c by simp
  have c2: "homeGoals ?m = parseInt (JNum 3)"
    using c p1(5) by simp
  have c3: "awayGoals ?m = parseInt (JStr ''1.9'')"
    using c p2(3) by simp
  have d: "parseInt (JNum 3) = Some 3"
    using C8_goal_validation [OF h1 h2 h3, where now="''t''" and r="?r",
            THEN conjunct2, THEN conjunct2, THEN conjunct2, THEN conjunct1, rule_format, OF p1(6)] .
  have l: "leading_numeral ''1'' ''.9''" "safe_integer (int (decimal_value ''1''))"
    "decimal_value ''1'' = 1"
    by code_simp+
  have s: "parseInt (JStr ''1.9'') = Some (int (decimal_value ''1''))"
    using C8_goal_validation [OF h1 h2 h3, where now="''t''" and r="?r",
            THEN conjunct2, THEN conjunct2, THEN conjunct2, THEN conjunct2, rule_format,
            of "''1''" "''.9''"] l(1,2)
    by simp
  show ?thesis
    using h1 h2 p1(1,2,5,6) p2 a b e c1 c2 c3 d l(1,2) s l(3) by (intro conjI)
qed

lemma createMatch_success:
  assumes "createMatch now st d = (st', Inr m)"
  shows "validateMatchData st d = None"
    and "\<exists>ms. matchesData st = Some ms \<and> matchesData st' = Some (sortByDay (ms @ [m]))"
    and "homeGoals m = or_null (homeGoals_d d)"
    and "awayGoals m = or_null (awayGoals_d d)"
    and "status m = (case status_d d of None \<Rightarrow> Scheduled
                     | Some s \<Rightarrow> (case status_of_string s of Some v \<Rightarrow> v | None \<Rightarrow> Scheduled))"
    and "postponementReason m = str_or_null (postponementReason_d d)"
proof -
  show v: "validateMatchData st d = None"
    using assms unfolding createMatch_def by (cases "validateMatchData st d") auto
  obtain ms where ms: "matchesData st = Some ms"
    using assms v unfolding createMatch_def by (cases "matchesData st") auto
  have f: "find_index (\<lambda>m. match_id m = id_d d) ms = None"
    using assms v ms unfolding createMatch_def by (auto split: if_splits)
  have w: "writable st"
    using assms v ms f unfolding createMatch_def save_matches_def
    by (auto simp: Let_def split: if_splits)
  have e: "matchesData st' = Some (sortByDay (ms @ [m])) \<and>
        homeGoals m = or_null (homeGoals_d d) \<and> awayGoals m = or_null (awayGoals_d d) \<and>
        status m = (case status_d d of None \<Rightarrow> Scheduled
                     | Some s \<Rightarrow> (case status_of_string s of Some v \<Rightarrow> v | None \<Rightarrow> Scheduled)) \<and>
        postponementReason m = str_or_null (postponementReason_d d)"
    using assms v ms f w unfolding createMatch_def save_matches_def
    by (auto simp: Let_def)
  show "\<exists>ms. matchesData st = Some ms \<and> matchesData st' = Some (sortByDay (ms @ [m]))"
    using ms e by blast
  show "homeGoals m = or_null (homeGoals_d d)" using e by blast
  show "awayGoals m = or_null (awayGoals_d d)" using e by blast
  show "status m = (case status_d d of None \<Rightarrow> Scheduled
                     | Some s \<Rightarrow> (case status_of_string s of Some v \<Rightarrow> v | None \<Rightarrow> Scheduled))"
    using e by blast
  show "postponementReason m = str_or_null (postponementReason_d d)" using e by blast
qed

text \<open>
  Claim C10: whenever \<open>createMatch\<close> succeeds, a goals value 0 in its input is stored as
  null: the stored field is \<open>homeGoals || null\<close>, so 0 and a missing value both become null
  and any other number is stored as it is; the stored record is among the persisted
  matches.
\<close>

theorem C10_createMatch_zero_goals:
  assumes "createMatch now st d = (st', Inr m)"
  shows "(homeGoals_d d = Some 0 \<longrightarrow> homeGoals m = None) \<and>
         (awayGoals_d d = Some 0 \<longrightarrow> awayGoals m = None) \<and>
         (homeGoals_d d = None \<longrightarrow> homeGoals m = None) \<and>
         (awayGoals_d d = None \<longrightarrow> awayGoals m = None) \<and>
         (\<forall>n. n \<noteq> 0 \<and> homeGoals_d d = Some n \<longrightarrow> homeGoals m = Some n) \<and>
         (\<forall>n. n \<noteq> 0 \<and> awayGoals_d d = Some n \<longrightarrow> awayGoals m = Some n) \<and>
         m \<in> set (persisted_matches st')"
proof -
  note c = createMatch_success[OF assms]
  obtain ms where ms: "matchesData st' = Some (sortByDay (ms @ [m]))"
    using c(2) by blast
  have "m \<in> set (persisted_matches st')"
    unfolding persisted_matches_def ms sortByDay_def by (simp add: set_sort_by)
  then show ?thesis using c(3,4) by (auto simp: or_null_def)
qed

theorem C10_createMatch_zero_goals_witness:
  "homeGoals_d goalless_matchData = Some 0 \<and> awayGoals_d goalless_matchData = Some 0 \<and>
   createMatch ''t'' example_empty_store goalless_matchData =
     (example_empty_store\<lparr>matchesData := Some
        [\<lparr>match_id = ''m9'', day = 4, homeTeam = ''t1'', awayTeam = ''t2'',
          scheduledTime = ''21:00'', homeGoals = None, awayGoals = None, status = Played,
          bestPlayer = None, postponementReason = None, lastUpdated = ''t''\<rparr>]\<rparr>,
      Inr \<lparr>match_id = ''m9'', day = 4, homeTeam = ''t1'', awayTeam = ''t2'',
          scheduledTime = ''21:00'', homeGoals = None, awayGoals = None, status = Played,
          bestPlayer = None, postponementReason = None, lastUpdated = ''t''\<rparr>)"
proof -
  have r: "createMatch ''t'' example_empty_store goalless_matchData =
     (example_empty_store\<lparr>matchesData := Some
        [\<lparr>match_id = ''m9'', day = 4, homeTeam = ''t1'', awayTeam = ''t2'',
          scheduledTime = ''21:00'', homeGoals = None, awayGoals = None, status = Played,
          bestPlayer = None, postponementReason = None, lastUpdated = ''t''\<rparr>]\<rparr>,
      Inr \<lparr>match_id = ''m9'', day = 4, homeTeam = ''t1'', awayTeam = ''t2'',
          scheduledTime = ''21:00'', homeGoals = None, awayGoals = None, status = Played,
          bestPlayer = None, postponementReason = None, lastUpdated = ''t''\<rparr>)"
    by code_simp
  have g: "homeGoals_d goalless_matchData = Some 0" "awayGoals_d goalless_matchData = Some 0"
    by (simp_all add: goalless_matchData_def)
  show ?thesis using C10_createMatch_zero_goals [OF r] g r by simp
qed

lemma setMatchStatus_success:
  assumes "matchesData st = Some ms"
      and "setMatchStatus now st matchId stat reason = (st', Inr (m, old))"
  shows "\<exists>i new. find_index (\<lambda>m. match_id m = matchId) ms = Some i \<and>
           status_of_string stat = Some new \<and>
           (status (ms ! i), new) \<in> allowed_transitions \<and>
           (new = Postponed \<longrightarrow> truthy reason) \<and>
           m = set_status_match now (ms ! i) new reason \<and>
           matchesData st' = Some (ms[i := m])"
proof -
  have ne: "matchId \<noteq> []" "stat \<noteq> []"
    using assms(2) by (auto simp: setMatchStatus_def)
  obtain new where new: "status_of_string stat = Some new"
    using assms(2) ne by (cases "status_of_string stat") (auto simp: setMatchStatus_def)
  obtain i where i: "find_index (\<lambda>m. match_id m = matchId) ms = Some i"
    using assms ne new
    by (cases "find_index (\<lambda>m. match_id m = matchId) ms") (auto simp: setMatchStatus_def)
  have al: "(status (ms ! i), new) \<in> allowed_transitions"
  proof (rule ccontr)
    assume "(status (ms ! i), new) \<notin> allowed_transitions"
    from setMatchStatus_rejected[OF assms(1) i ne(1) new this, of now reason]
    show False using assms(2) by simp
  qed
  have v: "validateStatusTransition (status (ms ! i)) new = None"
    using al validateStatusTransition_iff by simp
  have tr: "new = Postponed \<longrightarrow> truthy reason"
  proof (rule ccontr)
    assume "\<not> (new = Postponed \<longrightarrow> truthy reason)"
    then have "snd (setMatchStatus now st matchId stat reason) = Inl Postponement_reason_is_required"
      using assms(1) ne new i v by (simp add: setMatchStatus_def Let_def)
    then show False using assms(2) by simp
  qed
  have w: "writable st"
  proof (rule ccontr)
    assume "\<not> writable st"
    then have "snd (setMatchStatus now st matchId stat reason) = Inl Failed_to_save_match_status"
      using assms(1) ne new i v tr by (simp add: setMatchStatus_def Let_def save_matches_def)
    then show False using assms(2) by simp
  qed
  obtain s2 where s2: "setMatchStatus now st matchId stat reason =
           (s2, Inr (set_status_match now (ms ! i) new reason, status (ms ! i)))"
     "matchesData s2 = Some (ms[i := set_status_match now (ms ! i) new reason])"
    using setMatchStatus_accepted[OF assms(1) i ne(1) new al w tr, of now]
    by (auto simp: Let_def)
  then show ?thesis using assms(2) i new al tr by auto
qed

lemma truthy_Some: "truthy reason \<Longrightarrow> reason \<noteq> None"
  by (cases reason) (simp_all add: truthy_def)

lemma match_invariant_set_status:
  assumes "match_invariant m0" and "(status m0, new) \<in> allowed_transitions"
      and "new = Postponed \<longrightarrow> truthy reason"
  shows "match_invariant (set_status_match now m0 new reason)"
  using assms truthy_Some[of reason]
  unfolding match_invariant_def set_status_match_def allowed_transitions_def
  by (cases new) auto

lemma match_invariant_apply_result_neither:
  assumes "match_invariant m0"
  shows "match_invariant (apply_result now m0 (homeGoals m0) (awayGoals m0) bp)"
  using assms unfolding match_invariant_def apply_result_def by (auto simp add: Let_def)

lemma invariant_list_update:
  assumes "\<forall>x\<in>set ms. match_invariant x" and "match_invariant m"
  shows "\<forall>x\<in>set (ms[i := m]). match_invariant x"
  using assms set_update_subset_insert[of ms i m] by auto

lemma find_index_mem: "find_index P xs = Some i \<Longrightarrow> xs ! i \<in> set xs \<and> P (xs ! i)"
  using find_index_Some[of P xs i] by simp

lemma status_of_string_postponed: "(status_of_string s = Some Postponed) = (s = ''postponed'')"
  unfolding status_of_string_def by auto

lemma match_invariant_apply_result:
  assumes "match_invariant m0"
  shows "match_invariant (apply_result now m0 hg ag bp) \<longleftrightarrow>
           ((hg = None) = (ag = None)) \<and> (hg \<noteq> None \<longrightarrow> postponementReason m0 = None)"
  using assms unfolding match_invariant_def apply_result_def by (auto simp add: Let_def)

lemma apply_result_fields:
  "homeGoals (apply_result now m0 hg ag bp) = hg"
  "awayGoals (apply_result now m0 hg ag bp) = ag"
  "postponementReason (apply_result now m0 hg ag bp) = postponementReason m0"
  unfolding apply_result_def by (simp_all add: Let_def)

lemma invariant_list_update_iff:
  assumes "\<forall>x\<in>set ms. match_invariant x" and "i < length ms"
  shows "(\<forall>x\<in>set (ms[i := m]). match_invariant x) \<longleftrightarrow> match_invariant m"
  using invariant_list_update[OF assms(1), of m i] set_update_memI[OF assms(2), of m] by blast

lemma status_of_string_played: "(status_of_string s = Some Played) = (s = ''played'')"
  unfolding status_of_string_def by auto

lemma match_invariant_createMatch_iff:
  assumes "createMatch now st d = (st', Inr m)"
  shows "match_invariant m \<longleftrightarrow>
           ((or_null (homeGoals_d d) = None) = (or_null (awayGoals_d d) = None)) \<and>
           (or_null (homeGoals_d d) \<noteq> None \<longrightarrow> status_d d = Some ''played'') \<and>
           (truthy (postponementReason_d d) = (status_d d = Some ''postponed''))"
proof -
  note c = createMatch_success[OF assms(1)]
  have p: "(postponementReason m \<noteq> None) = truthy (postponementReason_d d)"
    using c(6) truthy_Some[of "postponementReason_d d"] by (simp add: str_or_null_def)
  have s: "(status m = Postponed) = (status_d d = Some ''postponed'')"
  proof (cases "status_d d")
    case None
    then show ?thesis using c(5) by simp
  next
    case (Some x)
    then show ?thesis using c(5) status_of_string_postponed[of x]
      by (cases "status_of_string x") auto
  qed
  have s': "(status m = Played) = (status_d d = Some ''played'')"
  proof (cases "status_d d")
    case None
    then show ?thesis using c(5) by simp
  next
    case (Some x)
    then show ?thesis using c(5) status_of_string_played[of x]
      by (cases "status_of_string x") auto
  qed
  show ?thesis unfolding match_invariant_def c(3,4) p s s' by simp
qed


text \<open>
  Claim C7 as stated (every record persisted by \<open>createMatch\<close>, \<open>updateResult\<close> and
  \<open>setMatchStatus\<close> satisfies the invariant) fails: \<open>updateResult\<close> with the home goals
  alone persists a scheduled match whose home goals are 2 and whose away goals are null,
  \<open>createMatch\<close> with the goals 2 and 1 and no status persists a scheduled match with
  goals, and \<open>updateResult\<close> with both goals on a postponed match persists a played match
  that keeps its postponement reason.
\<close>

theorem C7_invariant_counterexample:
  "match_invariant example_scheduled_match \<and>
   persisted_matches (fst (updateResult ''t'' example_scheduled_store ''m1''
      (Some \<lparr>homeGoals_r = JNum 2, awayGoals_r = JUndefined, bestPlayer_r = None\<rparr>))) =
     [example_scheduled_match\<lparr>homeGoals := Some 2, lastUpdated := ''t''\<rparr>] \<and>
   \<not> match_invariant (example_scheduled_match\<lparr>homeGoals := Some 2, lastUpdated := ''t''\<rparr>) \<and>
   persisted_matches (fst (createMatch ''t'' example_empty_store scored_matchData)) =
     [\<lparr>match_id = ''m8'', day = 5, homeTeam = ''t1'', awayTeam = ''t2'',
       scheduledTime = ''21:00'', homeGoals = Some 2, awayGoals = Some 1, status = Scheduled,
       bestPlayer = None, postponementReason = None, lastUpdated = ''t''\<rparr>] \<and>
   \<not> match_invariant
       \<lparr>match_id = ''m8'', day = 5, homeTeam = ''t1'', awayTeam = ''t2'',
        scheduledTime = ''21:00'', homeGoals = Some 2, awayGoals = Some 1, status = Scheduled,
        bestPlayer = None, postponementReason = None, lastUpdated = ''t''\<rparr> \<and>
   match_invariant example_postponed_match \<and>
   persisted_matches (fst (updateResult ''t'' example_postponed_store ''m1''
      (Some \<lparr>homeGoals_r = JNum 2, awayGoals_r = JNum 1, bestPlayer_r = None\<rparr>))) =
     [example_postponed_match\<lparr>homeGoals := Some 2, awayGoals := Some 1, status := Played,
        lastUpdated := ''t''\<rparr>] \<and>
   \<not> match_invariant
       (example_postponed_match\<lparr>homeGoals := Some 2, awayGoals := Some 1, status := Played,
          lastUpdated := ''t''\<rparr>)"
  by code_simp

text \<open>
  Claim C7, amended: when the stored matches satisfy the data-model invariant, every match
  persisted by a successful \<open>setMatchStatus\<close> satisfies it.  After a successful
  \<open>updateResult\<close> the persisted matches all satisfy it exactly when the updated record
  does; the updated record satisfies it when the call supplies neither goal, and, when the
  record carries no postponement reason (the match was not postponed), exactly when the
  call leaves both goals null or both non-null.  After a successful \<open>createMatch\<close> the
  persisted matches all satisfy it exactly when the new record does, that is, exactly when
  the goals it stores (a goal of 0 is stored as null) are both null or both non-null,
  non-null goals come with the status played, and a postponement reason is given exactly
  with the status postponed.
\<close>

theorem C7_invariant_preservation:
  assumes "matchesData st = Some ms" and "\<forall>x\<in>set ms. match_invariant x"
  shows "(\<forall>st' m old. setMatchStatus now st matchId stat reason = (st', Inr (m, old)) \<longrightarrow>
            match_invariant m \<and> (\<forall>x\<in>set (persisted_matches st'). match_invariant x)) \<and>
         (\<forall>st' m. updateResult now st matchId (Some r) = (st', Inr m) \<longrightarrow>
            ((\<forall>x\<in>set (persisted_matches st'). match_invariant x) \<longleftrightarrow> match_invariant m) \<and>
            (\<not> supplied (homeGoals_r r) \<and> \<not> supplied (awayGoals_r r) \<longrightarrow> match_invariant m) \<and>
            (postponementReason m = None \<longrightarrow>
               (match_invariant m \<longleftrightarrow> (homeGoals m = None) = (awayGoals m = None)))) \<and>
         (\<forall>st' m. createMatch now st d = (st', Inr m) \<longrightarrow>
            ((\<forall>x\<in>set (persisted_matches st'). match_invariant x) \<longleftrightarrow> match_invariant m) \<and>
            (match_invariant m \<longleftrightarrow>
               ((or_null (homeGoals_d d) = None) = (or_null (awayGoals_d d) = None)) \<and>
               (or_null (homeGoals_d d) \<noteq> None \<longrightarrow> status_d d = Some ''played'') \<and>
               (truthy (postponementReason_d d) = (status_d d = Some ''postponed''))))"
proof (intro conjI allI impI)
  fix st' m old
  assume a: "setMatchStatus now st matchId stat reason = (st', Inr (m, old))"
  obtain i new where s: "find_index (\<lambda>m. match_id m = matchId) ms = Some i"
     "(status (ms ! i), new) \<in> allowed_transitions" "new = Postponed \<longrightarrow> truthy reason"
     "m = set_status_match now (ms ! i) new reason" "matchesData st' = Some (ms[i := m])"
    using setMatchStatus_success[OF assms(1) a] by blast
  have "match_invariant (ms ! i)" using find_index_mem[OF s(1)] assms(2) by blast
  then show m: "match_invariant m"
    unfolding s(4) using s(2,3) by (rule match_invariant_set_status)
  show "\<forall>x\<in>set (persisted_matches st'). match_invariant x"
    unfolding persisted_matches_def s(5) using invariant_list_update[OF assms(2) m] by simp
next
  fix st' m
  assume u: "updateResult now st matchId (Some r) = (st', Inr m)"
  obtain i where i: "find_index (\<lambda>m. match_id m = matchId) ms = Some i"
    using u assms(1)
    by (cases "find_index (\<lambda>m. match_id m = matchId) ms") (auto simp: updateResult_def split: if_splits)
  obtain hg ag where v:
    "validate_goals Invalid_home_team_goals (homeGoals_r r) (homeGoals (ms ! i)) = Inr hg"
    "validate_goals Invalid_away_team_goals (awayGoals_r r) (awayGoals (ms ! i)) = Inr ag"
    "m = apply_result now (ms ! i) hg ag (bestPlayer_r r)"
    "matchesData st' = Some (ms[i := m])"
    using updateResult_success[OF assms(1) i u] by blast
  have il: "i < length ms" using find_index_Some[OF i] by simp
  have mi: "ms ! i \<in> set ms" using find_index_mem[OF i] by auto
  then have inv0: "match_invariant (ms ! i)" using assms(2) by blast
  note ch = match_invariant_apply_result[OF inv0, of now hg ag "bestPlayer_r r", folded v(3)]
  have f: "homeGoals m = hg" "awayGoals m = ag" "postponementReason m = postponementReason (ms ! i)"
    unfolding v(3) by (rule apply_result_fields)+
  show "(\<forall>x\<in>set (persisted_matches st'). match_invariant x) \<longleftrightarrow> match_invariant m"
    unfolding persisted_matches_def v(4) using invariant_list_update_iff[OF assms(2) il] by simp
  {
    assume n: "\<not> supplied (homeGoals_r r) \<and> \<not> supplied (awayGoals_r r)"
    have "hg = homeGoals (ms ! i)" "ag = awayGoals (ms ! i)"
      using validate_goals_Inr[OF v(1)] validate_goals_Inr[OF v(2)] n by auto
    then show "match_invariant m" unfolding v(3)
      using match_invariant_apply_result_neither[OF inv0] by simp
  }
  {
    assume "postponementReason m = None"
    then show "match_invariant m \<longleftrightarrow> (homeGoals m = None) = (awayGoals m = None)"
      using ch f by simp
  }
next
  fix st' m
  assume a: "createMatch now st d = (st', Inr m)"
  obtain ms' where "matchesData st = Some ms'" "matchesData st' = Some (sortByDay (ms' @ [m]))"
    using createMatch_success(2)[OF a] by blast
  then have "matchesData st' = Some (sortByDay (ms @ [m]))" using assms(1) by simp
  then show "(\<forall>x\<in>set (persisted_matches st'). match_invariant x) \<longleftrightarrow> match_invariant m"
    unfolding persisted_matches_def sortByDay_def using assms(2) by (auto simp add: set_sort_by)
  show "match_invariant m \<longleftrightarrow>
               ((or_null (homeGoals_d d) = None) = (or_null (awayGoals_d d) = None)) \<and>
               (or_null (homeGoals_d d) \<noteq> None \<longrightarrow> status_d d = Some ''played'') \<and>
               (truthy (postponementReason_d d) = (status_d d = Some ''postponed''))"
    by (rule match_invariant_createMatch_iff[OF a])
qed

theorem C7_invariant_preservation_witness:
  "matchesData played_store = Some [example_played_match, second_played_match] \<and>
   match_invariant example_played_match \<and> match_invariant second_played_match \<and>
   snd (setMatchStatus ''t'' played_store ''m1'' ''postponed'' (Some ''rain'')) =
     Inr (example_played_match\<lparr>homeGoals := None, awayGoals := None, status := Postponed,
            bestPlayer := None, postponementReason := Some ''rain'', lastUpdated := ''t''\<rparr>, Played) \<and>
   match_invariant
     (example_played_match\<lparr>homeGoals := None, awayGoals := None, status := Postponed,
        bestPlayer := None, postponementReason := Some ''rain'', lastUpdated := ''t''\<rparr>) \<and>
   supplied (JNum 3) \<and>
   snd (updateResult ''t'' played_store ''m1''
          (Some \<lparr>homeGoals_r = JNum 3, awayGoals_r = JUndefined, bestPlayer_r = None\<rparr>)) =
     Inr (example_played_match\<lparr>homeGoals := Some 3, lastUpdated := ''t''\<rparr>) \<and>
   match_invariant (example_played_match\<lparr>homeGoals := Some 3, lastUpdated := ''t''\<rparr>) \<and>
   snd (createMatch ''t'' played_store played_matchData) =
     Inr \<lparr>match_id = ''m7'', day = 6, homeTeam = ''t1'', awayTeam = ''t2'',
          scheduledTime = ''21:00'', homeGoals = Some 2, awayGoals = Some 1, status = Played,
          bestPlayer = None, postponementReason = None, lastUpdated = ''t''\<rparr> \<and>
   match_invariant
     \<lparr>match_id = ''m7'', day = 6, homeTeam = ''t1'', awayTeam = ''t2'',
      scheduledTime = ''21:00'', homeGoals = Some 2, awayGoals = Some 1, status = Played,
      bestPlayer = None, postponementReason = None, lastUpdated = ''t''\<rparr>"
proof -
  let ?m1 = "example_played_match\<lparr>homeGoals := None, awayGoals := None, status := Postponed,
               bestPlayer := None, postponementReason := Some ''rain'', lastUpdated := ''t''\<rparr>"
  let ?m2 = "example_played_match\<lparr>homeGoals := Some 3, lastUpdated := ''t''\<rparr>"
  let ?m3 = "\<lparr>match_id = ''m7'', day = 6, homeTeam = ''t1'', awayTeam = ''t2'',
      scheduledTime = ''21:00'', homeGoals = Some 2, awayGoals = Some 1, status = Played,
      bestPlayer = None, postponementReason = None, lastUpdated = ''t''\<rparr>"
  let ?r = "\<lparr>homeGoals_r = JNum 3, awayGoals_r = JUndefined, bestPlayer_r = None\<rparr>"
  have h1: "matchesData played_store = Some [example_played_match, second_played_match]"
    by (simp add: played_store_def)
  have i1: "match_invariant example_played_match" "match_invariant second_played_match"
    by (simp_all add: example_played_match_def second_played_match_def match_invariant_def)
  then have h2: "\<forall>x\<in>set [example_played_match, second_played_match]. match_invariant x"
    by simp
  note t = C7_invariant_preservation [OF h1 h2, where now="''t''"]
  have r1: "snd (setMatchStatus ''t'' played_store ''m1'' ''postponed'' (Some ''rain'')) =
            Inr (?m1, Played)"
    by code_simp
  then have r1': "setMatchStatus ''t'' played_store ''m1'' ''postponed'' (Some ''rain'') =
     (fst (setMatchStatus ''t'' played_store ''m1'' ''postponed'' (Some ''rain'')), Inr (?m1, Played))"
    by (metis prod.collapse)
  have c1: "match_invariant ?m1"
    using t [where matchId="''m1''" and stat="''postponed''" and reason="Some ''rain''",
             THEN conjunct1, rule_format, OF r1'] by blast
  have r2: "snd (updateResult ''t'' played_store ''m1'' (Some ?r)) = Inr ?m2"
    by code_simp
  then have r2': "updateResult ''t'' played_store ''m1'' (Some ?r) =
     (fst (updateResult ''t'' played_store ''m1'' (Some ?r)), Inr ?m2)"
    by (metis prod.collapse)
  have g2: "postponementReason ?m2 = None" "(homeGoals ?m2 = None) = (awayGoals ?m2 = None)"
    by (simp_all add: example_played_match_def)
  have c2: "match_invariant ?m2"
    using t [where matchId="''m1''" and r="?r",
             THEN conjunct2, THEN conjunct1, rule_format, OF r2'] g2 by blast
  have r3: "snd (createMatch ''t'' played_store played_matchData) = Inr ?m3"
    by code_simp
  then have r3': "createMatch ''t'' played_store played_matchData =
     (fst (createMatch ''t'' played_store played_matchData), Inr ?m3)"
    by (metis prod.collapse)
  have g3: "(or_null (homeGoals_d played_matchData) = None) =
            (or_null (awayGoals_d played_matchData) = None)"
    "status_d played_matchData = Some ''played''"
    "truthy (postponementReason_d played_matchData) = (status_d played_matchData = Some ''postponed'')"
    by (simp_all add: played_matchData_def or_null_def truthy_def)
  have c3: "match_invariant ?m3"
    using t [where d=played_matchData,
             THEN conjunct2, THEN conjunct2, rule_format, OF r3'] g3 by blast
  have s: "supplied (JNum 3)" by (simp add: supplied_def)
  show ?thesis using h1 i1 r1 c1 s r2 c2 r3 c3 by (intro conjI)
qed

section \<open>Properties of the playoff engine\<close>

text \<open>
  What a level score without a penalty outcome does to the engine in general: the error
  is raised, the store and the winners are untouched, and the semifinal in memory carries
  the goals and the status completed.
\<close>

lemma level_equal_goals: "parseInt hg = parseInt ag \<Longrightarrow> level (with_goals m hg ag)"
  by (cases "parseInt ag") (simp_all add: level_def with_goals_def num_gt_def)

lemma updateSemifinalResult_draw_without_penalty:
  assumes "bracketStructure eng = Some b"
      and "find_index (\<lambda>m. pm_id m = matchId) (semifinals b) = Some i"
      and "parseInt hg = parseInt ag"
  shows "updateSemifinalResult eng matchId hg ag None =
           (eng\<lparr>bracketStructure :=
                  Some (b\<lparr>semifinals := (semifinals b)[i := with_goals (semifinals b ! i) hg ag]\<rparr>)\<rparr>,
            Inl Draw_result_requires_penalty_shootout_result)"
    and "salfoon_playoffs (fst (updateSemifinalResult eng matchId hg ag None)) = salfoon_playoffs eng"
    and "map winner (memory_semifinals (fst (updateSemifinalResult eng matchId hg ag None))) =
         map winner (semifinals b)"
    and "pm_status (memory_semifinals (fst (updateSemifinalResult eng matchId hg ag None)) ! i) =
         Pm_completed"
proof -
  have il: "i < length (semifinals b)"
    using find_index_Some[OF assms(2)] by simp
  show r: "updateSemifinalResult eng matchId hg ag None =
           (eng\<lparr>bracketStructure :=
                  Some (b\<lparr>semifinals := (semifinals b)[i := with_goals (semifinals b ! i) hg ag]\<rparr>)\<rparr>,
            Inl Draw_result_requires_penalty_shootout_result)"
    unfolding updateSemifinalResult_def
    using assms(1,2) level_equal_goals[OF assms(3), of "semifinals b ! i"] by simp
  show "salfoon_playoffs (fst (updateSemifinalResult eng matchId hg ag None)) = salfoon_playoffs eng"
    unfolding r by simp
  have w: "winner (with_goals (semifinals b ! i) hg ag) = winner (semifinals b ! i)"
    by (simp add: with_goals_def)
  show "map winner (memory_semifinals (fst (updateSemifinalResult eng matchId hg ag None))) =
         map winner (semifinals b)"
    unfolding r using il by (simp add: memory_semifinals_def map_update w list_update_same_conv)
  show "pm_status (memory_semifinals (fst (updateSemifinalResult eng matchId hg ag None)) ! i) =
         Pm_completed"
    unfolding r using il by (simp add: memory_semifinals_def with_goals_def)
qed

text \<open>
  Claim C4 at a failing input: on the generated bracket, a 2-2 in the first semifinal
  with no penalty outcome raises the draw error, picks no winner and leaves the store as it
  was, but the bracket held by the engine has changed: the semifinal is now completed with
  goals 2-2.  The next successful result (the second semifinal, 1-0) saves that bracket, so
  the store then holds a completed first semifinal without a winner.  The same 2-2 with a
  penalty outcome for the home side succeeds with the home team as winner.  A 1-1 in the
  final with no penalty outcome likewise raises its draw error and leaves the final in
  memory completed, with the tournament phase still playoffs.
\<close>

theorem C4_failed_draw_changes_bracket:
  "snd (updateSemifinalResult generated_engine ''semi-1'' (JNum 2) (JNum 2) None) =
     Inl Draw_result_requires_penalty_shootout_result \<and>
   map winner_id (memory_semifinals after_failed_draw) = [None, None] \<and>
   salfoon_playoffs after_failed_draw = salfoon_playoffs generated_engine \<and>
   map pm_status (memory_semifinals generated_engine) = [Pm_scheduled, Pm_scheduled] \<and>
   map pm_status (memory_semifinals after_failed_draw) = [Pm_completed, Pm_scheduled] \<and>
   map pm_homeGoals (memory_semifinals after_failed_draw) = [Some 2, None] \<and>
   bracketStructure after_failed_draw \<noteq> bracketStructure generated_engine \<and>
   map pm_status (stored_semifinals
      (fst (updateSemifinalResult after_failed_draw ''semi-2'' (JNum 1) (JNum 0) None))) =
     [Pm_completed, Pm_completed] \<and>
   map winner_id (stored_semifinals
      (fst (updateSemifinalResult after_failed_draw ''semi-2'' (JNum 1) (JNum 0) None))) =
     [None, Some ''t2''] \<and>
   map winner_id (memory_semifinals
      (fst (updateSemifinalResult generated_engine ''semi-1'' (JNum 2) (JNum 2)
              (Some \<lparr>penalty_winner = ''home''\<rparr>)))) = [Some ''t1'', None] \<and>
   snd (updateFinalResult ''t1'' after_semifinals (JNum 1) (JNum 1) None) =
     Inl Final_draw_requires_penalty_shootout_result \<and>
   memory_final_status after_semifinals = Some Pm_scheduled \<and>
   memory_final_status (fst (updateFinalResult ''t1'' after_semifinals (JNum 1) (JNum 1) None)) =
     Some Pm_completed \<and>
   memory_phase (fst (updateFinalResult ''t1'' after_semifinals (JNum 1) (JNum 1) None)) =
     Some Phase_playoffs"
  by code_simp

lemma position_calculateStandings:
  assumes "i < length (calculateStandings lc td md)"
  shows "position (calculateStandings lc td md ! i) = i + 1"
proof (cases td)
  case None
  then show ?thesis using assms by (simp add: calculateStandings_def)
next
  case (Some ts)
  note ts = this
  show ?thesis
  proof (cases md)
    case None
    then show ?thesis using assms ts by (simp add: calculateStandings_def)
  next
    case (Some ms)
    define X where "X = applyTieBreakers lc
       (map (\<lambda>r. r\<lparr>goalDifference := goalsFor r - goalsAgainst r\<rparr>)
         (process_matches (filter is_played ms) (map initial_row ts)))"
    have e: "calculateStandings lc td md = determineQualification X"
      using ts Some by (simp add: calculateStandings_def Let_def X_def)
    then have "i < length X" using assms by (simp add: length_determineQualification)
    then show ?thesis unfolding e by (simp add: nth_determineQualification)
  qed
qed

lemma seeded_as_seeded_team: "seeded_as (Some (seeded_team st r n)) r n"
  by (simp add: seeded_as_def seeded_team_def)

lemma generatePlayoffBracket_fails:
  assumes "length (calculateStandings lc (teamsData st) (matchesData st)) < 4"
  shows "generatePlayoffBracket lc now st eng = (eng, Inl Need_at_least_4_teams)"
  using assms by (simp add: generatePlayoffBracket_def Let_def)

lemma generatePlayoffBracket_seeds:
  assumes "4 \<le> length (calculateStandings lc (teamsData st) (matchesData st))"
  shows "\<exists>b s1 s2.
           generatePlayoffBracket lc now st eng = (saveBracket (eng\<lparr>bracketStructure := Some b\<rparr>), Inr b) \<and>
           semifinals b = [s1, s2] \<and>
           seeded_as (pm_homeTeam s1) (calculateStandings lc (teamsData st) (matchesData st) ! 0) 1 \<and>
           seeded_as (pm_awayTeam s1) (calculateStandings lc (teamsData st) (matchesData st) ! 3) 4 \<and>
           seeded_as (pm_homeTeam s2) (calculateStandings lc (teamsData st) (matchesData st) ! 1) 2 \<and>
           seeded_as (pm_awayTeam s2) (calculateStandings lc (teamsData st) (matchesData st) ! 2) 3 \<and>
           pm_status s1 = Pm_scheduled \<and> pm_status s2 = Pm_scheduled \<and>
           winner s1 = None \<and> winner s2 = None \<and>
           pm_homeTeam (final b) = None \<and> pm_awayTeam (final b) = None \<and>
           pm_status (final b) = Pm_pending \<and>
           pm_homeTeam (thirdPlace b) = None \<and> pm_awayTeam (thirdPlace b) = None \<and>
           pm_status (thirdPlace b) = Pm_pending"
proof -
  define S where "S = calculateStandings lc (teamsData st) (matchesData st)"
  have len: "\<not> length S < 4" using assms by (simp add: S_def)
  define b where "b =
     \<lparr>semifinals =
        [new_semifinal ''semi-1'' (seeded_team st (S ! 0) 1) (seeded_team st (S ! 3) 4),
         new_semifinal ''semi-2'' (seeded_team st (S ! 1) 2) (seeded_team st (S ! 2) 3)],
      final =
        \<lparr>pm_id = ''final'', pm_homeTeam = None, pm_awayTeam = None,
         pm_status = Pm_pending, pm_homeGoals = None, pm_awayGoals = None,
         winner = None, loser = None, penaltyResult = None,
         champion = None, runnerUp = None\<rparr>,
      thirdPlace =
        \<lparr>pm_id = ''third-place'', pm_homeTeam = None, pm_awayTeam = None,
         pm_status = Pm_pending, pm_homeGoals = None, pm_awayGoals = None,
         winner = None, loser = None, penaltyResult = None\<rparr>,
      metadata =
        \<lparr>generated = now, qualifiedTeams = take 4 S,
         tournamentPhase = Phase_playoffs, md_champion = None, md_runnerUp = None,
         completedDate = None\<rparr>\<rparr>"
  have g: "generatePlayoffBracket lc now st eng = (saveBracket (eng\<lparr>bracketStructure := Some b\<rparr>), Inr b)"
    unfolding generatePlayoffBracket_def S_def[symmetric] Let_def b_def
    using len by simp
  show ?thesis
    unfolding S_def[symmetric]
    apply (rule exI[of _ b])
    apply (rule exI[of _ "new_semifinal ''semi-1'' (seeded_team st (S ! 0) 1) (seeded_team st (S ! 3) 4)"])
    apply (rule exI[of _ "new_semifinal ''semi-2'' (seeded_team st (S ! 1) 2) (seeded_team st (S ! 2) 3)"])
    using g by (simp add: b_def new_semifinal_def seeded_as_seeded_team)
qed

lemma updateBracketProgression_final:
  assumes "semifinals b = s1 # s2 # rest" and "winner s1 = Some w1" and "winner s2 = Some w2"
  shows "\<exists>b'. updateBracketProgression b = Inr b' \<and>
              pm_homeTeam (final b') = Some w1 \<and> pm_awayTeam (final b') = Some w2 \<and>
              pm_status (final b') = Pm_scheduled \<and>
              (\<forall>l1 l2. loser s1 = Some l1 \<and> loser s2 = Some l2 \<longrightarrow>
                 pm_homeTeam (thirdPlace b') = Some l1 \<and> pm_awayTeam (thirdPlace b') = Some l2 \<and>
                 pm_status (thirdPlace b') = Pm_scheduled) \<and>
              updateBracketProgression b' = Inr b'"
  using assms by (simp add: updateBracketProgression_def Let_def)

lemma updateBracketProgression_idem:
  assumes "updateBracketProgression b = Inr b'"
  shows "updateBracketProgression b' = Inr b'"
proof (cases "semifinals b")
  case Nil
  then show ?thesis using assms by (simp add: updateBracketProgression_def)
next
  case (Cons s1 xs)
  note c = this
  show ?thesis
  proof (cases xs)
    case Nil
    then show ?thesis using assms c by (auto simp add: updateBracketProgression_def split: if_splits)
  next
    case (Cons s2 rest)
    then show ?thesis using assms c by (auto simp add: updateBracketProgression_def Let_def)
  qed
qed

text \<open>
  Claim C2: \<open>generatePlayoffBracket\<close> fails with the need-at-least-4-teams error whenever
  the standings have fewer than four rows; otherwise the bracket it returns and stores has
  the semifinals rank 1 against rank 4 and rank 2 against rank 3, and a final and a
  third-place match that are pending with no teams.  For every bracket whose two semifinals
  have a winner, \<open>updateBracketProgression\<close> sets the final to the winner of the first
  semifinal at home against the winner of the second, with status scheduled; when both have
  a loser it sets the third-place match from the two losers in the same way; and running
  it again changes nothing.
\<close>

theorem C2_bracket_generation_and_progression:
  "(length (calculateStandings lc (teamsData st) (matchesData st)) < 4 \<longrightarrow>
      generatePlayoffBracket lc now st eng = (eng, Inl Need_at_least_4_teams)) \<and>
   (4 \<le> length (calculateStandings lc (teamsData st) (matchesData st)) \<longrightarrow>
      (\<exists>b s1 s2.
         generatePlayoffBracket lc now st eng =
           (saveBracket (eng\<lparr>bracketStructure := Some b\<rparr>), Inr b) \<and>
         semifinals b = [s1, s2] \<and>
         seeded_as (pm_homeTeam s1) (calculateStandings lc (teamsData st) (matchesData st) ! 0) 1 \<and>
         seeded_as (pm_awayTeam s1) (calculateStandings lc (teamsData st) (matchesData st) ! 3) 4 \<and>
         seeded_as (pm_homeTeam s2) (calculateStandings lc (teamsData st) (matchesData st) ! 1) 2 \<and>
         seeded_as (pm_awayTeam s2) (calculateStandings lc (teamsData st) (matchesData st) ! 2) 3 \<and>
         pm_status s1 = Pm_scheduled \<and> pm_status s2 = Pm_scheduled \<and>
         winner s1 = None \<and> winner s2 = None \<and>
         pm_homeTeam (final b) = None \<and> pm_awayTeam (final b) = None \<and>
         pm_status (final b) = Pm_pending \<and>
         pm_homeTeam (thirdPlace b) = None \<and> pm_awayTeam (thirdPlace b) = None \<and>
         pm_status (thirdPlace b) = Pm_pending) \<and>
      (\<forall>i<4. position (calculateStandings lc (teamsData st) (matchesData st) ! i) = i + 1)) \<and>
   (\<forall>b s1 s2 rest w1 w2.
      semifinals b = s1 # s2 # rest \<and> winner s1 = Some w1 \<and> winner s2 = Some w2 \<longrightarrow>
      (\<exists>b'. updateBracketProgression b = Inr b' \<and>
            pm_homeTeam (final b') = Some w1 \<and> pm_awayTeam (final b') = Some w2 \<and>
            pm_status (final b') = Pm_scheduled \<and>
            (\<forall>l1 l2. loser s1 = Some l1 \<and> loser s2 = Some l2 \<longrightarrow>
               pm_homeTeam (thirdPlace b') = Some l1 \<and> pm_awayTeam (thirdPlace b') = Some l2 \<and>
               pm_status (thirdPlace b') = Pm_scheduled) \<and>
            updateBracketProgression b' = Inr b')) \<and>
   (\<forall>b b'. updateBracketProgression b = Inr b' \<longrightarrow> updateBracketProgression b' = Inr b')"
proof (intro conjI impI allI)
  assume "length (calculateStandings lc (teamsData st) (matchesData st)) < 4"
  then show "generatePlayoffBracket lc now st eng = (eng, Inl Need_at_least_4_teams)"
    by (rule generatePlayoffBracket_fails)
next
  assume "4 \<le> length (calculateStandings lc (teamsData st) (matchesData st))"
  then show "\<exists>b s1 s2.
         generatePlayoffBracket lc now st eng =
           (saveBracket (eng\<lparr>bracketStructure := Some b\<rparr>), Inr b) \<and>
         semifinals b = [s1, s2] \<and>
         seeded_as (pm_homeTeam s1) (calculateStandings lc (teamsData st) (matchesData st) ! 0) 1 \<and>
         seeded_as (pm_awayTeam s1) (calculateStandings lc (teamsData st) (matchesData st) ! 3) 4 \<and>
         seeded_as (pm_homeTeam s2) (calculateStandings lc (teamsData st) (matchesData st) ! 1) 2 \<and>
         seeded_as (pm_awayTeam s2) (calculateStandings lc (teamsData st) (matchesData st) ! 2) 3 \<and>
         pm_status s1 = Pm_scheduled \<and> pm_status s2 = Pm_scheduled \<and>
         winner s1 = None \<and> winner s2 = None \<and>
         pm_homeTeam (final b) = None \<and> pm_awayTeam (final b) = None \<and>
         pm_status (final b) = Pm_pending \<and>
         pm_homeTeam (thirdPlace b) = None \<and> pm_awayTeam (thirdPlace b) = None \<and>
         pm_status (thirdPlace b) = Pm_pending"
    by (rule generatePlayoffBracket_seeds)
next
  fix i :: nat
  assume "4 \<le> length (calculateStandings lc (teamsData st) (matchesData st))" "i < 4"
  then show "position (calculateStandings lc (teamsData st) (matchesData st) ! i) = i + 1"
    by (intro position_calculateStandings) simp
next
  fix b :: bracket and s1 s2 :: playoff_match and rest w1 w2
  assume "semifinals b = s1 # s2 # rest \<and> winner s1 = Some w1 \<and> winner s2 = Some w2"
  then show "\<exists>b'. updateBracketProgression b = Inr b' \<and>
            pm_homeTeam (final b') = Some w1 \<and> pm_awayTeam (final b') = Some w2 \<and>
            pm_status (final b') = Pm_scheduled \<and>
            (\<forall>l1 l2. loser s1 = Some l1 \<and> loser s2 = Some l2 \<longrightarrow>
               pm_homeTeam (thirdPlace b') = Some l1 \<and> pm_awayTeam (thirdPlace b') = Some l2 \<and>
               pm_status (thirdPlace b') = Pm_scheduled) \<and>
            updateBracketProgression b' = Inr b'"
    using updateBracketProgression_final by blast
next
  fix b b'
  assume "updateBracketProgression b = Inr b'"
  then show "updateBracketProgression b' = Inr b'"
    by (rule updateBracketProgression_idem)
qed

theorem C2_bracket_generation_and_progression_witness:
  "4 \<le> length (calculateStandings lc_codepoint (teamsData league_store) (matchesData league_store)) \<and>
   (\<exists>b s1 s2.
      generatePlayoffBracket lc_codepoint ''t0'' league_store fresh_engine =
        (saveBracket (fresh_engine\<lparr>bracketStructure := Some b\<rparr>), Inr b) \<and>
      semifinals b = [s1, s2] \<and>
      seeded_as (pm_homeTeam s1)
        (calculateStandings lc_codepoint (teamsData league_store) (matchesData league_store) ! 0) 1 \<and>
      seeded_as (pm_awayTeam s1)
        (calculateStandings lc_codepoint (teamsData league_store) (matchesData league_store) ! 3) 4) \<and>
   semifinals resolved_bracket = [resolved_semi1, resolved_semi2] \<and>
   winner resolved_semi1 = Some (example_team ''t1'' ''Alpha'' 1) \<and>
   winner resolved_semi2 = Some (example_team ''t2'' ''Bravo'' 2) \<and>
   (\<exists>b'. updateBracketProgression resolved_bracket = Inr b' \<and>
         pm_homeTeam (final b') = Some (example_team ''t1'' ''Alpha'' 1) \<and>
         pm_awayTeam (final b') = Some (example_team ''t2'' ''Bravo'' 2) \<and>
         pm_status (final b') = Pm_scheduled)"
proof -
  have l: "4 \<le> length (calculateStandings lc_codepoint (teamsData league_store) (matchesData league_store))"
    by code_simp
  have s: "semifinals resolved_bracket = [resolved_semi1, resolved_semi2]"
    by (simp add: resolved_bracket_def)
  have w: "winner resolved_semi1 = Some (example_team ''t1'' ''Alpha'' 1)"
          "winner resolved_semi2 = Some (example_team ''t2'' ''Bravo'' 2)"
    by (simp_all add: resolved_semi1_def resolved_semi2_def)
  note t = C2_bracket_generation_and_progression
             [where lc=lc_codepoint and st=league_store and now="''t0''" and eng=fresh_engine]
  have g: "\<exists>b s1 s2.
      generatePlayoffBracket lc_codepoint ''t0'' league_store fresh_engine =
        (saveBracket (fresh_engine\<lparr>bracketStructure := Some b\<rparr>), Inr b) \<and>
      semifinals b = [s1, s2] \<and>
      seeded_as (pm_homeTeam s1)
        (calculateStandings lc_codepoint (teamsData league_store) (matchesData league_store) ! 0) 1 \<and>
      seeded_as (pm_awayTeam s1)
        (calculateStandings lc_codepoint (teamsData league_store) (matchesData league_store) ! 3) 4"
    using t[THEN conjunct2, THEN conjunct1] l by blast
  have p: "\<exists>b'. updateBracketProgression resolved_bracket = Inr b' \<and>
         pm_homeTeam (final b') = Some (example_team ''t1'' ''Alpha'' 1) \<and>
         pm_awayTeam (final b') = Some (example_team ''t2'' ''Bravo'' 2) \<and>
         pm_status (final b') = Pm_scheduled"
    using t[THEN conjunct2, THEN conjunct2, THEN conjunct1, rule_format,
            of resolved_bracket resolved_semi1 resolved_semi2 "[]"
               "example_team ''t1'' ''Alpha'' 1" "example_team ''t2'' ''Bravo'' 2"] s w
    by blast
  show ?thesis using l g s w p by (intro conjI)
qed

text \<open>
  Claim C9 as stated (a recorded result is terminal, and nothing changes once the
  tournament is completed) fails: the first semifinal, won 2-1 by team t1, is resolved again
  as 0-3 and its winner becomes t4; after the final made t1 champion and completed the
  tournament, a second final result makes t2 champion; and generating the bracket again
  after completion puts the phase back to playoffs.
\<close>

theorem C9_terminal_counterexample:
  "map winner_id (memory_semifinals after_semi1) = [Some ''t1'', None] \<and>
   map winner_id (memory_semifinals
      (fst (updateSemifinalResult after_semi1 ''semi-1'' (JNum 0) (JNum 3) None))) =
     [Some ''t4'', None] \<and>
   memory_phase after_final = Some Phase_completed \<and>
   memory_champion_id after_final = Some ''t1'' \<and>
   memory_champion_id (fst (updateFinalResult ''t2'' after_final (JNum 0) (JNum 1) None)) =
     Some ''t2'' \<and>
   memory_phase (fst (generatePlayoffBracket lc_codepoint ''t2'' league_store after_final)) =
     Some Phase_playoffs"
  by code_simp

lemma updateBracketProgression_keeps:
  assumes "updateBracketProgression b = Inr b'"
  shows "semifinals b' = semifinals b \<and> metadata b' = metadata b"
proof (cases "semifinals b")
  case Nil
  then show ?thesis using assms by (simp add: updateBracketProgression_def)
next
  case (Cons s1 xs)
  note c = this
  show ?thesis
  proof (cases xs)
    case Nil
    then show ?thesis using assms c by (auto simp add: updateBracketProgression_def split: if_splits)
  next
    case (Cons s2 rest)
    then show ?thesis using assms c by (auto simp add: updateBracketProgression_def Let_def)
  qed
qed

lemma updateBracketProgression_defined:
  assumes "2 \<le> length (semifinals b)"
  shows "\<exists>b'. updateBracketProgression b = Inr b'"
proof -
  obtain s1 s2 rest where "semifinals b = s1 # s2 # rest"
    using assms by (cases "semifinals b" rule: list.exhaust; cases "tl (semifinals b)") auto
  then show ?thesis by (simp add: updateBracketProgression_def Let_def)
qed

lemma decide_semifinal_decisive:
  assumes "num_gt (parseInt hg) (parseInt ag) \<or> num_gt (parseInt ag) (parseInt hg)"
  shows "pm_homeGoals (decide_semifinal (with_goals m hg ag) pen) = parseInt hg"
    and "pm_awayGoals (decide_semifinal (with_goals m hg ag) pen) = parseInt ag"
    and "pm_status (decide_semifinal (with_goals m hg ag) pen) = Pm_completed"
    and "winner (decide_semifinal (with_goals m hg ag) pen) =
           (if num_gt (parseInt hg) (parseInt ag) then pm_homeTeam m else pm_awayTeam m)"
    and "loser (decide_semifinal (with_goals m hg ag) pen) =
           (if num_gt (parseInt hg) (parseInt ag) then pm_awayTeam m else pm_homeTeam m)"
  using assms by (auto simp add: decide_semifinal_def with_goals_def)

lemma not_level_decisive:
  assumes "num_gt (parseInt hg) (parseInt ag) \<or> num_gt (parseInt ag) (parseInt hg)"
  shows "\<not> level (with_goals m hg ag)"
  using assms by (auto simp add: with_goals_def level_def)

lemma updateSemifinalResult_decisive:
  assumes "bracketStructure eng = Some b"
      and "find_index (\<lambda>m. pm_id m = matchId) (semifinals b) = Some i"
      and "2 \<le> length (semifinals b)"
      and "num_gt (parseInt hg) (parseInt ag) \<or> num_gt (parseInt ag) (parseInt hg)"
  shows "\<exists>eng' s. updateSemifinalResult eng matchId hg ag pen = (eng', Inr s) \<and>
           pm_homeGoals s = parseInt hg \<and> pm_awayGoals s = parseInt ag \<and>
           pm_status s = Pm_completed \<and>
           winner s = (if num_gt (parseInt hg) (parseInt ag)
                       then pm_homeTeam (semifinals b ! i) else pm_awayTeam (semifinals b ! i)) \<and>
           loser s = (if num_gt (parseInt hg) (parseInt ag)
                      then pm_awayTeam (semifinals b ! i) else pm_homeTeam (semifinals b ! i)) \<and>
           memory_semifinals eng' = (semifinals b)[i := s]"
proof -
  define s2 where "s2 = decide_semifinal (with_goals (semifinals b ! i) hg ag) pen"
  define b2 where "b2 = b\<lparr>semifinals := (semifinals b)[i := s2]\<rparr>"
  have "2 \<le> length (semifinals b2)" using assms(3) by (simp add: b2_def)
  then obtain b' where b': "updateBracketProgression b2 = Inr b'"
    using updateBracketProgression_defined by blast
  have k: "semifinals b' = (semifinals b)[i := s2]"
    using updateBracketProgression_keeps[OF b'] by (simp add: b2_def)
  note d = decide_semifinal_decisive[OF assms(4), where m="semifinals b ! i" and pen=pen]
  note nl = not_level_decisive[OF assms(4), where m="semifinals b ! i"]
  have r: "updateSemifinalResult eng matchId hg ag pen =
           (saveBracket (eng\<lparr>bracketStructure := Some b'\<rparr>), Inr s2)"
    unfolding updateSemifinalResult_def
    using assms(1,2) nl b'[unfolded b2_def s2_def]
    by (simp add: s2_def)
  have m: "memory_semifinals (saveBracket (eng\<lparr>bracketStructure := Some b'\<rparr>)) = (semifinals b)[i := s2]"
    using k by (simp add: memory_semifinals_def saveBracket_def)
  show ?thesis
    using r m d(1-5) unfolding s2_def by blast
qed

lemma decide_final_decisive:
  assumes "num_gt (parseInt hg) (parseInt ag) \<or> num_gt (parseInt ag) (parseInt hg)"
  shows "champion (decide_final (with_goals f hg ag) pen) =
           (if num_gt (parseInt hg) (parseInt ag) then pm_homeTeam f else pm_awayTeam f)"
    and "runnerUp (decide_final (with_goals f hg ag) pen) =
           (if num_gt (parseInt hg) (parseInt ag) then pm_awayTeam f else pm_homeTeam f)"
    and "winner (decide_final (with_goals f hg ag) pen) =
           champion (decide_final (with_goals f hg ag) pen)"
  using assms by (auto simp add: decide_final_def with_goals_def)

lemma updateFinalResult_decisive:
  assumes "bracketStructure eng = Some b" and "pm_homeTeam (final b) \<noteq> None"
      and "num_gt (parseInt hg) (parseInt ag) \<or> num_gt (parseInt ag) (parseInt hg)"
  shows "\<exists>eng' f. updateFinalResult now eng hg ag pen = (eng', Inr f) \<and>
           champion f = (if num_gt (parseInt hg) (parseInt ag)
                         then pm_homeTeam (final b) else pm_awayTeam (final b)) \<and>
           runnerUp f = (if num_gt (parseInt hg) (parseInt ag)
                         then pm_awayTeam (final b) else pm_homeTeam (final b)) \<and>
           winner f = champion f \<and>
           (\<exists>b'. bracketStructure eng' = Some b' \<and> final b' = f \<and>
                 md_champion (metadata b') = champion f \<and>
                 md_runnerUp (metadata b') = runnerUp f \<and>
                 tournamentPhase (metadata b') = Phase_completed)"
proof -
  note d = decide_final_decisive[OF assms(3), where f="final b" and pen=pen]
  note nl = not_level_decisive[OF assms(3), where m="final b"]
  have r: "updateFinalResult now eng hg ag pen =
         (saveBracket
               (eng\<lparr>bracketStructure := Some
                  (b\<lparr>final := decide_final (with_goals (final b) hg ag) pen,
                     metadata := (metadata b)
                       \<lparr>tournamentPhase := Phase_completed,
                        md_champion := champion (decide_final (with_goals (final b) hg ag) pen),
                        md_runnerUp := runnerUp (decide_final (with_goals (final b) hg ag) pen),
                        completedDate := Some now\<rparr>\<rparr>)\<rparr>),
             Inr (decide_final (with_goals (final b) hg ag) pen))"
    unfolding updateFinalResult_def using assms(1,2) nl by simp
  show ?thesis
    unfolding r using d(1-3) by (simp add: saveBracket_def)
qed

lemma memory_phase_updateSemifinalResult:
  assumes "bracketStructure eng = Some b"
  shows "memory_phase (fst (updateSemifinalResult eng matchId hg ag pen)) = memory_phase eng"
proof (cases "find_index (\<lambda>m. pm_id m = matchId) (semifinals b)")
  case None
  then show ?thesis using assms by (simp add: updateSemifinalResult_def)
next
  case (Some i)
  define s1 where "s1 = with_goals (semifinals b ! i) hg ag"
  define b2 where "b2 = b\<lparr>semifinals := (semifinals b)[i := decide_semifinal s1 pen]\<rparr>"
  have e: "updateSemifinalResult eng matchId hg ag pen =
        (if level s1 \<and> pen = None
         then (eng\<lparr>bracketStructure := Some (b\<lparr>semifinals := (semifinals b)[i := s1]\<rparr>)\<rparr>,
               Inl Draw_result_requires_penalty_shootout_result)
         else (case updateBracketProgression b2 of
                 Inl e \<Rightarrow> (eng\<lparr>bracketStructure := Some b2\<rparr>, Inl e)
               | Inr b' \<Rightarrow> (saveBracket (eng\<lparr>bracketStructure := Some b'\<rparr>), Inr (decide_semifinal s1 pen))))"
    unfolding updateSemifinalResult_def b2_def s1_def
    using assms Some by simp
  show ?thesis
  proof (cases "updateBracketProgression b2")
    case (Inl x)
    then show ?thesis unfolding e using assms
      by (simp add: memory_phase_def b2_def)
  next
    case (Inr b')
    then have "metadata b' = metadata b"
      using updateBracketProgression_keeps[OF Inr] by (simp add: b2_def)
    then show ?thesis unfolding e using assms Inr
      by (simp add: memory_phase_def saveBracket_def)
  qed
qed

lemma memory_phase_updateFinalResult:
  assumes "bracketStructure eng = Some b" and "tournamentPhase (metadata b) = Phase_completed"
  shows "memory_phase (fst (updateFinalResult now eng hg ag pen)) = Some Phase_completed"
  unfolding updateFinalResult_def using assms
  by (simp add: memory_phase_def saveBracket_def)

text \<open>
  Claim C9, amended: the playoff engine has no terminal guard.  For the bracket it holds,
  \<open>updateSemifinalResult\<close> with a decisive score succeeds on any semifinal of the bracket,
  resolved or not, and sets its goals, winner and loser from the new score;
  \<open>updateFinalResult\<close> with a decisive score succeeds whenever the final has its home team,
  also when the tournament is already completed, and sets champion and runner-up from the
  new score.  What is kept: \<open>updateSemifinalResult\<close> never changes the tournament phase,
  and \<open>updateFinalResult\<close> leaves a completed tournament completed.
\<close>

theorem C9_no_terminal_guard:
  assumes "bracketStructure eng = Some b"
  shows "(\<forall>i. find_index (\<lambda>m. pm_id m = matchId) (semifinals b) = Some i \<and>
              2 \<le> length (semifinals b) \<and>
              (num_gt (parseInt hg) (parseInt ag) \<or> num_gt (parseInt ag) (parseInt hg)) \<longrightarrow>
            (\<exists>eng' s. updateSemifinalResult eng matchId hg ag pen = (eng', Inr s) \<and>
               pm_homeGoals s = parseInt hg \<and> pm_awayGoals s = parseInt ag \<and>
               pm_status s = Pm_completed \<and>
               winner s = (if num_gt (parseInt hg) (parseInt ag)
                           then pm_homeTeam (semifinals b ! i) else pm_awayTeam (semifinals b ! i)) \<and>
               loser s = (if num_gt (parseInt hg) (parseInt ag)
                          then pm_awayTeam (semifinals b ! i) else pm_homeTeam (semifinals b ! i)) \<and>
               memory_semifinals eng' = (semifinals b)[i := s])) \<and>
         (pm_homeTeam (final b) \<noteq> None \<and>
          (num_gt (parseInt hg) (parseInt ag) \<or> num_gt (parseInt ag) (parseInt hg)) \<longrightarrow>
            (\<exists>eng' f. updateFinalResult now eng hg ag pen = (eng', Inr f) \<and>
               champion f = (if num_gt (parseInt hg) (parseInt ag)
                             then pm_homeTeam (final b) else pm_awayTeam (final b)) \<and>
               runnerUp f = (if num_gt (parseInt hg) (parseInt ag)
                             then pm_awayTeam (final b) else pm_homeTeam (final b)) \<and>
               winner f = champion f \<and>
               (\<exists>b'. bracketStructure eng' = Some b' \<and> final b' = f \<and>
                     md_champion (metadata b') = champion f \<and>
                     md_runnerUp (metadata b') = runnerUp f \<and>
                     tournamentPhase (metadata b') = Phase_completed))) \<and>
         memory_phase (fst (updateSemifinalResult eng matchId hg ag pen)) = memory_phase eng \<and>
         (tournamentPhase (metadata b) = Phase_completed \<longrightarrow>
            memory_phase (fst (updateFinalResult now eng hg ag pen)) = Some Phase_completed)"
proof (intro conjI allI impI)
  fix i
  assume "find_index (\<lambda>m. pm_id m = matchId) (semifinals b) = Some i \<and>
              2 \<le> length (semifinals b) \<and>
              (num_gt (parseInt hg) (parseInt ag) \<or> num_gt (parseInt ag) (parseInt hg))"
  then show "\<exists>eng' s. updateSemifinalResult eng matchId hg ag pen = (eng', Inr s) \<and>
               pm_homeGoals s = parseInt hg \<and> pm_awayGoals s = parseInt ag \<and>
               pm_status s = Pm_completed \<and>
               winner s = (if num_gt (parseInt hg) (parseInt ag)
                           then pm_homeTeam (semifinals b ! i) else pm_awayTeam (semifinals b ! i)) \<and>
               loser s = (if num_gt (parseInt hg) (parseInt ag)
                          then pm_awayTeam (semifinals b ! i) else pm_homeTeam (semifinals b ! i)) \<and>
               memory_semifinals eng' = (semifinals b)[i := s]"
    using updateSemifinalResult_decisive[OF assms] by blast
next
  assume "pm_homeTeam (final b) \<noteq> None \<and>
          (num_gt (parseInt hg) (parseInt ag) \<or> num_gt (parseInt ag) (parseInt hg))"
  then show "\<exists>eng' f. updateFinalResult now eng hg ag pen = (eng', Inr f) \<and>
               champion f = (if num_gt (parseInt hg) (parseInt ag)
                             then pm_homeTeam (final b) else pm_awayTeam (final b)) \<and>
               runnerUp f = (if num_gt (parseInt hg) (parseInt ag)
                             then pm_awayTeam (final b) else pm_homeTeam (final b)) \<and>
               winner f = champion f \<and>
               (\<exists>b'. bracketStructure eng' = Some b' \<and> final b' = f \<and>
                     md_champion (metadata b') = champion f \<and>
                     md_runnerUp (metadata b') = runnerUp f \<and>
                     tournamentPhase (metadata b') = Phase_completed)"
    using updateFinalResult_decisive[OF assms] by blast
next
  show "memory_phase (fst (updateSemifinalResult eng matchId hg ag pen)) = memory_phase eng"
    using assms by (rule memory_phase_updateSemifinalResult)
next
  assume "tournamentPhase (metadata b) = Phase_completed"
  with assms show "memory_phase (fst (updateFinalResult now eng hg ag pen)) = Some Phase_completed"
    by (rule memory_phase_updateFinalResult)
qed

theorem C9_no_terminal_guard_witness:
  "bracketStructure completed_engine = Some completed_bracket \<and>
   find_index (\<lambda>m. pm_id m = ''semi-1'') (semifinals completed_bracket) = Some 0 \<and>
   winner (semifinals completed_bracket ! 0) = Some (example_team ''t1'' ''Alpha'' 1) \<and>
   tournamentPhase (metadata completed_bracket) = Phase_completed \<and>
   (\<exists>eng' s. updateSemifinalResult completed_engine ''semi-1'' (JNum 0) (JNum 3) None = (eng', Inr s) \<and>
      winner s = Some (example_team ''t4'' ''Delta'' 4)) \<and>
   (\<exists>eng' f. updateFinalResult ''t2'' completed_engine (JNum 0) (JNum 3) None = (eng', Inr f) \<and>
      champion f = Some (example_team ''t2'' ''Bravo'' 2)) \<and>
   memory_phase (fst (updateFinalResult ''t2'' completed_engine (JNum 0) (JNum 3) None)) =
     Some Phase_completed"
proof -
  have h: "bracketStructure completed_engine = Some completed_bracket"
    by (simp add: completed_engine_def)
  have f: "find_index (\<lambda>m. pm_id m = ''semi-1'') (semifinals completed_bracket) = Some 0"
    by code_simp
  have l: "2 \<le> length (semifinals completed_bracket)"
    by (simp add: completed_bracket_def resolved_bracket_def)
  have g: "num_gt (parseInt (JNum 0)) (parseInt (JNum 3)) \<or> num_gt (parseInt (JNum 3)) (parseInt (JNum 0))"
          "\<not> num_gt (parseInt (JNum 0)) (parseInt (JNum 3))"
    by (simp_all add: num_gt_def parseInt_def exact_number_def safe_integer_def)
  have w: "winner (semifinals completed_bracket ! 0) = Some (example_team ''t1'' ''Alpha'' 1)"
          "pm_awayTeam (semifinals completed_bracket ! 0) = Some (example_team ''t4'' ''Delta'' 4)"
    by (simp_all add: completed_bracket_def resolved_bracket_def resolved_semi1_def new_semifinal_def)
  have p: "tournamentPhase (metadata completed_bracket) = Phase_completed"
          "pm_homeTeam (final completed_bracket) \<noteq> None"
          "pm_awayTeam (final completed_bracket) = Some (example_team ''t2'' ''Bravo'' 2)"
    by (simp_all add: completed_bracket_def)
  note t = C9_no_terminal_guard [OF h, where matchId="''semi-1''" and hg="JNum 0" and ag="JNum 3"
             and pen=None and now="''t2''"]
  have a: "\<exists>eng' s. updateSemifinalResult completed_engine ''semi-1'' (JNum 0) (JNum 3) None = (eng', Inr s) \<and>
      winner s = Some (example_team ''t4'' ''Delta'' 4)"
    using t[THEN conjunct1, rule_format, of 0] f l g w(2) by auto
  have b: "\<exists>eng' f. updateFinalResult ''t2'' completed_engine (JNum 0) (JNum 3) None = (eng', Inr f) \<and>
      champion f = Some (example_team ''t2'' ''Bravo'' 2)"
    using t[THEN conjunct2, THEN conjunct1] g p(2,3) by auto
  have c: "memory_phase (fst (updateFinalResult ''t2'' completed_engine (JNum 0) (JNum 3) None)) =
     Some Phase_completed"
    using t[THEN conjunct2, THEN conjunct2, THEN conjunct2] p(1) by blast
  show ?thesis using h f w(1) p(1) a b c by (intro conjI)
qed
end
